theory Spec2Isabelle
  imports Complex_Main "HOL-Library.Word"
begin

section \<open>Characters, separators and library string functions\<close>

text \<open>
  The rig-definition parser (\<^verbatim>\<open>RigDef_Parser.cpp\<close>) works on one C string per line.
  A line is modelled as a \<^typ>\<open>string\<close> holding the characters before the terminating
  NUL; the line buffer is zero-filled before every line, so reading past the end of the
  text yields NUL.
\<close>

definition NUL :: char where
  "NUL = char_of (0::nat)"

definition TAB :: char where
  "TAB = char_of (9::nat)"

text \<open>\<^verbatim>\<open>m_current_line[i]\<close> on the zero-filled buffer.\<close>

definition char_at :: "string \<Rightarrow> nat \<Rightarrow> char" where
  "char_at l i = (if i < length l then l ! i else NUL)"

definition IsWhitespace :: "char \<Rightarrow> bool" where
  "IsWhitespace c \<longleftrightarrow> c = CHR '' '' \<or> c = TAB"

definition IsSeparator :: "char \<Rightarrow> bool" where
  "IsSeparator c \<longleftrightarrow> IsWhitespace c \<or> c = CHR '':'' \<or> c = CHR ''|'' \<or> c = CHR '',''"

text \<open>C library \<^verbatim>\<open>tolower\<close>, \<^verbatim>\<open>isspace\<close> and \<^verbatim>\<open>isdigit\<close> in the "C" locale.\<close>

definition tolower :: "char \<Rightarrow> char" where
  "tolower c = (let n = (of_char c :: nat) in if 65 \<le> n \<and> n \<le> 90 then char_of (n + 32) else c)"

definition isspace :: "char \<Rightarrow> bool" where
  "isspace c \<longleftrightarrow> (let n = (of_char c :: nat) in n = 32 \<or> (9 \<le> n \<and> n \<le> 13))"

definition isdigit :: "char \<Rightarrow> bool" where
  "isdigit c \<longleftrightarrow> (let n = (of_char c :: nat) in 48 \<le> n \<and> n \<le> 57)"

definition digit_value :: "char \<Rightarrow> int" where
  "digit_value c = int (of_char c) - 48"

subsection \<open>strtol\<close>

text \<open>
  \<^verbatim>\<open>std::strtol(str, &end, 10)\<close> of the C standard, for a 64-bit \<^verbatim>\<open>long\<close>: leading
  white space, an optional sign, then decimal digits.  The result is the value, the
  number of characters consumed (\<^verbatim>\<open>end - str\<close>; 0 when no digit was found) and whether
  \<^verbatim>\<open>errno\<close> was set to \<^verbatim>\<open>ERANGE\<close>.
\<close>

definition LONG_MAX :: int where
  "LONG_MAX = 2 ^ 63 - 1"

definition LONG_MIN :: int where
  "LONG_MIN = - (2 ^ 63)"

fun strtol_digits :: "string \<Rightarrow> int \<Rightarrow> nat \<Rightarrow> int \<times> nat" where
  "strtol_digits [] acc n = (acc, n)"
| "strtol_digits (c # cs) acc n =
     (if isdigit c then strtol_digits cs (acc * 10 + digit_value c) (Suc n) else (acc, n))"

definition strtol :: "string \<Rightarrow> int \<times> nat \<times> bool" where
  "strtol str =
     (let ws = takeWhile isspace str;
          r1 = dropWhile isspace str;
          neg = (r1 \<noteq> [] \<and> hd r1 = CHR ''-'');
          sgn = (if r1 \<noteq> [] \<and> (hd r1 = CHR ''-'' \<or> hd r1 = CHR ''+'') then 1 else 0);
          (v, n) = strtol_digits (drop sgn r1) 0 0;
          sv = (if neg then - v else v);
          used = length ws + sgn + n
      in if n = 0 then (0, 0, False)
         else if LONG_MAX < sv then (LONG_MAX, used, True)
         else if sv < LONG_MIN then (LONG_MIN, used, True)
         else (sv, used, False))"

text \<open>\<^verbatim>\<open>static_cast<int>\<close> and \<^verbatim>\<open>static_cast<unsigned>\<close> of a \<^verbatim>\<open>long\<close>: reduction to 32 bits.\<close>

definition long_to_int :: "int \<Rightarrow> int" where
  "long_to_int v = sint (word_of_int v :: 32 word)"

definition long_to_unsigned :: "int \<Rightarrow> nat" where
  "long_to_unsigned v = unat (word_of_int v :: 32 word)"

subsection \<open>Ogre string utilities\<close>

text \<open>
  \<^verbatim>\<open>Ogre::StringUtil::split(str, delims)\<close> with the default arguments: the maximal runs
  of non-delimiter characters, in order; empty pieces are dropped, except that the empty
  string yields one empty piece.
\<close>

fun split_pieces :: "string \<Rightarrow> char list \<Rightarrow> string \<Rightarrow> string list" where
  "split_pieces [] delims cur = (if cur = [] then [] else [cur])"
| "split_pieces (c # cs) delims cur =
     (if c \<in> set delims
      then (if cur = [] then split_pieces cs delims [] else cur # split_pieces cs delims [])
      else split_pieces cs delims (cur @ [c]))"

definition split :: "string \<Rightarrow> char list \<Rightarrow> string list" where
  "split str delims = (if str = [] then [[]] else split_pieces str delims [])"

text \<open>\<^verbatim>\<open>Ogre::StringUtil::trim\<close> (both ends; blank, tab, CR and LF) and \<^verbatim>\<open>toLowerCase\<close>.\<close>

definition trim_char :: "char \<Rightarrow> bool" where
  "trim_char c \<longleftrightarrow> (let n = (of_char c :: nat) in n = 32 \<or> n = 9 \<or> n = 13 \<or> n = 10)"

definition trim :: "string \<Rightarrow> string" where
  "trim s = rev (dropWhile trim_char (rev (dropWhile trim_char s)))"

definition toLowerCase :: "string \<Rightarrow> string" where
  "toLowerCase s = map tolower s"

text \<open>\<^verbatim>\<open>strncmp(a, lit, n) == 0\<close> where \<open>n\<close> is the length of the literal \<open>lit\<close>.\<close>

definition starts_with :: "string \<Rightarrow> string \<Rightarrow> bool" where
  "starts_with a lit \<longleftrightarrow> take (length lit) a = lit"

section \<open>Tokenizer\<close>

record Slice =
  slice_start :: nat
  slice_length :: nat

text \<open>
  The loop of \<^verbatim>\<open>Parser::TokenizeCurrentLine\<close>: \<open>pos\<close> is the offset of \<^verbatim>\<open>cur_char\<close>,
  \<open>acc\<close> the finished slices (so \<^verbatim>\<open>cur_arg\<close> is its length), \<open>st\<close> the start written
  into \<^verbatim>\<open>m_args[cur_arg]\<close> and \<open>len\<close> is \<^verbatim>\<open>arg_len\<close>.
\<close>

fun tokenize_loop :: "nat \<Rightarrow> string \<Rightarrow> nat \<Rightarrow> nat \<Rightarrow> nat \<Rightarrow> Slice list \<Rightarrow> Slice list" where
  "tokenize_loop mx [] pos st len acc =
     (if 0 < len then acc @ [\<lparr>slice_start = st, slice_length = len\<rparr>] else acc)"
| "tokenize_loop mx (c # cs) pos st len acc =
     (if length acc < mx then
        (let is_arg = \<not> IsSeparator c in
         if len = 0 \<and> is_arg then tokenize_loop mx cs (Suc pos) pos 1 acc
         else if 0 < len \<and> \<not> is_arg
           then tokenize_loop mx cs (Suc pos) st 0 (acc @ [\<lparr>slice_start = st, slice_length = len\<rparr>])
         else if is_arg then tokenize_loop mx cs (Suc pos) st (Suc len) acc
         else tokenize_loop mx cs (Suc pos) st len acc)
      else (if 0 < len then acc @ [\<lparr>slice_start = st, slice_length = len\<rparr>] else acc))"

definition tokenize :: "nat \<Rightarrow> string \<Rightarrow> Slice list" where
  "tokenize mx l = tokenize_loop mx l 0 0 0 []"

section \<open>Data model\<close>

text \<open>
  The model covers the following part of the file format.  Sections: \<^verbatim>\<open>nodes\<close>,
  \<^verbatim>\<open>nodes2\<close>, \<^verbatim>\<open>beams\<close>, \<^verbatim>\<open>wheels\<close>, \<^verbatim>\<open>engine\<close>, \<^verbatim>\<open>wheeldetachers\<close>, \<^verbatim>\<open>help\<close>,
  \<^verbatim>\<open>camerarail\<close>, \<^verbatim>\<open>cab\<close>, \<^verbatim>\<open>texcoords\<close>, \<^verbatim>\<open>comment\<close> and \<^verbatim>\<open>description\<close>.  Directives:
  the nine flag directives, \<^verbatim>\<open>section\<close>, \<^verbatim>\<open>end_section\<close>, \<^verbatim>\<open>AntiLockBrakes\<close>,
  \<^verbatim>\<open>TractionControl\<close>, \<^verbatim>\<open>detacher_group\<close>, \<^verbatim>\<open>set_node_defaults\<close>, \<^verbatim>\<open>set_inertia_defaults\<close>,
  \<^verbatim>\<open>set_default_minimass\<close>, \<^verbatim>\<open>submesh\<close>, \<^verbatim>\<open>backmesh\<close>, the three block-ending keywords and
  the four obsolete keywords.  Every other keyword of the format is outside the model.
\<close>

datatype Keyword =
    KEYWORD_INVALID
  | KEYWORD_DISABLEDEFAULTSOUNDS
  | KEYWORD_ENABLE_ADVANCED_DEFORMATION
  | KEYWORD_FORWARDCOMMANDS
  | KEYWORD_HIDEINCHOOSER
  | KEYWORD_IMPORTCOMMANDS
  | KEYWORD_LOCKGROUP_DEFAULT_NOLOCK
  | KEYWORD_RESCUER
  | KEYWORD_ROLLON
  | KEYWORD_SLIDENODE_CONNECT_INSTANTLY
  | KEYWORD_END_SECTION
  | KEYWORD_SECTION
  | KEYWORD_ANTILOCKBRAKES
  | KEYWORD_TRACTIONCONTROL
  | KEYWORD_DETACHER_GROUP
  | KEYWORD_SET_DEFAULT_MINIMASS
  | KEYWORD_SET_INERTIA_DEFAULTS
  | KEYWORD_SET_NODE_DEFAULTS
  | KEYWORD_SUBMESH
  | KEYWORD_BACKMESH
  | KEYWORD_END_COMMENT
  | KEYWORD_END_DESCRIPTION
  | KEYWORD_END
  | KEYWORD_ENVMAP
  | KEYWORD_HOOKGROUP
  | KEYWORD_NODECOLLISION
  | KEYWORD_RIGIDIFIERS
  | KEYWORD_BEAMS
  | KEYWORD_CAB
  | KEYWORD_CAMERARAIL
  | KEYWORD_COMMENT
  | KEYWORD_DESCRIPTION
  | KEYWORD_ENGINE
  | KEYWORD_HELP
  | KEYWORD_NODES
  | KEYWORD_NODES2
  | KEYWORD_TEXCOORDS
  | KEYWORD_WHEELDETACHERS
  | KEYWORD_WHEELS

subsection \<open>Diagnostics\<close>

datatype MessageType = CONSOLE_SYSTEM_WARNING | CONSOLE_SYSTEM_ERROR

text \<open>
  The texts passed to \<^verbatim>\<open>Parser::LogMessage\<close>, one constructor per format string, with the
  formatted values as arguments.
\<close>

datatype MsgText =
    Not_enough_arguments nat nat
  | Invalid_option char
  | Ignoring_invalid_option char
  | Must_come_after_submesh
  | Missing_mode
  | No_forward_gear
  | Load_weight_override_without_l
  | Empty_section_camerarail
  | Misplaced_end_section
  | Reenter_current_module
  | Cannot_parse_as_integer nat
  | Not_valid_integer nat
  | Invalid_trailing_characters nat
  | Bad_propulsion nat
  | Bad_braking nat
  | Cannot_parse_as_int string

record Message =
  msg_type :: MessageType
  msg_line :: nat
  msg_keyword :: Keyword
  msg_text :: MsgText

subsection \<open>Records of the document\<close>

datatype RefFlag =
    IMPORT_STATE_IS_VALID
  | REGULAR_STATE_IS_VALID
  | REGULAR_STATE_IS_NAMED
  | IMPORT_STATE_MUST_CHECK_NAMED_FIRST

record NodeRef =
  ref_id_str :: string
  ref_id_num :: nat
  ref_flags :: "RefFlag set"
  ref_line_number :: nat

datatype NodeId = Id_unset | Id_str string | Id_num nat

datatype NodeOption =
    OPTION_l_LOAD_WEIGHT
  | OPTION_n_MOUSE_GRAB
  | OPTION_m_NO_MOUSE_GRAB
  | OPTION_f_NO_SPARKS
  | OPTION_x_EXHAUST_POINT
  | OPTION_y_EXHAUST_DIRECTION
  | OPTION_c_NO_GROUND_CONTACT
  | OPTION_h_HOOK_POINT
  | OPTION_e_TERRAIN_EDIT_POINT
  | OPTION_b_EXTRA_BUOYANCY
  | OPTION_p_NO_PARTICLES
  | OPTION_L_LOG

text \<open>
  Option bitmasks are modelled as sets of flags: each flag of the source is one bit, so
  setting a bit is \<open>insert\<close>, clearing it is removal and testing it is membership.
  \<^verbatim>\<open>float\<close> values are modelled as reals; only comparisons with 0 are made on them.
\<close>

record NodeDefaults =
  load_weight :: real
  friction :: real
  volume :: real
  surface :: real
  nd_options :: "NodeOption set"

record Inertia =
  start_delay_factor :: real
  stop_delay_factor :: real
  start_function :: string
  stop_function :: string

record BeamDefaults =
  springiness :: real
  damping_constant :: real
  deformation_threshold :: real
  breaking_threshold :: real
  visual_beam_diameter :: real

record DefaultMinimass =
  min_mass_Kg :: real

text \<open>
  \<^verbatim>\<open>shared_ptr<NodeDefaults>\<close> and \<^verbatim>\<open>shared_ptr<File::Module>\<close> are addresses into the
  stores of the parser state.  Inertia, beam defaults and the default minimass are never
  written through a shared pointer after they are published, so they are held by value.
\<close>

type_synonym addr = nat

record Node =
  node_id :: NodeId
  position_x :: real
  position_y :: real
  position_z :: real
  node_options :: "NodeOption set"
  load_weight_override :: real
  has_load_weight_override :: bool
  node_node_defaults :: addr
  node_beam_defaults :: BeamDefaults
  node_default_minimass :: "DefaultMinimass option"
  node_detacher_group :: int

datatype BeamOption = OPTION_i_INVISIBLE | OPTION_r_ROPE | OPTION_s_SUPPORT

record Beam =
  beam_defaults :: BeamDefaults
  beam_detacher_group :: int
  beam_nodes :: "NodeRef \<times> NodeRef"
  beam_options :: "BeamOption set"
  extension_break_limit :: real
  has_extension_break_limit :: bool

datatype WheelBraking =
  Braking_NONE | FOOT_HAND | FOOT_HAND_SKID_LEFT | FOOT_HAND_SKID_RIGHT | FOOT_ONLY

datatype WheelPropulsion = Propulsion_NONE | FORWARD | BACKWARD

record Wheel =
  wheel_node_defaults :: addr
  wheel_beam_defaults :: BeamDefaults
  radius :: real
  width :: real
  num_rays :: int
  wheel_nodes :: "NodeRef \<times> NodeRef"
  rigidity_node :: NodeRef
  braking :: WheelBraking
  propulsion :: WheelPropulsion
  reference_arm_node :: NodeRef
  mass :: real
  wheel_springiness :: real
  wheel_damping :: real
  face_material_name :: string
  band_material_name :: string

record WheelDetacher =
  wheel_id :: int
  wd_detacher_group :: int

record Engine =
  shift_down_rpm :: real
  shift_up_rpm :: real
  torque :: real
  global_gear_ratio :: real
  reverse_gear_ratio :: real
  neutral_gear_ratio :: real
  gear_ratios :: "real list"

record Help =
  material :: string

datatype CabOption =
  OPTION_c_CONTACT | OPTION_b_BUOYANT | OPTION_p_10xTOUGHER | OPTION_u_INVULNERABLE

record Cab =
  cab_nodes :: "NodeRef \<times> NodeRef \<times> NodeRef"
  cab_options :: "CabOption set"

record Texcoord =
  texcoord_node :: NodeRef
  texcoord_u :: real
  texcoord_v :: real

record Submesh =
  texcoords :: "Texcoord list"
  cab_triangles :: "Cab list"
  backmesh :: bool

record CameraRail =
  rail_nodes :: "NodeRef list"

record AntiLockBrakes =
  alb_regulation_force :: real
  alb_min_speed :: int
  alb_pulse_per_sec :: real
  alb_attr_is_on :: bool
  alb_attr_no_dashboard :: bool
  alb_attr_no_toggle :: bool

record TractionControl =
  tc_regulation_force :: real
  tc_wheel_slip :: real
  tc_fade_speed :: real
  tc_pulse_per_sec :: real
  tc_attr_is_on :: bool
  tc_attr_no_dashboard :: bool
  tc_attr_no_toggle :: bool

record Module =
  mod_name :: string
  nodes :: "Node list"
  beams :: "Beam list"
  wheels :: "Wheel list"
  wheeldetachers :: "WheelDetacher list"
  engine :: "Engine list"
  help_records :: "Help list"
  camerarail :: "CameraRail list"
  submeshes :: "Submesh list"
  antilockbrakes :: "AntiLockBrakes list"
  tractioncontrol :: "TractionControl list"

record File =
  name :: string
  disable_default_sounds :: bool
  enable_advanced_deformation :: bool
  forward_commands :: bool
  import_commands :: bool
  hide_in_chooser :: bool
  lockgroup_default_nolock :: bool
  rescuer :: bool
  rollon :: bool
  slide_nodes_connect_instantly :: bool
  root_module :: addr
  user_modules :: "string \<rightharpoonup> addr"

subsection \<open>Sequential importer\<close>

text \<open>
  Modelled from the spec: the sequential importer (\<^verbatim>\<open>RigDef_SequentialImporter\<close>, not
  among the sources) "records, in encounter order, every explicit numbered node, every
  explicit named node, and every synthetic-node request from wheel/cinecam-like
  sections".  Its state is the list of these requests and the enabled flag.
\<close>

datatype ImporterEvent =
    AddNumberedNode nat
  | AddNamedNode string
  | GenerateNodesForWheel Keyword int bool

record SequentialImporter =
  si_enabled :: bool
  si_events :: "ImporterEvent list"

definition IsEnabled :: "SequentialImporter \<Rightarrow> bool" where
  "IsEnabled imp = si_enabled imp"

definition importer_Init :: "bool \<Rightarrow> SequentialImporter" where
  "importer_Init enabled = \<lparr>si_enabled = enabled, si_events = []\<rparr>"

definition importer_record :: "ImporterEvent \<Rightarrow> SequentialImporter \<Rightarrow> SequentialImporter" where
  "importer_record ev imp = imp\<lparr>si_events := si_events imp @ [ev]\<rparr>"

section \<open>Declarations and collaborators outside the sources\<close>

text \<open>
  The parser uses constants, constructors and library functions that are declared in
  headers or libraries outside the sources at hand.  They are parameters of the model:
  \<^item> \<open>LINE_MAX_ARGS\<close>, \<open>LINE_BUFFER_LENGTH\<close> and \<open>ROOT_MODULE_NAME\<close>;
  \<^item> \<open>parseReal\<close> is \<^verbatim>\<open>Ogre::StringConverter::parseReal(str, 0.f)\<close> and \<open>PARSEINT\<close> the
    macro of that name;
  \<^item> \<open>IDENTIFY_KEYWORD_RESPECT_CASE\<close> and \<open>IDENTIFY_KEYWORD_IGNORE_CASE\<close> give, for a
    line, the \<^verbatim>\<open>matched\<close> flags of the sub-matches 1, 2, ... of the regular expression
    of that name, and \<open>Keyword_enum\<close> is the numbering of the \<^verbatim>\<open>Keyword\<close> enumeration;
  \<^item> \<open>replace_invalid\<close> is \<^verbatim>\<open>utf8::replace_invalid\<close> with the replacement \<^verbatim>\<open>'?'\<close>;
  \<^item> \<open>new_X\<close> is the default-constructed value of the structure \<open>X\<close>;
  \<^item> \<open>WheelBraking_int\<close> and \<open>WheelPropulsion_int\<close> are the numberings of the two
    enumerations, and the five beam constants come from \<^verbatim>\<open>SimConstants.h\<close>.
\<close>

record Env =
  LINE_MAX_ARGS :: nat
  LINE_BUFFER_LENGTH :: nat
  ROOT_MODULE_NAME :: string
  parseReal :: "string \<Rightarrow> real"
  PARSEINT :: "string \<Rightarrow> int"
  IDENTIFY_KEYWORD_RESPECT_CASE :: "string \<Rightarrow> bool list"
  IDENTIFY_KEYWORD_IGNORE_CASE :: "string \<Rightarrow> bool list"
  Keyword_enum :: "nat \<Rightarrow> Keyword"
  replace_invalid :: "string \<Rightarrow> string"
  new_NodeDefaults :: NodeDefaults
  new_Inertia :: Inertia
  new_Node :: Node
  new_Beam :: Beam
  new_Cab :: Cab
  new_Submesh :: Submesh
  new_AntiLockBrakes :: AntiLockBrakes
  new_TractionControl :: TractionControl
  new_Ref :: NodeRef
  WheelBraking_int :: "WheelBraking \<Rightarrow> int"
  WheelPropulsion_int :: "WheelPropulsion \<Rightarrow> int"
  DEFAULT_SPRING :: real
  DEFAULT_DAMP :: real
  BEAM_DEFORM :: real
  BEAM_BREAK :: real
  DEFAULT_BEAM_DIAMETER :: real

section \<open>Parser state\<close>

record Parser =
  m_current_line :: string
  m_args :: "Slice list"
  m_num_args :: nat
  m_current_block :: Keyword
  m_log_keyword :: Keyword
  m_current_line_number :: nat
  m_definition :: File
  module_store :: "addr \<Rightarrow> Module"
  module_next :: addr
  m_root_module :: addr
  m_current_module :: addr
  node_defaults_store :: "addr \<Rightarrow> NodeDefaults"
  node_defaults_next :: addr
  m_ror_node_defaults :: addr
  m_user_node_defaults :: addr
  m_ror_default_inertia :: Inertia
  m_user_default_inertia :: Inertia
  m_user_beam_defaults :: BeamDefaults
  m_set_default_minimass :: "DefaultMinimass option"
  m_current_detacher_group :: int
  m_any_named_node_defined :: bool
  m_current_submesh :: "Submesh option"
  m_current_camera_rail :: "CameraRail option"
  m_sequential_importer :: SequentialImporter
  console :: "Message list"

text \<open>
  A dereference of a null pointer and an access past the end of a \<^verbatim>\<open>std::vector\<close> have
  no defined behaviour; the model stops with a fault there.
\<close>

datatype fault = NullPointer | OutOfRange

text \<open>\<^verbatim>\<open>Parser::LogMessage\<close>: the console receives the line number, the logged keyword and the text.\<close>

definition LogMessage :: "MessageType \<Rightarrow> MsgText \<Rightarrow> Parser \<Rightarrow> Parser" where
  "LogMessage type msg s =
     s\<lparr>console := console s @
          [\<lparr>msg_type = type, msg_line = m_current_line_number s,
            msg_keyword = m_log_keyword s, msg_text = msg\<rparr>]\<rparr>"

text \<open>The module that \<^verbatim>\<open>m_current_module\<close> points to, and a write through that pointer.\<close>

definition current_module :: "Parser \<Rightarrow> Module" where
  "current_module s = module_store s (m_current_module s)"

definition update_current_module :: "(Module \<Rightarrow> Module) \<Rightarrow> Parser \<Rightarrow> Parser" where
  "update_current_module f s =
     s\<lparr>module_store := (module_store s)(m_current_module s := f (current_module s))\<rparr>"

text \<open>The node defaults that \<^verbatim>\<open>m_user_node_defaults\<close> and \<^verbatim>\<open>m_ror_node_defaults\<close> point to.\<close>

definition user_node_defaults :: "Parser \<Rightarrow> NodeDefaults" where
  "user_node_defaults s = node_defaults_store s (m_user_node_defaults s)"

definition ror_node_defaults :: "Parser \<Rightarrow> NodeDefaults" where
  "ror_node_defaults s = node_defaults_store s (m_ror_node_defaults s)"

subsection \<open>Construction and \<^verbatim>\<open>Prepare\<close>\<close>

text \<open>
  Modelled from the spec: the constructors of \<^verbatim>\<open>File\<close> and \<^verbatim>\<open>File::Module\<close>
  (\<^verbatim>\<open>RigDef_File\<close>, not among the sources).  "Document: has a display name ..., a set of
  boolean global flags ..., a root Module, and a mapping from module name to Module";
  "named modules are created lazily"; a module is "an ordered collection of Records",
  append-only, so it starts empty.
\<close>

definition Module_ctor :: "string \<Rightarrow> Module" where
  "Module_ctor n =
     \<lparr>mod_name = n, nodes = [], beams = [], wheels = [], wheeldetachers = [], engine = [],
      help_records = [], camerarail = [], submeshes = [], antilockbrakes = [],
      tractioncontrol = []\<rparr>"

definition File_ctor :: "addr \<Rightarrow> File" where
  "File_ctor root_addr =
     \<lparr>name = [], disable_default_sounds = False, enable_advanced_deformation = False,
      forward_commands = False, import_commands = False, hide_in_chooser = False,
      lockgroup_default_nolock = False, rescuer = False, rollon = False,
      slide_nodes_connect_instantly = False, root_module = root_addr, user_modules = Map.empty\<rparr>"

text \<open>
  \<^verbatim>\<open>Parser::Parser()\<close> allocates the two engine defaults.  The members that \<^verbatim>\<open>Prepare\<close>
  assigns are not initialised by the constructor; the three staging pointers start null.
\<close>

definition Parser_ctor :: "Env \<Rightarrow> Parser" where
  "Parser_ctor E =
     \<lparr>m_current_line = [],
      m_args = replicate (LINE_MAX_ARGS E) \<lparr>slice_start = 0, slice_length = 0\<rparr>,
      m_num_args = 0,
      m_current_block = KEYWORD_INVALID,
      m_log_keyword = KEYWORD_INVALID,
      m_current_line_number = 0,
      m_definition = File_ctor 0,
      module_store = (\<lambda>a. Module_ctor []),
      module_next = 0,
      m_root_module = 0,
      m_current_module = 0,
      node_defaults_store = (\<lambda>a. new_NodeDefaults E),
      node_defaults_next = 1,
      m_ror_node_defaults = 0,
      m_user_node_defaults = 0,
      m_ror_default_inertia = new_Inertia E,
      m_user_default_inertia = new_Inertia E,
      m_user_beam_defaults =
        \<lparr>springiness = 0, damping_constant = 0, deformation_threshold = 0,
         breaking_threshold = 0, visual_beam_diameter = 0\<rparr>,
      m_set_default_minimass = None,
      m_current_detacher_group = 0,
      m_any_named_node_defined = False,
      m_current_submesh = None,
      m_current_camera_rail = None,
      m_sequential_importer = importer_Init False,
      console = []\<rparr>"

definition Prepare :: "Env \<Rightarrow> Parser \<Rightarrow> Parser" where
  "Prepare E s =
     (let root_addr = module_next s in
      s\<lparr>m_current_block := KEYWORD_INVALID,
        m_current_line_number := 1,
        m_definition := File_ctor root_addr,
        module_store := (module_store s)(root_addr := Module_ctor (ROOT_MODULE_NAME E)),
        module_next := Suc root_addr,
        m_any_named_node_defined := False,
        m_current_detacher_group := 0,
        m_user_default_inertia := m_ror_default_inertia s,
        m_user_node_defaults := m_ror_node_defaults s,
        m_user_beam_defaults :=
          \<lparr>springiness = DEFAULT_SPRING E, damping_constant = DEFAULT_DAMP E,
           deformation_threshold = BEAM_DEFORM E, breaking_threshold = BEAM_BREAK E,
           visual_beam_diameter = DEFAULT_BEAM_DIAMETER E\<rparr>,
        m_root_module := root_addr,
        m_current_module := root_addr,
        m_sequential_importer := importer_Init True\<rparr>)"

section \<open>Tokens and typed argument decoders\<close>

definition TokenizeCurrentLine :: "Env \<Rightarrow> Parser \<Rightarrow> Parser" where
  "TokenizeCurrentLine E s =
     (let toks = tokenize (LINE_MAX_ARGS E) (m_current_line s) in
      s\<lparr>m_args := toks @ drop (length toks) (m_args s), m_num_args := length toks\<rparr>)"

text \<open>
  \<^verbatim>\<open>m_args[index]\<close>.  The array has \<open>LINE_MAX_ARGS\<close> entries; those at \<^verbatim>\<open>m_num_args\<close> and
  above are left from earlier lines.  The parsers of the model read an index below
  \<^verbatim>\<open>m_num_args\<close> or below a checked minimum, except \<^verbatim>\<open>ParseCameraRails\<close>, which reads
  index 0 unchecked.
\<close>

definition arg_slice :: "Parser \<Rightarrow> nat \<Rightarrow> Slice" where
  "arg_slice s index =
     (if index < length (m_args s) then m_args s ! index
      else \<lparr>slice_start = 0, slice_length = 0\<rparr>)"

text \<open>The C string that starts at \<^verbatim>\<open>m_args[index].start\<close>.\<close>

definition arg_cstr :: "Parser \<Rightarrow> nat \<Rightarrow> string" where
  "arg_cstr s index = drop (slice_start (arg_slice s index)) (m_current_line s)"

text \<open>
  \<^verbatim>\<open>std::string(m_args[index].start, m_args[index].length)\<close>: that many bytes of the line
  buffer, zero bytes included.  \<^verbatim>\<open>ProcessRawLine\<close> clears the buffer before it copies a
  line into it, so the line is followed by zero bytes; a slice that is left from an
  earlier, longer line reaches them.
\<close>

definition GetArgStr :: "Parser \<Rightarrow> nat \<Rightarrow> string" where
  "GetArgStr s index =
     take (slice_length (arg_slice s index))
       (drop (slice_start (arg_slice s index))
          (m_current_line s @
             replicate (slice_start (arg_slice s index) + slice_length (arg_slice s index)) NUL))"

definition CheckNumArguments :: "nat \<Rightarrow> Parser \<Rightarrow> bool \<times> Parser" where
  "CheckNumArguments min_args s =
     (if m_num_args s < min_args
      then (False, LogMessage CONSOLE_SYSTEM_WARNING
                     (Not_enough_arguments (m_num_args s) min_args) s)
      else (True, s))"

definition GetArgLong :: "Parser \<Rightarrow> nat \<Rightarrow> int \<times> Parser" where
  "GetArgLong s index =
     (let (res, used, erange) = strtol (arg_cstr s index) in
      if erange
        then (0, LogMessage CONSOLE_SYSTEM_ERROR (Cannot_parse_as_integer (index + 1)) s)
      else if used = 0
        then (0, LogMessage CONSOLE_SYSTEM_ERROR (Not_valid_integer (index + 1)) s)
      else if used \<noteq> slice_length (arg_slice s index)
        then (res, LogMessage CONSOLE_SYSTEM_WARNING (Invalid_trailing_characters (index + 1)) s)
      else (res, s))"

definition GetArgInt :: "Parser \<Rightarrow> nat \<Rightarrow> int \<times> Parser" where
  "GetArgInt s index = (let (res, s') = GetArgLong s index in (long_to_int res, s'))"

definition GetArgUint :: "Parser \<Rightarrow> nat \<Rightarrow> nat \<times> Parser" where
  "GetArgUint s index = (let (res, s') = GetArgLong s index in (long_to_unsigned res, s'))"

definition GetArgFloat :: "Env \<Rightarrow> Parser \<Rightarrow> nat \<Rightarrow> real" where
  "GetArgFloat E s index = parseReal E (GetArgStr s index)"

definition ParseArgFloat :: "Env \<Rightarrow> string \<Rightarrow> real" where
  "ParseArgFloat E str = parseReal E str"

definition ParseArgUint :: "Parser \<Rightarrow> string \<Rightarrow> nat \<times> Parser" where
  "ParseArgUint s str =
     (let (res, used, erange) = strtol str in
      if erange then (0, LogMessage CONSOLE_SYSTEM_ERROR (Cannot_parse_as_int str) s)
      else (long_to_unsigned res, s))"

definition ParseArgInt :: "Parser \<Rightarrow> string \<Rightarrow> int \<times> Parser" where
  "ParseArgInt s str =
     (let (u, s') = ParseArgUint s str in (sint (word_of_int (int u) :: 32 word), s'))"

text \<open>\<^verbatim>\<open>Parser::_ParseNodeRef\<close>.\<close>

definition ParseNodeRef :: "Env \<Rightarrow> Parser \<Rightarrow> string \<Rightarrow> NodeRef" where
  "ParseNodeRef E s node_id_str =
     (if IsEnabled (m_sequential_importer s) then
        (let n = PARSEINT E node_id_str;
             node_id_num = (if n < 0 then - n else n);
             flags = {IMPORT_STATE_IS_VALID, REGULAR_STATE_IS_VALID, REGULAR_STATE_IS_NAMED};
             flags' = (if m_any_named_node_defined s
                       then insert IMPORT_STATE_MUST_CHECK_NAMED_FIRST flags else flags)
         in \<lparr>ref_id_str = node_id_str, ref_id_num = nat node_id_num, ref_flags = flags',
             ref_line_number = m_current_line_number s\<rparr>)
      else \<lparr>ref_id_str = node_id_str, ref_id_num = 0,
            ref_flags = {REGULAR_STATE_IS_VALID, REGULAR_STATE_IS_NAMED},
            ref_line_number = m_current_line_number s\<rparr>)"

definition GetArgNodeRef :: "Env \<Rightarrow> Parser \<Rightarrow> nat \<Rightarrow> NodeRef" where
  "GetArgNodeRef E s index = ParseNodeRef E s (GetArgStr s index)"

definition GetArgRigidityNode :: "Env \<Rightarrow> Parser \<Rightarrow> nat \<Rightarrow> NodeRef" where
  "GetArgRigidityNode E s index =
     (if GetArgStr s index \<noteq> ''9999'' then GetArgNodeRef E s index else new_Ref E)"

text \<open>\<^verbatim>\<open>Node::Ref::IsValidAnyState\<close>: one of the two validity flags is set.\<close>

definition IsValidAnyState :: "NodeRef \<Rightarrow> bool" where
  "IsValidAnyState r \<longleftrightarrow>
     IMPORT_STATE_IS_VALID \<in> ref_flags r \<or> REGULAR_STATE_IS_VALID \<in> ref_flags r"

definition GetArgPropulsion :: "Env \<Rightarrow> Parser \<Rightarrow> nat \<Rightarrow> WheelPropulsion \<times> Parser" where
  "GetArgPropulsion E s index =
     (let (p, s') = GetArgInt s index in
      case find (\<lambda>e. WheelPropulsion_int E e = p) [Propulsion_NONE, FORWARD, BACKWARD] of
        Some e \<Rightarrow> (e, s')
      | None \<Rightarrow> (Propulsion_NONE,
                 LogMessage CONSOLE_SYSTEM_ERROR (Bad_propulsion (index + 1)) s'))"

definition GetArgBraking :: "Env \<Rightarrow> Parser \<Rightarrow> nat \<Rightarrow> WheelBraking \<times> Parser" where
  "GetArgBraking E s index =
     (let (b, s') = GetArgInt s index in
      case find (\<lambda>e. WheelBraking_int E e = b)
             [Braking_NONE, FOOT_HAND, FOOT_HAND_SKID_LEFT, FOOT_HAND_SKID_RIGHT, FOOT_ONLY] of
        Some e \<Rightarrow> (e, s')
      | None \<Rightarrow> (Braking_NONE,
                 LogMessage CONSOLE_SYSTEM_ERROR (Bad_braking (index + 1)) s'))"

section \<open>Block state and module switching\<close>

text \<open>
  The branch \<^verbatim>\<open>keyword == KEYWORD_INVALID\<close> of \<^verbatim>\<open>Parser::BeginBlock\<close>: the staged
  submesh and the staged camera rail are flushed.
\<close>

definition flush_staged :: "Parser \<Rightarrow> Parser" where
  "flush_staged s =
     (let s1 = (case m_current_submesh s of
                  Some sm \<Rightarrow>
                    (update_current_module (\<lambda>m. m\<lparr>submeshes := submeshes m @ [sm]\<rparr>) s)
                      \<lparr>m_current_submesh := None\<rparr>
                | None \<Rightarrow> s)
      in case m_current_camera_rail s1 of
           None \<Rightarrow> s1
         | Some cr \<Rightarrow>
             if length (rail_nodes cr) = 0
             then LogMessage CONSOLE_SYSTEM_WARNING Empty_section_camerarail s1
             else (update_current_module (\<lambda>m. m\<lparr>camerarail := camerarail m @ [cr]\<rparr>) s1)
                    \<lparr>m_current_camera_rail := None\<rparr>)"

text \<open>
  \<^verbatim>\<open>Parser::BeginBlock\<close>.  The recursive call for \<^verbatim>\<open>KEYWORD_CAMERARAIL\<close> is the flush
  followed by the assignment of \<^verbatim>\<open>KEYWORD_INVALID\<close> to the current block.
\<close>

definition BeginBlock :: "Keyword \<Rightarrow> Parser \<Rightarrow> Parser" where
  "BeginBlock keyword s =
     (let s1 = (if keyword = KEYWORD_INVALID then flush_staged s
                else if keyword = KEYWORD_CAMERARAIL
                  then ((flush_staged s)\<lparr>m_current_block := KEYWORD_INVALID\<rparr>)
                         \<lparr>m_current_camera_rail := Some \<lparr>rail_nodes = []\<rparr>\<rparr>
                else s)
      in s1\<lparr>m_current_block := keyword\<rparr>)"

text \<open>The part "Perform the switch" of \<^verbatim>\<open>Parser::ProcessChangeModuleLine\<close>.\<close>

definition switch_module :: "Env \<Rightarrow> string \<Rightarrow> Parser \<Rightarrow> Parser" where
  "switch_module E new_module_name s =
     (let s1 = BeginBlock KEYWORD_INVALID s in
      if new_module_name = ROOT_MODULE_NAME E then s1\<lparr>m_current_module := m_root_module s1\<rparr>
      else case user_modules (m_definition s1) new_module_name of
             Some a \<Rightarrow> s1\<lparr>m_current_module := a\<rparr>
           | None \<Rightarrow>
               (let a = module_next s1 in
                s1\<lparr>module_store := (module_store s1)(a := Module_ctor new_module_name),
                   module_next := Suc a,
                   m_current_module := a,
                   m_definition := (m_definition s1)
                     \<lparr>user_modules := (user_modules (m_definition s1))(new_module_name \<mapsto> a)\<rparr>\<rparr>))"

definition ProcessChangeModuleLine :: "Env \<Rightarrow> Keyword \<Rightarrow> Parser \<Rightarrow> Parser" where
  "ProcessChangeModuleLine E keyword s =
     (if keyword = KEYWORD_END_SECTION then
        (if m_current_module s = m_root_module s
         then LogMessage CONSOLE_SYSTEM_ERROR Misplaced_end_section s
         else switch_module E (ROOT_MODULE_NAME E) s)
      else if keyword = KEYWORD_SECTION then
        (case CheckNumArguments 3 s of
           (False, s1) \<Rightarrow> s1
         | (True, s1) \<Rightarrow>
             (let new_module_name = GetArgStr s1 2 in
              if new_module_name = mod_name (current_module s1)
              then LogMessage CONSOLE_SYSTEM_ERROR Reenter_current_module s1
              else switch_module E new_module_name s1))
      else switch_module E [] s)"

definition ParseDirectiveSection :: "Env \<Rightarrow> Parser \<Rightarrow> Parser" where
  "ParseDirectiveSection E s = ProcessChangeModuleLine E KEYWORD_SECTION s"

text \<open>
  \<^verbatim>\<open>Parser::Finalize\<close>.  \<open>Process\<close> stands for \<^verbatim>\<open>m_sequential_importer.Process\<close>, which is
  not among the sources.
\<close>

definition Finalize :: "(Parser \<Rightarrow> Parser) \<Rightarrow> Parser \<Rightarrow> Parser" where
  "Finalize Process s =
     (let s1 = BeginBlock KEYWORD_INVALID s in
      if IsEnabled (m_sequential_importer s1) then Process s1 else s1)"

section \<open>Directives\<close>

definition ProcessGlobalDirective :: "Keyword \<Rightarrow> Parser \<Rightarrow> Parser" where
  "ProcessGlobalDirective keyword s =
     (let d = m_definition s in
      case keyword of
        KEYWORD_DISABLEDEFAULTSOUNDS \<Rightarrow> s\<lparr>m_definition := d\<lparr>disable_default_sounds := True\<rparr>\<rparr>
      | KEYWORD_ENABLE_ADVANCED_DEFORMATION \<Rightarrow>
          s\<lparr>m_definition := d\<lparr>enable_advanced_deformation := True\<rparr>\<rparr>
      | KEYWORD_FORWARDCOMMANDS \<Rightarrow> s\<lparr>m_definition := d\<lparr>forward_commands := True\<rparr>\<rparr>
      | KEYWORD_IMPORTCOMMANDS \<Rightarrow> s\<lparr>m_definition := d\<lparr>import_commands := True\<rparr>\<rparr>
      | KEYWORD_HIDEINCHOOSER \<Rightarrow> s\<lparr>m_definition := d\<lparr>hide_in_chooser := True\<rparr>\<rparr>
      | KEYWORD_LOCKGROUP_DEFAULT_NOLOCK \<Rightarrow>
          s\<lparr>m_definition := d\<lparr>lockgroup_default_nolock := True\<rparr>\<rparr>
      | KEYWORD_RESCUER \<Rightarrow> s\<lparr>m_definition := d\<lparr>rescuer := True\<rparr>\<rparr>
      | KEYWORD_ROLLON \<Rightarrow> s\<lparr>m_definition := d\<lparr>rollon := True\<rparr>\<rparr>
      | KEYWORD_SLIDENODE_CONNECT_INSTANTLY \<Rightarrow>
          s\<lparr>m_definition := d\<lparr>slide_nodes_connect_instantly := True\<rparr>\<rparr>
      | _ \<Rightarrow> s)"

text \<open>\<^verbatim>\<open>Parser::_ParseNodeOptions\<close>: the options are cleared, then set character by character.\<close>

fun ParseNodeOptions_loop ::
  "string \<Rightarrow> NodeOption set \<Rightarrow> Parser \<Rightarrow> NodeOption set \<times> Parser" where
  "ParseNodeOptions_loop [] opts s = (opts, s)"
| "ParseNodeOptions_loop (c # cs) opts s =
     (if c = CHR ''l'' then ParseNodeOptions_loop cs (insert OPTION_l_LOAD_WEIGHT opts) s
      else if c = CHR ''n''
        then ParseNodeOptions_loop cs (insert OPTION_n_MOUSE_GRAB opts - {OPTION_m_NO_MOUSE_GRAB}) s
      else if c = CHR ''m''
        then ParseNodeOptions_loop cs (insert OPTION_m_NO_MOUSE_GRAB opts - {OPTION_n_MOUSE_GRAB}) s
      else if c = CHR ''f'' then ParseNodeOptions_loop cs (insert OPTION_f_NO_SPARKS opts) s
      else if c = CHR ''x'' then ParseNodeOptions_loop cs (insert OPTION_x_EXHAUST_POINT opts) s
      else if c = CHR ''y'' then ParseNodeOptions_loop cs (insert OPTION_y_EXHAUST_DIRECTION opts) s
      else if c = CHR ''c'' then ParseNodeOptions_loop cs (insert OPTION_c_NO_GROUND_CONTACT opts) s
      else if c = CHR ''h'' then ParseNodeOptions_loop cs (insert OPTION_h_HOOK_POINT opts) s
      else if c = CHR ''e'' then ParseNodeOptions_loop cs (insert OPTION_e_TERRAIN_EDIT_POINT opts) s
      else if c = CHR ''b'' then ParseNodeOptions_loop cs (insert OPTION_b_EXTRA_BUOYANCY opts) s
      else if c = CHR ''p'' then ParseNodeOptions_loop cs (insert OPTION_p_NO_PARTICLES opts) s
      else if c = CHR ''L'' then ParseNodeOptions_loop cs (insert OPTION_L_LOG opts) s
      else ParseNodeOptions_loop cs opts
             (LogMessage CONSOLE_SYSTEM_WARNING (Invalid_option c) s))"

definition ParseNodeOptions :: "Parser \<Rightarrow> string \<Rightarrow> NodeOption set \<times> Parser" where
  "ParseNodeOptions s options_str = ParseNodeOptions_loop options_str {} s"

text \<open>
  \<^verbatim>\<open>Parser::ParseDirectiveSetNodeDefaults\<close>.  The new object is allocated at the next free
  address of the store as a copy of the current one; the four scalars and the options
  are then written through the new pointer.
\<close>

definition ParseDirectiveSetNodeDefaults :: "Env \<Rightarrow> Parser \<Rightarrow> Parser" where
  "ParseDirectiveSetNodeDefaults E s =
     (case CheckNumArguments 2 s of
        (False, s1) \<Rightarrow> s1
      | (True, s1) \<Rightarrow>
          (let load_weight_v = GetArgFloat E s1 1;
               friction_v = (if 2 < m_num_args s1 then GetArgFloat E s1 2 else - 1);
               volume_v = (if 3 < m_num_args s1 then GetArgFloat E s1 3 else - 1);
               surface_v = (if 4 < m_num_args s1 then GetArgFloat E s1 4 else - 1);
               opt_str = (if 5 < m_num_args s1 then GetArgStr s1 5 else []);
               a = node_defaults_next s1;
               s2 = s1\<lparr>node_defaults_store := (node_defaults_store s1)(a := user_node_defaults s1),
                      node_defaults_next := Suc a,
                      m_user_node_defaults := a\<rparr>;
               ror = ror_node_defaults s2;
               s3 = s2\<lparr>node_defaults_store := (node_defaults_store s2)
                      (a := (node_defaults_store s2 a)
                         \<lparr>load_weight := (if load_weight_v < 0 then load_weight ror else load_weight_v),
                          friction := (if friction_v < 0 then friction ror else friction_v),
                          volume := (if volume_v < 0 then volume ror else volume_v),
                          surface := (if surface_v < 0 then surface ror else surface_v)\<rparr>)\<rparr>;
               (opts, s4) = ParseNodeOptions s3 opt_str
           in s4\<lparr>node_defaults_store := (node_defaults_store s4)
                   (a := (node_defaults_store s4 a)\<lparr>nd_options := opts\<rparr>)\<rparr>))"

definition ParseDirectiveSetInertiaDefaults :: "Env \<Rightarrow> Parser \<Rightarrow> Parser" where
  "ParseDirectiveSetInertiaDefaults E s =
     (case CheckNumArguments 2 s of
        (False, s1) \<Rightarrow> s1
      | (True, s1) \<Rightarrow>
          (let start_delay = GetArgFloat E s1 1;
               stop_delay = (if 2 < m_num_args s1 then GetArgFloat E s1 2 else 0)
           in if start_delay < 0 \<or> stop_delay < 0
              then s1\<lparr>m_user_default_inertia := m_ror_default_inertia s1\<rparr>
              else
                (let i1 = (m_user_default_inertia s1)
                            \<lparr>start_delay_factor := start_delay, stop_delay_factor := stop_delay\<rparr>;
                     i2 = (if 3 < m_num_args s1 then i1\<lparr>start_function := GetArgStr s1 3\<rparr> else i1);
                     i3 = (if 4 < m_num_args s1 then i2\<lparr>stop_function := GetArgStr s1 4\<rparr> else i2)
                 in s1\<lparr>m_user_default_inertia := i3\<rparr>)))"

definition ParseDirectiveSetDefaultMinimass :: "Env \<Rightarrow> Parser \<Rightarrow> Parser" where
  "ParseDirectiveSetDefaultMinimass E s =
     (case CheckNumArguments 2 s of
        (False, s1) \<Rightarrow> s1
      | (True, s1) \<Rightarrow> s1\<lparr>m_set_default_minimass := Some \<lparr>min_mass_Kg = GetArgFloat E s1 1\<rparr>\<rparr>)"

definition ParseDirectiveDetacherGroup :: "Parser \<Rightarrow> Parser" where
  "ParseDirectiveDetacherGroup s =
     (case CheckNumArguments 2 s of
        (False, s1) \<Rightarrow> s1
      | (True, s1) \<Rightarrow>
          if GetArgStr s1 1 = ''end'' then s1\<lparr>m_current_detacher_group := 0\<rparr>
          else (let (g, s2) = GetArgInt s1 1 in s2\<lparr>m_current_detacher_group := g\<rparr>))"

definition ParseDirectiveSubmesh :: "Env \<Rightarrow> Parser \<Rightarrow> Parser" where
  "ParseDirectiveSubmesh E s =
     (BeginBlock KEYWORD_INVALID s)\<lparr>m_current_submesh := Some (new_Submesh E)\<rparr>"

definition ParseDirectiveBackmesh :: "Parser \<Rightarrow> Parser" where
  "ParseDirectiveBackmesh s =
     (case m_current_submesh s of
        Some sm \<Rightarrow> s\<lparr>m_current_submesh := Some (sm\<lparr>backmesh := True\<rparr>)\<rparr>
      | None \<Rightarrow> LogMessage CONSOLE_SYSTEM_ERROR Must_come_after_submesh s)"

subsection \<open>\<^verbatim>\<open>AntiLockBrakes\<close> and \<^verbatim>\<open>TractionControl\<close>\<close>

text \<open>
  The three attributes of both structures, as (\<open>attr_no_dashboard\<close>, \<open>attr_no_toggle\<close>,
  \<open>attr_is_on\<close>).  The two parsers contain the same loop over the attribute list.
\<close>

type_synonym mode_attrs = "bool \<times> bool \<times> bool"

fun mode_attr_loop :: "string list \<Rightarrow> mode_attrs \<Rightarrow> mode_attrs" where
  "mode_attr_loop [] attrs = attrs"
| "mode_attr_loop (x # xs) (no_dashboard, no_toggle, is_on) =
     (let attr = toLowerCase (trim x) in
      if starts_with attr ''nodash'' then mode_attr_loop xs (True, no_toggle, is_on)
      else if starts_with attr ''notoggle'' then mode_attr_loop xs (no_dashboard, True, is_on)
      else if starts_with attr ''on'' then mode_attr_loop xs (no_dashboard, no_toggle, True)
      else if starts_with attr ''off'' then mode_attr_loop xs (no_dashboard, no_toggle, False)
      else mode_attr_loop xs (no_dashboard, no_toggle, is_on))"

text \<open>
  The loop over the trailing tokens.  \<^verbatim>\<open>args2[0]\<close> is read before the size of \<^verbatim>\<open>args2\<close> is
  looked at, so a token made of colons only is an access past the end.
\<close>

fun mode_token_loop ::
  "string list \<Rightarrow> mode_attrs \<Rightarrow> Parser \<Rightarrow> fault + (mode_attrs \<times> Parser)" where
  "mode_token_loop [] attrs s = Inr (attrs, s)"
| "mode_token_loop (tok # toks) attrs s =
     (case split tok '':'' of
        [] \<Rightarrow> Inl OutOfRange
      | a0 # rest \<Rightarrow>
          if toLowerCase (trim a0) = ''mode'' \<and> length (a0 # rest) = 2
          then mode_token_loop toks (mode_attr_loop (split (hd rest) ''&'') attrs) s
          else mode_token_loop toks (False, False, True)
                 (LogMessage CONSOLE_SYSTEM_ERROR Missing_mode s))"

definition ParseAntiLockBrakes :: "Env \<Rightarrow> Parser \<Rightarrow> fault + Parser" where
  "ParseAntiLockBrakes E s =
     (let tokens = split (drop 15 (m_current_line s)) '','' in
      case CheckNumArguments 2 (s\<lparr>m_num_args := length tokens\<rparr>) of
        (False, s1) \<Rightarrow> Inr s1
      | (True, s1) \<Rightarrow>
          (let alb0 = (new_AntiLockBrakes E)\<lparr>alb_regulation_force := ParseArgFloat E (tokens ! 0)\<rparr>;
               (ms, s2) = ParseArgInt s1 (tokens ! 1);
               alb1 = alb0\<lparr>alb_min_speed := ms\<rparr>;
               alb2 = (if 3 < length tokens
                       then alb1\<lparr>alb_pulse_per_sec := ParseArgFloat E (tokens ! 2)\<rparr> else alb1)
           in case mode_token_loop (drop 3 tokens)
                     (alb_attr_no_dashboard alb2, alb_attr_no_toggle alb2, alb_attr_is_on alb2) s2 of
                Inl f \<Rightarrow> Inl f
              | Inr ((no_dashboard, no_toggle, is_on), s3) \<Rightarrow>
                  Inr (update_current_module
                         (\<lambda>m. m\<lparr>antilockbrakes := antilockbrakes m @
                                  [alb2\<lparr>alb_attr_no_dashboard := no_dashboard,
                                        alb_attr_no_toggle := no_toggle,
                                        alb_attr_is_on := is_on\<rparr>]\<rparr>) s3)))"

definition ParseTractionControl :: "Env \<Rightarrow> Parser \<Rightarrow> fault + Parser" where
  "ParseTractionControl E s =
     (let tokens = split (drop 15 (m_current_line s)) '','' in
      case CheckNumArguments 2 (s\<lparr>m_num_args := length tokens\<rparr>) of
        (False, s1) \<Rightarrow> Inr s1
      | (True, s1) \<Rightarrow>
          (let tc0 = (new_TractionControl E)
                       \<lparr>tc_regulation_force := ParseArgFloat E (tokens ! 0),
                        tc_wheel_slip := ParseArgFloat E (tokens ! 1)\<rparr>;
               tc1 = (if 2 < length tokens
                      then tc0\<lparr>tc_fade_speed := ParseArgFloat E (tokens ! 2)\<rparr> else tc0);
               tc2 = (if 3 < length tokens
                      then tc1\<lparr>tc_pulse_per_sec := ParseArgFloat E (tokens ! 3)\<rparr> else tc1)
           in case mode_token_loop (drop 4 tokens)
                     (tc_attr_no_dashboard tc2, tc_attr_no_toggle tc2, tc_attr_is_on tc2) s1 of
                Inl f \<Rightarrow> Inl f
              | Inr ((no_dashboard, no_toggle, is_on), s3) \<Rightarrow>
                  Inr (update_current_module
                         (\<lambda>m. m\<lparr>tractioncontrol := tractioncontrol m @
                                  [tc2\<lparr>tc_attr_no_dashboard := no_dashboard,
                                       tc_attr_no_toggle := no_toggle,
                                       tc_attr_is_on := is_on\<rparr>]\<rparr>) s3)))"

section \<open>Section parsers\<close>

definition ParseNodesUnified :: "Env \<Rightarrow> Parser \<Rightarrow> Parser" where
  "ParseNodesUnified E s =
     (case CheckNumArguments 4 s of
        (False, s1) \<Rightarrow> s1
      | (True, s1) \<Rightarrow>
          (let node0 = (new_Node E)
                 \<lparr>node_node_defaults := m_user_node_defaults s1,
                  node_beam_defaults := m_user_beam_defaults s1,
                  node_default_minimass := m_set_default_minimass s1,
                  node_detacher_group := m_current_detacher_group s1\<rparr>;
               (node1, s2) =
                 (if m_current_block s1 = KEYWORD_NODES2 then
                    (let node_name = GetArgStr s1 0;
                         s1a = (if IsEnabled (m_sequential_importer s1)
                                then s1\<lparr>m_sequential_importer :=
                                          importer_record (AddNamedNode node_name)
                                            (m_sequential_importer s1)\<rparr>
                                else s1)
                     in (node0\<lparr>node_id := Id_str node_name\<rparr>,
                         s1a\<lparr>m_any_named_node_defined := True\<rparr>))
                  else
                    (let (node_num, s1a) = GetArgUint s1 0;
                         s1b = (if IsEnabled (m_sequential_importer s1a)
                                then s1a\<lparr>m_sequential_importer :=
                                           importer_record (AddNumberedNode node_num)
                                             (m_sequential_importer s1a)\<rparr>
                                else s1a)
                     in (node0\<lparr>node_id := Id_num node_num\<rparr>, s1b)));
               node2 = node1\<lparr>position_x := GetArgFloat E s2 1,
                             position_y := GetArgFloat E s2 2,
                             position_z := GetArgFloat E s2 3\<rparr>;
               (node3, s3) =
                 (if 4 < m_num_args s2
                  then (let (opts, s2a) = ParseNodeOptions s2 (GetArgStr s2 4)
                        in (node2\<lparr>node_options := opts\<rparr>, s2a))
                  else (node2, s2));
               (node4, s4) =
                 (if 5 < m_num_args s3 then
                    (if OPTION_l_LOAD_WEIGHT \<in> node_options node3
                     then (node3\<lparr>load_weight_override := GetArgFloat E s3 5,
                                  has_load_weight_override := True\<rparr>, s3)
                     else (node3, LogMessage CONSOLE_SYSTEM_WARNING
                                     Load_weight_override_without_l s3))
                  else (node3, s3))
           in update_current_module (\<lambda>m. m\<lparr>nodes := nodes m @ [node4]\<rparr>) s4))"

fun beam_options_loop :: "string \<Rightarrow> Beam \<Rightarrow> Parser \<Rightarrow> Beam \<times> Parser" where
  "beam_options_loop [] beam s = (beam, s)"
| "beam_options_loop (c # cs) beam s =
     (if c = CHR ''v'' then beam_options_loop cs beam s
      else if c = CHR ''i''
        then beam_options_loop cs (beam\<lparr>beam_options := insert OPTION_i_INVISIBLE (beam_options beam)\<rparr>) s
      else if c = CHR ''r''
        then beam_options_loop cs (beam\<lparr>beam_options := insert OPTION_r_ROPE (beam_options beam)\<rparr>) s
      else if c = CHR ''s''
        then beam_options_loop cs (beam\<lparr>beam_options := insert OPTION_s_SUPPORT (beam_options beam)\<rparr>) s
      else beam_options_loop cs beam
             (LogMessage CONSOLE_SYSTEM_WARNING (Ignoring_invalid_option c) s))"

definition ParseBeams :: "Env \<Rightarrow> Parser \<Rightarrow> Parser" where
  "ParseBeams E s =
     (case CheckNumArguments 2 s of
        (False, s1) \<Rightarrow> s1
      | (True, s1) \<Rightarrow>
          (let beam0 = (new_Beam E)
                 \<lparr>beam_defaults := m_user_beam_defaults s1,
                  beam_detacher_group := m_current_detacher_group s1,
                  beam_nodes := (GetArgNodeRef E s1 0, GetArgNodeRef E s1 1)\<rparr>;
               (beam1, s2) =
                 (if 2 < m_num_args s1 then beam_options_loop (GetArgStr s1 2) beam0 s1
                  else (beam0, s1));
               (beam2, s3) =
                 (if 3 < m_num_args s2 \<and> OPTION_s_SUPPORT \<in> beam_options beam1 then
                    (let (f, s2a) = GetArgInt s2 3;
                         support_break_factor = real_of_int f;
                         support_break_limit =
                           (if 0 < support_break_factor then support_break_factor else 0)
                     in (beam1\<lparr>extension_break_limit := support_break_limit,
                                has_extension_break_limit := True\<rparr>, s2a))
                  else (beam1, s2))
           in update_current_module (\<lambda>m. m\<lparr>beams := beams m @ [beam2]\<rparr>) s3))"

definition ParseWheel :: "Env \<Rightarrow> Parser \<Rightarrow> Parser" where
  "ParseWheel E s =
     (case CheckNumArguments 14 s of
        (False, s1) \<Rightarrow> s1
      | (True, s1) \<Rightarrow>
          (let radius_v = GetArgFloat E s1 0;
               width_v = GetArgFloat E s1 1;
               (num_rays_v, s2) = GetArgInt s1 2;
               node0 = GetArgNodeRef E s2 3;
               node1 = GetArgNodeRef E s2 4;
               rigidity = GetArgRigidityNode E s2 5;
               (braking_v, s3) = GetArgBraking E s2 6;
               (propulsion_v, s4) = GetArgPropulsion E s3 7;
               wheel =
                 \<lparr>wheel_node_defaults = m_user_node_defaults s1,
                  wheel_beam_defaults = m_user_beam_defaults s1,
                  radius = radius_v,
                  width = width_v,
                  num_rays = num_rays_v,
                  wheel_nodes = (node0, node1),
                  rigidity_node = rigidity,
                  braking = braking_v,
                  propulsion = propulsion_v,
                  reference_arm_node = GetArgNodeRef E s4 8,
                  mass = GetArgFloat E s4 9,
                  wheel_springiness = GetArgFloat E s4 10,
                  wheel_damping = GetArgFloat E s4 11,
                  face_material_name = GetArgStr s4 12,
                  band_material_name = GetArgStr s4 13\<rparr>;
               s5 = (if IsEnabled (m_sequential_importer s4)
                     then s4\<lparr>m_sequential_importer :=
                               importer_record
                                 (GenerateNodesForWheel KEYWORD_WHEELS (num_rays wheel)
                                    (IsValidAnyState (rigidity_node wheel)))
                                 (m_sequential_importer s4)\<rparr>
                     else s4)
           in update_current_module (\<lambda>m. m\<lparr>wheels := wheels m @ [wheel]\<rparr>) s5))"

definition ParseWheelDetachers :: "Parser \<Rightarrow> Parser" where
  "ParseWheelDetachers s =
     (case CheckNumArguments 2 s of
        (False, s1) \<Rightarrow> s1
      | (True, s1) \<Rightarrow>
          (let (w, s2) = GetArgInt s1 0;
               (g, s3) = GetArgInt s2 1;
               wheeldetacher = \<lparr>wheel_id = w, wd_detacher_group = g\<rparr>
           in update_current_module
                (\<lambda>m. m\<lparr>wheeldetachers := wheeldetachers m @ [wheeldetacher]\<rparr>) s3))"

text \<open>
  The loop over the forward gears of \<^verbatim>\<open>Parser::ParseEngine\<close> stops at the first negative
  ratio.
\<close>

definition ParseEngine :: "Env \<Rightarrow> Parser \<Rightarrow> Parser" where
  "ParseEngine E s =
     (case CheckNumArguments 6 s of
        (False, s1) \<Rightarrow> s1
      | (True, s1) \<Rightarrow>
          (let engine_v =
                 \<lparr>shift_down_rpm = GetArgFloat E s1 0,
                  shift_up_rpm = GetArgFloat E s1 1,
                  torque = GetArgFloat E s1 2,
                  global_gear_ratio = GetArgFloat E s1 3,
                  reverse_gear_ratio = GetArgFloat E s1 4,
                  neutral_gear_ratio = GetArgFloat E s1 5,
                  gear_ratios = takeWhile (\<lambda>ratio. \<not> ratio < 0)
                                  (map (GetArgFloat E s1) [6 ..< m_num_args s1])\<rparr>
           in if length (gear_ratios engine_v) = 0
              then LogMessage CONSOLE_SYSTEM_ERROR No_forward_gear s1
              else update_current_module (\<lambda>m. m\<lparr>engine := engine m @ [engine_v]\<rparr>) s1))"

definition ParseHelp :: "Parser \<Rightarrow> Parser" where
  "ParseHelp s =
     update_current_module
       (\<lambda>m. m\<lparr>help_records := help_records m @ [\<lparr>material = m_current_line s\<rparr>]\<rparr>) s"

fun cab_options_loop :: "string \<Rightarrow> Cab \<Rightarrow> Parser \<Rightarrow> Cab \<times> Parser" where
  "cab_options_loop [] cab s = (cab, s)"
| "cab_options_loop (c # cs) cab s =
     (let add = (\<lambda>fs. cab\<lparr>cab_options := cab_options cab \<union> fs\<rparr>) in
      if c = CHR ''c'' then cab_options_loop cs (add {OPTION_c_CONTACT}) s
      else if c = CHR ''b'' then cab_options_loop cs (add {OPTION_b_BUOYANT}) s
      else if c = CHR ''D'' then cab_options_loop cs (add {OPTION_c_CONTACT, OPTION_b_BUOYANT}) s
      else if c = CHR ''p'' then cab_options_loop cs (add {OPTION_p_10xTOUGHER}) s
      else if c = CHR ''u'' then cab_options_loop cs (add {OPTION_u_INVULNERABLE}) s
      else if c = CHR ''F'' then cab_options_loop cs (add {OPTION_p_10xTOUGHER, OPTION_b_BUOYANT}) s
      else if c = CHR ''S'' then cab_options_loop cs (add {OPTION_u_INVULNERABLE, OPTION_b_BUOYANT}) s
      else if c = CHR ''n'' then cab_options_loop cs cab s
      else cab_options_loop cs cab
             (LogMessage CONSOLE_SYSTEM_WARNING (Ignoring_invalid_option c) s))"

definition ParseCab :: "Env \<Rightarrow> Parser \<Rightarrow> fault + Parser" where
  "ParseCab E s =
     (case CheckNumArguments 3 s of
        (False, s1) \<Rightarrow> Inr s1
      | (True, s1) \<Rightarrow>
          (let cab0 = (new_Cab E)
                 \<lparr>cab_nodes := (GetArgNodeRef E s1 0, GetArgNodeRef E s1 1, GetArgNodeRef E s1 2)\<rparr>;
               (cab1, s2) =
                 (if 3 < m_num_args s1
                  then cab_options_loop (GetArgStr s1 3) (cab0\<lparr>cab_options := {}\<rparr>) s1
                  else (cab0, s1))
           in case m_current_submesh s2 of
                None \<Rightarrow> Inl NullPointer
              | Some sm \<Rightarrow>
                  Inr (s2\<lparr>m_current_submesh :=
                            Some (sm\<lparr>cab_triangles := cab_triangles sm @ [cab1]\<rparr>)\<rparr>)))"

definition ParseTexcoords :: "Env \<Rightarrow> Parser \<Rightarrow> fault + Parser" where
  "ParseTexcoords E s =
     (case CheckNumArguments 3 s of
        (False, s1) \<Rightarrow> Inr s1
      | (True, s1) \<Rightarrow>
          (let texcoord = \<lparr>texcoord_node = GetArgNodeRef E s1 0,
                           texcoord_u = GetArgFloat E s1 1,
                           texcoord_v = GetArgFloat E s1 2\<rparr>
           in case m_current_submesh s1 of
                None \<Rightarrow> Inl NullPointer
              | Some sm \<Rightarrow>
                  Inr (s1\<lparr>m_current_submesh :=
                            Some (sm\<lparr>texcoords := texcoords sm @ [texcoord]\<rparr>)\<rparr>)))"

definition ParseCameraRails :: "Env \<Rightarrow> Parser \<Rightarrow> fault + Parser" where
  "ParseCameraRails E s =
     (case m_current_camera_rail s of
        None \<Rightarrow> Inl NullPointer
      | Some cr \<Rightarrow>
          Inr (s\<lparr>m_current_camera_rail :=
                   Some (cr\<lparr>rail_nodes := rail_nodes cr @ [GetArgNodeRef E s 0]\<rparr>)\<rparr>))"

section \<open>Line classification and dispatch\<close>

text \<open>
  \<^verbatim>\<open>Parser::FindKeywordMatch\<close>: the first matched sub-match, counted from 1, gives the
  keyword.
\<close>

fun FindKeywordMatch_loop :: "(nat \<Rightarrow> Keyword) \<Rightarrow> nat \<Rightarrow> bool list \<Rightarrow> Keyword" where
  "FindKeywordMatch_loop enum i [] = KEYWORD_INVALID"
| "FindKeywordMatch_loop enum i (matched # rest) =
     (if matched then enum i else FindKeywordMatch_loop enum (Suc i) rest)"

definition FindKeywordMatch :: "Env \<Rightarrow> bool list \<Rightarrow> Keyword" where
  "FindKeywordMatch E search_results = FindKeywordMatch_loop (Keyword_enum E) 1 search_results"

text \<open>
  \<^verbatim>\<open>Parser::IdentifyKeywordInCurrentLine\<close> reads the current line only; \<open>IdentifyKeyword\<close>
  is its body as a function of that line.
\<close>

definition IdentifyKeyword :: "Env \<Rightarrow> string \<Rightarrow> Keyword" where
  "IdentifyKeyword E l =
     (let c = (of_char (tolower (char_at l 0)) :: nat) in
      if 122 < c \<or> c < 97 then KEYWORD_INVALID
      else
        (let keyword = FindKeywordMatch E (IDENTIFY_KEYWORD_RESPECT_CASE E l) in
         if keyword \<noteq> KEYWORD_INVALID then keyword
         else FindKeywordMatch E (IDENTIFY_KEYWORD_IGNORE_CASE E l)))"

definition IdentifyKeywordInCurrentLine :: "Env \<Rightarrow> Parser \<Rightarrow> Keyword" where
  "IdentifyKeywordInCurrentLine E s = IdentifyKeyword E (m_current_line s)"

text \<open>The second switch of \<^verbatim>\<open>Parser::ProcessCurrentLine\<close>: the parser of the current block.\<close>

definition parse_current_block :: "Env \<Rightarrow> Parser \<Rightarrow> fault + Parser" where
  "parse_current_block E s =
     (case m_current_block s of
        KEYWORD_BEAMS \<Rightarrow> Inr (ParseBeams E s)
      | KEYWORD_CAB \<Rightarrow> ParseCab E s
      | KEYWORD_CAMERARAIL \<Rightarrow> ParseCameraRails E s
      | KEYWORD_ENGINE \<Rightarrow> Inr (ParseEngine E s)
      | KEYWORD_HELP \<Rightarrow> Inr (ParseHelp s)
      | KEYWORD_NODES \<Rightarrow> Inr (ParseNodesUnified E s)
      | KEYWORD_NODES2 \<Rightarrow> Inr (ParseNodesUnified E s)
      | KEYWORD_TEXCOORDS \<Rightarrow> ParseTexcoords E s
      | KEYWORD_WHEELDETACHERS \<Rightarrow> Inr (ParseWheelDetachers s)
      | KEYWORD_WHEELS \<Rightarrow> Inr (ParseWheel E s)
      | _ \<Rightarrow> Inr s)"

text \<open>The first switch of \<^verbatim>\<open>Parser::ProcessCurrentLine\<close>, on the keyword of the line.\<close>

definition dispatch_keyword :: "Env \<Rightarrow> Keyword \<Rightarrow> Parser \<Rightarrow> fault + Parser" where
  "dispatch_keyword E keyword s =
     (case keyword of
        KEYWORD_INVALID \<Rightarrow> parse_current_block E (s\<lparr>m_log_keyword := m_current_block s\<rparr>)
      | KEYWORD_DISABLEDEFAULTSOUNDS \<Rightarrow> Inr (ProcessGlobalDirective keyword s)
      | KEYWORD_ENABLE_ADVANCED_DEFORMATION \<Rightarrow> Inr (ProcessGlobalDirective keyword s)
      | KEYWORD_FORWARDCOMMANDS \<Rightarrow> Inr (ProcessGlobalDirective keyword s)
      | KEYWORD_HIDEINCHOOSER \<Rightarrow> Inr (ProcessGlobalDirective keyword s)
      | KEYWORD_IMPORTCOMMANDS \<Rightarrow> Inr (ProcessGlobalDirective keyword s)
      | KEYWORD_LOCKGROUP_DEFAULT_NOLOCK \<Rightarrow> Inr (ProcessGlobalDirective keyword s)
      | KEYWORD_RESCUER \<Rightarrow> Inr (ProcessGlobalDirective keyword s)
      | KEYWORD_ROLLON \<Rightarrow> Inr (ProcessGlobalDirective keyword s)
      | KEYWORD_SLIDENODE_CONNECT_INSTANTLY \<Rightarrow> Inr (ProcessGlobalDirective keyword s)
      | KEYWORD_END_SECTION \<Rightarrow> Inr (ProcessChangeModuleLine E keyword s)
      | KEYWORD_ANTILOCKBRAKES \<Rightarrow> ParseAntiLockBrakes E s
      | KEYWORD_BACKMESH \<Rightarrow> Inr (ParseDirectiveBackmesh s)
      | KEYWORD_DETACHER_GROUP \<Rightarrow> Inr (ParseDirectiveDetacherGroup s)
      | KEYWORD_SECTION \<Rightarrow> Inr (ParseDirectiveSection E s)
      | KEYWORD_SET_DEFAULT_MINIMASS \<Rightarrow> Inr (ParseDirectiveSetDefaultMinimass E s)
      | KEYWORD_SET_INERTIA_DEFAULTS \<Rightarrow> Inr (ParseDirectiveSetInertiaDefaults E s)
      | KEYWORD_SET_NODE_DEFAULTS \<Rightarrow> Inr (ParseDirectiveSetNodeDefaults E s)
      | KEYWORD_SUBMESH \<Rightarrow> Inr (ParseDirectiveSubmesh E s)
      | KEYWORD_TRACTIONCONTROL \<Rightarrow> ParseTractionControl E s
      | KEYWORD_END_COMMENT \<Rightarrow> Inr (BeginBlock KEYWORD_INVALID s)
      | KEYWORD_END_DESCRIPTION \<Rightarrow> Inr (BeginBlock KEYWORD_INVALID s)
      | KEYWORD_END \<Rightarrow> Inr (BeginBlock KEYWORD_INVALID s)
      | KEYWORD_ENVMAP \<Rightarrow> Inr s
      | KEYWORD_HOOKGROUP \<Rightarrow> Inr s
      | KEYWORD_NODECOLLISION \<Rightarrow> Inr s
      | KEYWORD_RIGIDIFIERS \<Rightarrow> Inr s
      | _ \<Rightarrow> Inr (BeginBlock keyword s))"

text \<open>
  \<^verbatim>\<open>Parser::ProcessCurrentLine\<close>.  In the test for the name,
  \<^verbatim>\<open>m_current_line != ""\<close> compares the address of the line buffer, a character array,
  with that of a string literal, so it holds whatever the line is; the name is
  captured whenever the document has no name yet.
\<close>

definition ProcessCurrentLine :: "Env \<Rightarrow> Parser \<Rightarrow> fault + Parser" where
  "ProcessCurrentLine E s =
     (if char_at (m_current_line s) 0 = CHR '';'' \<or> char_at (m_current_line s) 0 = CHR ''/''
      then Inr s
      else if name (m_definition s) = []
      then Inr (s\<lparr>m_definition := (m_definition s)\<lparr>name := m_current_line s\<rparr>\<rparr>)
      else
        (let s1 = (if m_current_block s \<noteq> KEYWORD_COMMENT \<and> m_current_block s \<noteq> KEYWORD_DESCRIPTION
                   then TokenizeCurrentLine E s else s);
             keyword = IdentifyKeywordInCurrentLine E s1
         in dispatch_keyword E keyword (s1\<lparr>m_log_keyword := keyword\<rparr>)))"

text \<open>
  \<^verbatim>\<open>Parser::ProcessRawLine\<close>: leading white space is removed, empty lines and lines that
  start with \<^verbatim>\<open>;\<close> or \<^verbatim>\<open>/\<close> are skipped, the rest is sanitized and processed.
\<close>

definition ProcessRawLine :: "Env \<Rightarrow> string \<Rightarrow> Parser \<Rightarrow> fault + Parser" where
  "ProcessRawLine E raw_line_buf s =
     (let raw = dropWhile IsWhitespace (take (LINE_BUFFER_LENGTH E) raw_line_buf) in
      if raw = [] \<or> hd raw = CHR '';'' \<or> hd raw = CHR ''/''
      then Inr (s\<lparr>m_current_line_number := Suc (m_current_line_number s)\<rparr>)
      else
        (case ProcessCurrentLine E (s\<lparr>m_current_line := replace_invalid E raw\<rparr>) of
           Inl f \<Rightarrow> Inl f
         | Inr s' \<Rightarrow> Inr (s'\<lparr>m_current_line_number := Suc (m_current_line_number s')\<rparr>)))"

text \<open>The loop of \<^verbatim>\<open>Parser::ProcessOgreStream\<close> over the lines of the stream.\<close>

fun ProcessLines :: "Env \<Rightarrow> string list \<Rightarrow> Parser \<Rightarrow> fault + Parser" where
  "ProcessLines E [] s = Inr s"
| "ProcessLines E (l # ls) s =
     (case ProcessRawLine E l s of Inl f \<Rightarrow> Inl f | Inr s' \<Rightarrow> ProcessLines E ls s')"

text \<open>
  \<^verbatim>\<open>Parser::_TrimTrailingComments\<close>, a static function that no function of the parser
  calls.  \<open>None\<close> stands for the read of \<^verbatim>\<open>line_in[-1]\<close> that the backward scan makes when
  it reaches the start of the line.
\<close>

fun comment_scan :: "string \<Rightarrow> nat \<Rightarrow> nat option" where
  "comment_scan line_in 0 = None"
| "comment_scan line_in (Suc k) =
     (let c = line_in ! k in
      if c \<noteq> CHR ''/'' \<and> c \<noteq> CHR '' '' \<and> c \<noteq> TAB then Some (Suc k)
      else comment_scan line_in k)"

definition find_first_of :: "string \<Rightarrow> char \<Rightarrow> nat option" where
  "find_first_of str c =
     (if c \<in> set str then Some (length (takeWhile (\<lambda>x. x \<noteq> c) str)) else None)"

definition find_last_of :: "string \<Rightarrow> char \<Rightarrow> nat option" where
  "find_last_of str c =
     (if c \<in> set str then Some (length str - 1 - length (takeWhile (\<lambda>x. x \<noteq> c) (rev str)))
      else None)"

definition TrimTrailingComments :: "string \<Rightarrow> string option" where
  "TrimTrailingComments line_in =
     (case find_first_of line_in (CHR '';'') of
        Some comment_start \<Rightarrow> Some (take comment_start line_in)
      | None \<Rightarrow>
          (case find_last_of line_in (CHR ''/'') of
             Some comment_start \<Rightarrow>
               (case comment_scan line_in comment_start of
                  Some k \<Rightarrow> Some (take k line_in)
                | None \<Rightarrow> None)
           | None \<Rightarrow> Some line_in))"

section \<open>A concrete environment\<close>

text \<open>
  An instance of the parameters, used to run the model on sample lines.  Its keyword
  table matches a block keyword when the line is the keyword followed by blanks only, and
  a directive when the keyword is the first word of the line; numbers are decimal integers.
\<close>

definition example_keywords :: "(string \<times> Keyword \<times> bool) list" where
  "example_keywords =
     [(''disabledefaultsounds'', KEYWORD_DISABLEDEFAULTSOUNDS, True),
      (''enable_advanced_deformation'', KEYWORD_ENABLE_ADVANCED_DEFORMATION, True),
      (''forwardcommands'', KEYWORD_FORWARDCOMMANDS, True),
      (''hideInChooser'', KEYWORD_HIDEINCHOOSER, True),
      (''importcommands'', KEYWORD_IMPORTCOMMANDS, True),
      (''lockgroup_default_nolock'', KEYWORD_LOCKGROUP_DEFAULT_NOLOCK, True),
      (''rescuer'', KEYWORD_RESCUER, True),
      (''rollon'', KEYWORD_ROLLON, True),
      (''slidenode_connect_instantly'', KEYWORD_SLIDENODE_CONNECT_INSTANTLY, True),
      (''end_section'', KEYWORD_END_SECTION, True),
      (''section'', KEYWORD_SECTION, True),
      (''AntiLockBrakes'', KEYWORD_ANTILOCKBRAKES, True),
      (''TractionControl'', KEYWORD_TRACTIONCONTROL, True),
      (''detacher_group'', KEYWORD_DETACHER_GROUP, True),
      (''set_default_minimass'', KEYWORD_SET_DEFAULT_MINIMASS, True),
      (''set_inertia_defaults'', KEYWORD_SET_INERTIA_DEFAULTS, True),
      (''set_node_defaults'', KEYWORD_SET_NODE_DEFAULTS, True),
      (''submesh'', KEYWORD_SUBMESH, True),
      (''backmesh'', KEYWORD_BACKMESH, True),
      (''end_comment'', KEYWORD_END_COMMENT, False),
      (''end_description'', KEYWORD_END_DESCRIPTION, False),
      (''end'', KEYWORD_END, False),
      (''envmap'', KEYWORD_ENVMAP, False),
      (''hookgroup'', KEYWORD_HOOKGROUP, False),
      (''nodecollision'', KEYWORD_NODECOLLISION, False),
      (''rigidifiers'', KEYWORD_RIGIDIFIERS, False),
      (''beams'', KEYWORD_BEAMS, False),
      (''cab'', KEYWORD_CAB, False),
      (''camerarail'', KEYWORD_CAMERARAIL, False),
      (''comment'', KEYWORD_COMMENT, False),
      (''description'', KEYWORD_DESCRIPTION, False),
      (''engine'', KEYWORD_ENGINE, False),
      (''help'', KEYWORD_HELP, False),
      (''nodes'', KEYWORD_NODES, False),
      (''nodes2'', KEYWORD_NODES2, False),
      (''texcoords'', KEYWORD_TEXCOORDS, False),
      (''wheeldetachers'', KEYWORD_WHEELDETACHERS, False),
      (''wheels'', KEYWORD_WHEELS, False)]"

definition example_match :: "(string \<Rightarrow> string) \<Rightarrow> string \<Rightarrow> bool list" where
  "example_match fold_case l =
     map (\<lambda>(n, k, inline).
            if inline then fold_case (takeWhile (\<lambda>c. \<not> IsWhitespace c) l) = fold_case n
            else fold_case (rev (dropWhile IsWhitespace (rev l))) = fold_case n)
         example_keywords"

definition example_enum :: "nat \<Rightarrow> Keyword" where
  "example_enum i =
     (if 1 \<le> i \<and> i \<le> length example_keywords then fst (snd (example_keywords ! (i - 1)))
      else KEYWORD_INVALID)"

definition example_number :: "string \<Rightarrow> int" where
  "example_number str = fst (strtol str)"

definition example_env :: Env where
  "example_env =
     \<lparr>LINE_MAX_ARGS = 100,
      LINE_BUFFER_LENGTH = 2000,
      ROOT_MODULE_NAME = ''_Root_'',
      parseReal = (\<lambda>str. real_of_int (example_number str)),
      PARSEINT = (\<lambda>str. long_to_int (example_number str)),
      IDENTIFY_KEYWORD_RESPECT_CASE = example_match (\<lambda>x. x),
      IDENTIFY_KEYWORD_IGNORE_CASE = example_match toLowerCase,
      Keyword_enum = example_enum,
      replace_invalid = (\<lambda>x. x),
      new_NodeDefaults =
        \<lparr>load_weight = - 1, friction = 1, volume = 1, surface = 1, nd_options = {}\<rparr>,
      new_Inertia =
        \<lparr>start_delay_factor = 0, stop_delay_factor = 0, start_function = [], stop_function = []\<rparr>,
      new_Node =
        \<lparr>node_id = Id_unset, position_x = 0, position_y = 0, position_z = 0, node_options = {},
         load_weight_override = 0, has_load_weight_override = False, node_node_defaults = 0,
         node_beam_defaults =
           \<lparr>springiness = 0, damping_constant = 0, deformation_threshold = 0,
            breaking_threshold = 0, visual_beam_diameter = 0\<rparr>,
         node_default_minimass = None, node_detacher_group = 0\<rparr>,
      new_Beam =
        \<lparr>beam_defaults =
           \<lparr>springiness = 0, damping_constant = 0, deformation_threshold = 0,
            breaking_threshold = 0, visual_beam_diameter = 0\<rparr>,
         beam_detacher_group = 0,
         beam_nodes =
           (\<lparr>ref_id_str = [], ref_id_num = 0, ref_flags = {}, ref_line_number = 0\<rparr>,
            \<lparr>ref_id_str = [], ref_id_num = 0, ref_flags = {}, ref_line_number = 0\<rparr>),
         beam_options = {}, extension_break_limit = 0, has_extension_break_limit = False\<rparr>,
      new_Cab =
        \<lparr>cab_nodes =
           (\<lparr>ref_id_str = [], ref_id_num = 0, ref_flags = {}, ref_line_number = 0\<rparr>,
            \<lparr>ref_id_str = [], ref_id_num = 0, ref_flags = {}, ref_line_number = 0\<rparr>,
            \<lparr>ref_id_str = [], ref_id_num = 0, ref_flags = {}, ref_line_number = 0\<rparr>),
         cab_options = {}\<rparr>,
      new_Submesh = \<lparr>texcoords = [], cab_triangles = [], backmesh = False\<rparr>,
      new_AntiLockBrakes =
        \<lparr>alb_regulation_force = 0, alb_min_speed = 0, alb_pulse_per_sec = 0,
         alb_attr_is_on = True, alb_attr_no_dashboard = False, alb_attr_no_toggle = False\<rparr>,
      new_TractionControl =
        \<lparr>tc_regulation_force = 0, tc_wheel_slip = 0, tc_fade_speed = 0, tc_pulse_per_sec = 0,
         tc_attr_is_on = True, tc_attr_no_dashboard = False, tc_attr_no_toggle = False\<rparr>,
      new_Ref = \<lparr>ref_id_str = [], ref_id_num = 0, ref_flags = {}, ref_line_number = 0\<rparr>,
      WheelBraking_int =
        (\<lambda>b. case b of Braking_NONE \<Rightarrow> 0 | FOOT_HAND \<Rightarrow> 1 | FOOT_HAND_SKID_LEFT \<Rightarrow> 2
              | FOOT_HAND_SKID_RIGHT \<Rightarrow> 3 | FOOT_ONLY \<Rightarrow> 4),
      WheelPropulsion_int =
        (\<lambda>p. case p of Propulsion_NONE \<Rightarrow> 0 | FORWARD \<Rightarrow> 1 | BACKWARD \<Rightarrow> 2),
      DEFAULT_SPRING = 9000000,
      DEFAULT_DAMP = 12000,
      BEAM_DEFORM = 400000,
      BEAM_BREAK = 1000000,
      DEFAULT_BEAM_DIAMETER = 1\<rparr>"

text \<open>A parser that has been constructed and prepared for a parse.\<close>

definition example_start :: Parser where
  "example_start = Prepare example_env (Parser_ctor example_env)"

section \<open>Notions used to state the properties\<close>

text \<open>A state differs from another one only by messages appended to the console.\<close>

definition only_logs :: "Parser \<Rightarrow> Parser \<Rightarrow> bool" where
  "only_logs s s' \<longleftrightarrow> (\<exists>ms. s' = s\<lparr>console := console s @ ms\<rparr>)"

text \<open>The text of a slice of a line, and the tokens of a line.\<close>

definition slice_text :: "string \<Rightarrow> Slice \<Rightarrow> string" where
  "slice_text l a = take (slice_length a) (drop (slice_start a) l)"

definition line_tokens :: "Env \<Rightarrow> string \<Rightarrow> string list" where
  "line_tokens E l = map (slice_text l) (tokenize (LINE_MAX_ARGS E) l)"

text \<open>
  What \<^verbatim>\<open>ProcessRawLine\<close> makes of a raw line: the text it hands to
  \<^verbatim>\<open>ProcessCurrentLine\<close>, and whether it skips the line.
\<close>

definition raw_text :: "Env \<Rightarrow> string \<Rightarrow> string" where
  "raw_text E raw_line_buf = dropWhile IsWhitespace (take (LINE_BUFFER_LENGTH E) raw_line_buf)"

definition line_text :: "Env \<Rightarrow> string \<Rightarrow> string" where
  "line_text E raw_line_buf = replace_invalid E (raw_text E raw_line_buf)"

definition starts_comment :: "string \<Rightarrow> bool" where
  "starts_comment l \<longleftrightarrow> char_at l 0 = CHR '';'' \<or> char_at l 0 = CHR ''/''"

definition line_skipped :: "Env \<Rightarrow> string \<Rightarrow> bool" where
  "line_skipped E raw_line_buf \<longleftrightarrow>
     raw_text E raw_line_buf = [] \<or> starts_comment (raw_text E raw_line_buf)"

text \<open>
  A raw line that is processed, whose text is not empty and not a comment, is identified
  as keyword \<open>k\<close> (\<open>KEYWORD_INVALID\<close> for a data line) and has at least \<open>n\<close> tokens.
\<close>

definition line_is :: "Env \<Rightarrow> string \<Rightarrow> Keyword \<Rightarrow> nat \<Rightarrow> bool" where
  "line_is E raw_line_buf k n \<longleftrightarrow>
     \<not> line_skipped E raw_line_buf
     \<and> line_text E raw_line_buf \<noteq> []
     \<and> \<not> starts_comment (line_text E raw_line_buf)
     \<and> IdentifyKeyword E (line_text E raw_line_buf) = k
     \<and> n \<le> length (line_tokens E (line_text E raw_line_buf))"

text \<open>The state in which the handler of a processed line runs.\<close>

definition tokenized :: "Env \<Rightarrow> string \<Rightarrow> Keyword \<Rightarrow> Parser \<Rightarrow> Parser" where
  "tokenized E raw_line_buf k s =
     (TokenizeCurrentLine E (s\<lparr>m_current_line := line_text E raw_line_buf\<rparr>))\<lparr>m_log_keyword := k\<rparr>"

text \<open>An observation of the state after a run, if the run did not stop with a fault.\<close>

definition observe :: "(Parser \<Rightarrow> 'a) \<Rightarrow> fault + Parser \<Rightarrow> 'a option" where
  "observe f r = (case r of Inl e \<Rightarrow> None | Inr s \<Rightarrow> Some (f s))"

text \<open>
  The values that a \<^verbatim>\<open>set_node_defaults\<close> line with the tokens \<open>toks\<close> gives to new node
  defaults, read against the engine defaults \<open>ror\<close>: a float that is missing counts as
  \<open>-1\<close>, and a negative float selects the value of \<open>ror\<close>.
\<close>

definition arg_or_minus_one :: "Env \<Rightarrow> string list \<Rightarrow> nat \<Rightarrow> real" where
  "arg_or_minus_one E toks i = (if i < length toks then parseReal E (toks ! i) else - 1)"

definition resolve_against ::
  "NodeDefaults \<Rightarrow> Env \<Rightarrow> string list \<Rightarrow> NodeOption set \<Rightarrow> NodeDefaults" where
  "resolve_against ror E toks opts =
     \<lparr>load_weight = (if arg_or_minus_one E toks 1 < 0 then load_weight ror
                      else arg_or_minus_one E toks 1),
      friction = (if arg_or_minus_one E toks 2 < 0 then friction ror
                  else arg_or_minus_one E toks 2),
      volume = (if arg_or_minus_one E toks 3 < 0 then volume ror
                else arg_or_minus_one E toks 3),
      surface = (if arg_or_minus_one E toks 4 < 0 then surface ror
                 else arg_or_minus_one E toks 4),
      nd_options = opts\<rparr>"

text \<open>No camera rail without nodes is in the \<^verbatim>\<open>camerarail\<close> collection of any module.\<close>

definition rails_nonempty :: "Parser \<Rightarrow> bool" where
  "rails_nonempty s \<longleftrightarrow> (\<forall>a. \<forall>r\<in>set (camerarail (module_store s a)). rail_nodes r \<noteq> [])"

text \<open>The value of a string of decimal digits.\<close>

definition decimal :: "string \<Rightarrow> int" where
  "decimal ds = foldl (\<lambda>acc c. acc * 10 + digit_value c) 0 ds"

section \<open>Messages are the only effect of the decoders\<close>

lemma only_logs_refl: "only_logs s s"
  by (auto simp: only_logs_def intro: exI[of _ "[]"])

lemma only_logs_trans: "only_logs s s' \<Longrightarrow> only_logs s' s'' \<Longrightarrow> only_logs s s''"
  by (auto simp: only_logs_def)

lemma only_logs_LogMessage: "only_logs s (LogMessage t m s)"
  by (auto simp: only_logs_def LogMessage_def)

lemma only_logs_GetArgLong: "only_logs s (snd (GetArgLong s i))"
  by (auto simp: GetArgLong_def Let_def only_logs_refl only_logs_LogMessage split: prod.splits)

lemma only_logs_GetArgInt: "only_logs s (snd (GetArgInt s i))"
  using only_logs_GetArgLong[of s i] by (simp add: GetArgInt_def split_beta)

lemma only_logs_GetArgUint: "only_logs s (snd (GetArgUint s i))"
  using only_logs_GetArgLong[of s i] by (simp add: GetArgUint_def split_beta)

lemma only_logs_GetArgBraking: "only_logs s (snd (GetArgBraking E s i))"
  using only_logs_GetArgInt[of s i]
  by (auto simp: GetArgBraking_def split_beta Let_def split: option.splits
      intro: only_logs_trans[OF _ only_logs_LogMessage])

lemma only_logs_GetArgPropulsion: "only_logs s (snd (GetArgPropulsion E s i))"
  using only_logs_GetArgInt[of s i]
  by (auto simp: GetArgPropulsion_def split_beta Let_def split: option.splits
      intro: only_logs_trans[OF _ only_logs_LogMessage])

lemma only_logs_ParseArgUint: "only_logs s (snd (ParseArgUint s str))"
  by (auto simp: ParseArgUint_def Let_def only_logs_refl only_logs_LogMessage split: prod.splits)

lemma only_logs_ParseArgInt: "only_logs s (snd (ParseArgInt s str))"
  using only_logs_ParseArgUint[of s str] by (simp add: ParseArgInt_def split_beta)

lemma only_logs_CheckNumArguments: "only_logs s (snd (CheckNumArguments n s))"
  by (simp add: CheckNumArguments_def only_logs_refl only_logs_LogMessage)

lemma only_logs_beam_options_loop: "only_logs s (snd (beam_options_loop str b s))"
proof (induction str arbitrary: b s)
  case Nil
  then show ?case by (simp add: only_logs_refl)
next
  case (Cons c cs)
  show ?case
    using Cons.IH only_logs_trans[OF only_logs_LogMessage Cons.IH] by simp 
qed

lemma only_logs_cab_options_loop: "only_logs s (snd (cab_options_loop str b s))"
proof (induction str arbitrary: b s)
  case Nil
  then show ?case by (simp add: only_logs_refl)
next
  case (Cons c cs)
  show ?case
    using Cons.IH only_logs_trans[OF only_logs_LogMessage Cons.IH] by (simp add: Let_def)
qed

lemma only_logs_ParseNodeOptions_loop: "only_logs s (snd (ParseNodeOptions_loop str opts s))"
proof (induction str arbitrary: opts s)
  case Nil
  then show ?case by (simp add: only_logs_refl)
next
  case (Cons c cs)
  show ?case
    using Cons.IH only_logs_trans[OF only_logs_LogMessage Cons.IH] by simp
qed

lemma only_logs_ParseNodeOptions: "only_logs s (snd (ParseNodeOptions s str))"
  by (simp add: ParseNodeOptions_def only_logs_ParseNodeOptions_loop)

lemma only_logs_mode_token_loop:
  "mode_token_loop toks attrs s = Inr (attrs', s') \<Longrightarrow> only_logs s s'"
proof (induction toks arbitrary: attrs s)
  case Nil
  then show ?case by (simp add: only_logs_refl)
next
  case (Cons tok toks)
  show ?case
  proof (cases "split tok '':''")
    case Nil
    with Cons.prems show ?thesis by simp
  next
    case sp: (Cons a0 rest)
    show ?thesis
    proof (cases "toLowerCase (trim a0) = ''mode'' \<and> length rest = 1")
      case True
      with Cons.prems sp
      have "mode_token_loop toks (mode_attr_loop (split (hd rest) ''&'') attrs) s = Inr (attrs', s')"
        by simp
      then show ?thesis by (rule Cons.IH)
    next
      case False
      with Cons.prems sp
      have "mode_token_loop toks (False, False, True)
              (LogMessage CONSOLE_SYSTEM_ERROR Missing_mode s) = Inr (attrs', s')"
        by auto
      then have "only_logs (LogMessage CONSOLE_SYSTEM_ERROR Missing_mode s) s'"
        by (rule Cons.IH)
      then show ?thesis
        by (rule only_logs_trans[OF only_logs_LogMessage])
    qed
  qed
qed

text \<open>What a state that differs only in its console agrees on.\<close>

lemma only_logs_fields:
  assumes "only_logs s s'"
  shows "m_current_line s' = m_current_line s" "m_args s' = m_args s"
    "m_num_args s' = m_num_args s" "m_current_block s' = m_current_block s"
    "m_log_keyword s' = m_log_keyword s" "m_current_line_number s' = m_current_line_number s"
    "m_definition s' = m_definition s" "module_store s' = module_store s"
    "module_next s' = module_next s" "m_root_module s' = m_root_module s"
    "m_current_module s' = m_current_module s"
    "node_defaults_store s' = node_defaults_store s"
    "node_defaults_next s' = node_defaults_next s"
    "m_ror_node_defaults s' = m_ror_node_defaults s"
    "m_user_node_defaults s' = m_user_node_defaults s"
    "m_ror_default_inertia s' = m_ror_default_inertia s"
    "m_user_default_inertia s' = m_user_default_inertia s"
    "m_user_beam_defaults s' = m_user_beam_defaults s"
    "m_set_default_minimass s' = m_set_default_minimass s"
    "m_current_detacher_group s' = m_current_detacher_group s"
    "m_any_named_node_defined s' = m_any_named_node_defined s"
    "m_current_submesh s' = m_current_submesh s"
    "m_current_camera_rail s' = m_current_camera_rail s"
    "m_sequential_importer s' = m_sequential_importer s"
  using assms by (auto simp: only_logs_def)

lemma only_logs_reads:
  assumes "only_logs s s'"
  shows "current_module s' = current_module s" "arg_slice s' i = arg_slice s i"
    "arg_cstr s' i = arg_cstr s i" "GetArgStr s' i = GetArgStr s i"
    "GetArgFloat E s' i = GetArgFloat E s i" "ParseNodeRef E s' str = ParseNodeRef E s str"
    "GetArgNodeRef E s' i = GetArgNodeRef E s i"
    "GetArgRigidityNode E s' i = GetArgRigidityNode E s i"
    "user_node_defaults s' = user_node_defaults s" "ror_node_defaults s' = ror_node_defaults s"
  using only_logs_fields[OF assms]
  by (simp_all add: current_module_def arg_slice_def arg_cstr_def GetArgStr_def GetArgFloat_def
      ParseNodeRef_def GetArgNodeRef_def GetArgRigidityNode_def user_node_defaults_def
      ror_node_defaults_def)

lemma only_logs_console: "only_logs s s' \<Longrightarrow> \<exists>ms. console s' = console s @ ms"
  by (auto simp: only_logs_def)

section \<open>From a raw line to its handler\<close>

lemma tokenized_fields:
  "m_current_block (tokenized E raw k s) = m_current_block s"
  "m_log_keyword (tokenized E raw k s) = k"
  "m_current_line (tokenized E raw k s) = line_text E raw"
  "m_current_line_number (tokenized E raw k s) = m_current_line_number s"
  "m_definition (tokenized E raw k s) = m_definition s"
  "module_store (tokenized E raw k s) = module_store s"
  "module_next (tokenized E raw k s) = module_next s"
  "m_root_module (tokenized E raw k s) = m_root_module s"
  "m_current_module (tokenized E raw k s) = m_current_module s"
  "node_defaults_store (tokenized E raw k s) = node_defaults_store s"
  "node_defaults_next (tokenized E raw k s) = node_defaults_next s"
  "m_ror_node_defaults (tokenized E raw k s) = m_ror_node_defaults s"
  "m_user_node_defaults (tokenized E raw k s) = m_user_node_defaults s"
  "m_ror_default_inertia (tokenized E raw k s) = m_ror_default_inertia s"
  "m_user_default_inertia (tokenized E raw k s) = m_user_default_inertia s"
  "m_user_beam_defaults (tokenized E raw k s) = m_user_beam_defaults s"
  "m_set_default_minimass (tokenized E raw k s) = m_set_default_minimass s"
  "m_current_detacher_group (tokenized E raw k s) = m_current_detacher_group s"
  "m_any_named_node_defined (tokenized E raw k s) = m_any_named_node_defined s"
  "m_current_submesh (tokenized E raw k s) = m_current_submesh s"
  "m_current_camera_rail (tokenized E raw k s) = m_current_camera_rail s"
  "m_sequential_importer (tokenized E raw k s) = m_sequential_importer s"
  "console (tokenized E raw k s) = console s"
  by (simp_all add: tokenized_def TokenizeCurrentLine_def Let_def)

lemma tokenized_reads:
  "current_module (tokenized E raw k s) = current_module s"
  "user_node_defaults (tokenized E raw k s) = user_node_defaults s"
  "ror_node_defaults (tokenized E raw k s) = ror_node_defaults s"
  by (simp_all add: current_module_def user_node_defaults_def ror_node_defaults_def tokenized_fields)

lemma tokenized_num_args:
  "m_num_args (tokenized E raw k s) = length (line_tokens E (line_text E raw))"
  by (simp add: tokenized_def TokenizeCurrentLine_def Let_def line_tokens_def)

lemma tokenized_arg_slice:
  assumes "i < length (line_tokens E (line_text E raw))"
  shows "arg_slice (tokenized E raw k s) i = tokenize (LINE_MAX_ARGS E) (line_text E raw) ! i"
  using assms
  by (simp add: tokenized_def TokenizeCurrentLine_def Let_def line_tokens_def arg_slice_def nth_append)

lemma tokenize_loop_within:
  assumes "\<forall>a\<in>set acc. slice_start a + slice_length a \<le> pos + length cs"
    and "0 < len \<longrightarrow> st + len \<le> pos"
  shows "\<forall>a\<in>set (tokenize_loop mx cs pos st len acc).
           slice_start a + slice_length a \<le> pos + length cs"
  using assms
proof (induction cs arbitrary: pos st len acc)
  case Nil
  then show ?case by auto
next
  case (Cons c cs)
  show ?case
  proof (cases "length acc < mx")
    case False
    with Cons.prems show ?thesis by auto
  next
    case True
    have step: "\<forall>a\<in>set (tokenize_loop mx cs (Suc pos) st' len' acc').
        slice_start a + slice_length a \<le> pos + length (c # cs)"
      if "\<forall>a\<in>set acc'. slice_start a + slice_length a \<le> Suc pos + length cs"
        and "0 < len' \<longrightarrow> st' + len' \<le> Suc pos" for st' len' acc'
      using Cons.IH[OF that] by simp
    from Cons.prems(1) have acc: "\<forall>a\<in>set acc. slice_start a + slice_length a \<le> Suc pos + length cs"
      by simp
    consider (start) "len = 0" "\<not> IsSeparator c"
      | (close) "0 < len" "IsSeparator c"
      | (grow) "0 < len" "\<not> IsSeparator c"
      | (skip) "len = 0" "IsSeparator c"
      by auto
    then show ?thesis
    proof cases
      case start
      have "\<forall>a\<in>set (tokenize_loop mx cs (Suc pos) pos 1 acc).
          slice_start a + slice_length a \<le> pos + length (c # cs)"
        by (rule step) (use acc in simp_all)
      with True start show ?thesis by simp
    next
      case close
      have "\<forall>a\<in>set (tokenize_loop mx cs (Suc pos) st 0
                        (acc @ [\<lparr>slice_start = st, slice_length = len\<rparr>])).
          slice_start a + slice_length a \<le> pos + length (c # cs)"
        by (rule step) (use acc close Cons.prems(2) in auto)
      with True close show ?thesis by simp
    next
      case grow
      have "\<forall>a\<in>set (tokenize_loop mx cs (Suc pos) st (Suc len) acc).
          slice_start a + slice_length a \<le> pos + length (c # cs)"
        by (rule step) (use acc grow Cons.prems(2) in auto)
      with True grow show ?thesis by simp
    next
      case skip
      have "\<forall>a\<in>set (tokenize_loop mx cs (Suc pos) st len acc).
          slice_start a + slice_length a \<le> pos + length (c # cs)"
        by (rule step) (use acc skip in auto)
      with True skip show ?thesis by simp
    qed
  qed
qed

lemma tokenize_within:
  assumes "i < length (tokenize mx l)"
  shows "slice_start (tokenize mx l ! i) + slice_length (tokenize mx l ! i) \<le> length l"
proof -
  have "\<forall>a\<in>set (tokenize_loop mx l 0 0 0 []). slice_start a + slice_length a \<le> 0 + length l"
    by (rule tokenize_loop_within) simp_all
  with assms show ?thesis
    by (simp add: tokenize_def)
qed

lemma tokenized_GetArgStr:
  assumes "i < length (line_tokens E (line_text E raw))"
  shows "GetArgStr (tokenized E raw k s) i = line_tokens E (line_text E raw) ! i"
proof -
  from assms have i: "i < length (tokenize (LINE_MAX_ARGS E) (line_text E raw))"
    by (simp add: line_tokens_def)
  from tokenize_within[OF i] tokenized_arg_slice[OF assms, of k s] i show ?thesis
    by (simp add: GetArgStr_def tokenized_fields line_tokens_def slice_text_def)
qed

lemma tokenized_arg_cstr:
  assumes "i < length (line_tokens E (line_text E raw))"
  shows "arg_cstr (tokenized E raw k s) i =
           drop (slice_start (tokenize (LINE_MAX_ARGS E) (line_text E raw) ! i)) (line_text E raw)"
  using tokenized_arg_slice[OF assms, of k s]
  by (simp add: arg_cstr_def tokenized_fields)

lemma ProcessCurrentLine_keyword:
  assumes "m_current_line s \<noteq> []" "\<not> starts_comment (m_current_line s)"
    and "name (m_definition s) \<noteq> []"
    and "m_current_block s \<noteq> KEYWORD_COMMENT" "m_current_block s \<noteq> KEYWORD_DESCRIPTION"
  shows "ProcessCurrentLine E s =
           dispatch_keyword E (IdentifyKeyword E (m_current_line s))
             ((TokenizeCurrentLine E s)\<lparr>m_log_keyword := IdentifyKeyword E (m_current_line s)\<rparr>)"
  using assms
  by (simp add: ProcessCurrentLine_def starts_comment_def Let_def IdentifyKeywordInCurrentLine_def
      TokenizeCurrentLine_def)

lemma ProcessRawLine_line:
  assumes "line_is E raw k n" and "name (m_definition s) \<noteq> []"
    and "m_current_block s \<noteq> KEYWORD_COMMENT" "m_current_block s \<noteq> KEYWORD_DESCRIPTION"
  shows "ProcessRawLine E raw s =
           (case dispatch_keyword E k (tokenized E raw k s) of
              Inl f \<Rightarrow> Inl f
            | Inr s' \<Rightarrow> Inr (s'\<lparr>m_current_line_number := Suc (m_current_line_number s')\<rparr>))"
proof -
  let ?r = "raw_text E raw"
  from assms(1) have r: "?r \<noteq> []" "\<not> starts_comment ?r"
    and l: "line_text E raw \<noteq> []" "\<not> starts_comment (line_text E raw)"
    and k: "IdentifyKeyword E (line_text E raw) = k"
    by (simp_all add: line_is_def line_skipped_def)
  from r have hd: "hd ?r \<noteq> CHR '';''" "hd ?r \<noteq> CHR ''/''"
    by (simp_all add: starts_comment_def char_at_def hd_conv_nth)
  let ?s = "s\<lparr>m_current_line := line_text E raw\<rparr>"
  have "ProcessCurrentLine E ?s = dispatch_keyword E k (tokenized E raw k s)"
    using ProcessCurrentLine_keyword[of ?s E] l k assms(2-4)
    by (simp add: tokenized_def)
  moreover have "ProcessRawLine E raw s =
      (if ?r = [] \<or> hd ?r = CHR '';'' \<or> hd ?r = CHR ''/''
       then Inr (s\<lparr>m_current_line_number := Suc (m_current_line_number s)\<rparr>)
       else (case ProcessCurrentLine E ?s of
               Inl f \<Rightarrow> Inl f
             | Inr s' \<Rightarrow> Inr (s'\<lparr>m_current_line_number := Suc (m_current_line_number s')\<rparr>)))"
    by (simp add: ProcessRawLine_def raw_text_def line_text_def Let_def)
  ultimately show ?thesis
    using r(1) hd by simp
qed

lemma ProcessRawLine_skipped:
  assumes "line_skipped E raw"
  shows "ProcessRawLine E raw s = Inr (s\<lparr>m_current_line_number := Suc (m_current_line_number s)\<rparr>)"
proof -
  let ?r = "raw_text E raw"
  from assms have "?r = [] \<or> hd ?r = CHR '';'' \<or> hd ?r = CHR ''/''"
    by (auto simp: line_skipped_def starts_comment_def char_at_def hd_conv_nth split: if_splits)
  moreover have "ProcessRawLine E raw s =
      (if ?r = [] \<or> hd ?r = CHR '';'' \<or> hd ?r = CHR ''/''
       then Inr (s\<lparr>m_current_line_number := Suc (m_current_line_number s)\<rparr>)
       else (case ProcessCurrentLine E (s\<lparr>m_current_line := line_text E raw\<rparr>) of
               Inl f \<Rightarrow> Inl f
             | Inr s' \<Rightarrow> Inr (s'\<lparr>m_current_line_number := Suc (m_current_line_number s')\<rparr>)))"
    by (simp add: ProcessRawLine_def raw_text_def line_text_def Let_def)
  ultimately show ?thesis
    by presburger
qed

section \<open>Normal forms of the section parsers\<close>

lemma CheckNumArguments_short:
  "m_num_args s < n \<Longrightarrow>
   CheckNumArguments n s =
     (False, LogMessage CONSOLE_SYSTEM_WARNING (Not_enough_arguments (m_num_args s) n) s)"
  by (simp add: CheckNumArguments_def)

lemma CheckNumArguments_enough: "n \<le> m_num_args s \<Longrightarrow> CheckNumArguments n s = (True, s)"
  by (simp add: CheckNumArguments_def)

lemma current_module_update [simp]:
  "current_module (update_current_module f s) = f (current_module s)"
  by (simp add: current_module_def update_current_module_def)

lemma beam_options_loop_keeps:
  "beam_detacher_group (fst (beam_options_loop str b s)) = beam_detacher_group b
   \<and> beam_defaults (fst (beam_options_loop str b s)) = beam_defaults b
   \<and> beam_nodes (fst (beam_options_loop str b s)) = beam_nodes b"
  by (induction str arbitrary: b s) simp_all

lemma ParseBeams_enough:
  assumes "2 \<le> m_num_args s"
  shows "\<exists>beam s'. only_logs s s'
           \<and> ParseBeams E s = update_current_module (\<lambda>m. m\<lparr>beams := beams m @ [beam]\<rparr>) s'
           \<and> beam_detacher_group beam = m_current_detacher_group s
           \<and> beam_defaults beam = m_user_beam_defaults s
           \<and> beam_nodes beam = (GetArgNodeRef E s 0, GetArgNodeRef E s 1)"
proof -
  define beam0 where "beam0 = (new_Beam E)
                 \<lparr>beam_defaults := m_user_beam_defaults s,
                  beam_detacher_group := m_current_detacher_group s,
                  beam_nodes := (GetArgNodeRef E s 0, GetArgNodeRef E s 1)\<rparr>"
  define r1 where "r1 = (if 2 < m_num_args s then beam_options_loop (GetArgStr s 2) beam0 s
                  else (beam0, s))"
  define r2 where "r2 = (if 3 < m_num_args (snd r1) \<and> OPTION_s_SUPPORT \<in> beam_options (fst r1) then
                    (let (f, s2a) = GetArgInt (snd r1) 3;
                         support_break_factor = real_of_int f;
                         support_break_limit =
                           (if 0 < support_break_factor then support_break_factor else 0)
                     in ((fst r1)\<lparr>extension_break_limit := support_break_limit,
                                has_extension_break_limit := True\<rparr>, s2a))
                  else r1)"
  have eq: "ParseBeams E s = update_current_module (\<lambda>m. m\<lparr>beams := beams m @ [fst r2]\<rparr>) (snd r2)"
    using assms
    by (simp add: ParseBeams_def CheckNumArguments_enough r2_def r1_def beam0_def Let_def split_beta)
  have l1: "only_logs s (snd r1)"
    by (simp add: r1_def only_logs_refl only_logs_beam_options_loop)
  have l2: "only_logs (snd r1) (snd r2)"
    by (simp add: r2_def only_logs_refl only_logs_GetArgInt Let_def split_beta)
  have k1: "beam_detacher_group (fst r1) = m_current_detacher_group s
     \<and> beam_defaults (fst r1) = m_user_beam_defaults s
     \<and> beam_nodes (fst r1) = (GetArgNodeRef E s 0, GetArgNodeRef E s 1)"
    by (simp add: r1_def beam_options_loop_keeps beam0_def)
  have k2: "beam_detacher_group (fst r2) = beam_detacher_group (fst r1)
     \<and> beam_defaults (fst r2) = beam_defaults (fst r1)
     \<and> beam_nodes (fst r2) = beam_nodes (fst r1)"
    by (simp add: r2_def Let_def split_beta)
  show ?thesis
    apply (rule exI[of _ "fst r2"], rule exI[of _ "snd r2"])
    using eq only_logs_trans[OF l1 l2] k1 k2 by simp
qed

lemma ParseWheelDetachers_enough:
  assumes "2 \<le> m_num_args s"
  shows "\<exists>wd s'. only_logs s s'
           \<and> ParseWheelDetachers s =
               update_current_module (\<lambda>m. m\<lparr>wheeldetachers := wheeldetachers m @ [wd]\<rparr>) s'
           \<and> wheel_id wd = fst (GetArgInt s 0)"
proof -
  define r1 where "r1 = GetArgInt s 0"
  define r2 where "r2 = GetArgInt (snd r1) 1"
  have eq: "ParseWheelDetachers s =
      update_current_module
        (\<lambda>m. m\<lparr>wheeldetachers := wheeldetachers m @
                 [\<lparr>wheel_id = fst r1, wd_detacher_group = fst r2\<rparr>]\<rparr>) (snd r2)"
    using assms
    by (simp add: ParseWheelDetachers_def CheckNumArguments_enough r1_def r2_def Let_def split_beta)
  have "only_logs s (snd r2)"
    unfolding r1_def r2_def by (rule only_logs_trans[OF only_logs_GetArgInt only_logs_GetArgInt])
  then show ?thesis
    apply (intro exI[of _ "\<lparr>wheel_id = fst r1, wd_detacher_group = fst r2\<rparr>"] exI[of _ "snd r2"])
    using eq by (simp add: r1_def)
qed

lemma ParseWheel_enough:
  assumes "14 \<le> m_num_args s"
  shows "\<exists>wheel s' imp. only_logs s s'
           \<and> ParseWheel E s =
               update_current_module (\<lambda>m. m\<lparr>wheels := wheels m @ [wheel]\<rparr>)
                 (s'\<lparr>m_sequential_importer := imp\<rparr>)
           \<and> wheel_node_defaults wheel = m_user_node_defaults s"
proof -
  define r2 where "r2 = GetArgInt s 2"
  define r3 where "r3 = GetArgBraking E (snd r2) 6"
  define r4 where "r4 = GetArgPropulsion E (snd r3) 7"
  define wheel where "wheel =
                 \<lparr>wheel_node_defaults = m_user_node_defaults s,
                  wheel_beam_defaults = m_user_beam_defaults s,
                  radius = GetArgFloat E s 0,
                  width = GetArgFloat E s 1,
                  num_rays = fst r2,
                  wheel_nodes = (GetArgNodeRef E (snd r2) 3, GetArgNodeRef E (snd r2) 4),
                  rigidity_node = GetArgRigidityNode E (snd r2) 5,
                  braking = fst r3,
                  propulsion = fst r4,
                  reference_arm_node = GetArgNodeRef E (snd r4) 8,
                  mass = GetArgFloat E (snd r4) 9,
                  wheel_springiness = GetArgFloat E (snd r4) 10,
                  wheel_damping = GetArgFloat E (snd r4) 11,
                  face_material_name = GetArgStr (snd r4) 12,
                  band_material_name = GetArgStr (snd r4) 13\<rparr>"
  define imp where "imp = (if IsEnabled (m_sequential_importer (snd r4))
                     then importer_record
                            (GenerateNodesForWheel KEYWORD_WHEELS (num_rays wheel)
                               (IsValidAnyState (rigidity_node wheel)))
                            (m_sequential_importer (snd r4))
                     else m_sequential_importer (snd r4))"
  have eq: "ParseWheel E s =
      update_current_module (\<lambda>m. m\<lparr>wheels := wheels m @ [wheel]\<rparr>)
        ((snd r4)\<lparr>m_sequential_importer := imp\<rparr>)"
    using assms
    by (simp add: ParseWheel_def CheckNumArguments_enough r2_def r3_def r4_def wheel_def imp_def
        Let_def split_beta)
  have "only_logs s (snd r4)"
    unfolding r2_def r3_def r4_def
    by (rule only_logs_trans[OF only_logs_GetArgInt
          only_logs_trans[OF only_logs_GetArgBraking only_logs_GetArgPropulsion]])
  then show ?thesis
    apply (intro exI[of _ wheel] exI[of _ "snd r4"] exI[of _ imp])
    using eq by (simp add: wheel_def)
qed

lemma ParseEngine_enough:
  assumes "6 \<le> m_num_args s"
  shows "ParseEngine E s =
           (if takeWhile (\<lambda>ratio. \<not> ratio < 0) (map (GetArgFloat E s) [6 ..< m_num_args s]) = []
            then LogMessage CONSOLE_SYSTEM_ERROR No_forward_gear s
            else update_current_module
                   (\<lambda>m. m\<lparr>engine := engine m @
                      [\<lparr>shift_down_rpm = GetArgFloat E s 0,
                        shift_up_rpm = GetArgFloat E s 1,
                        torque = GetArgFloat E s 2,
                        global_gear_ratio = GetArgFloat E s 3,
                        reverse_gear_ratio = GetArgFloat E s 4,
                        neutral_gear_ratio = GetArgFloat E s 5,
                        gear_ratios = takeWhile (\<lambda>ratio. \<not> ratio < 0)
                                        (map (GetArgFloat E s) [6 ..< m_num_args s])\<rparr>]\<rparr>) s)"
  using assms by (simp add: ParseEngine_def CheckNumArguments_enough Let_def)

lemma ParseNodesUnified_enough:
  assumes "4 \<le> m_num_args s"
  shows "\<exists>node s' imp named. only_logs s s'
           \<and> ParseNodesUnified E s =
               update_current_module (\<lambda>m. m\<lparr>nodes := nodes m @ [node]\<rparr>)
                 (s'\<lparr>m_sequential_importer := imp, m_any_named_node_defined := named\<rparr>)
           \<and> node_node_defaults node = m_user_node_defaults s
           \<and> node_detacher_group node = m_current_detacher_group s"
proof -
  define node0 where "node0 = (new_Node E)
                 \<lparr>node_node_defaults := m_user_node_defaults s,
                  node_beam_defaults := m_user_beam_defaults s,
                  node_default_minimass := m_set_default_minimass s,
                  node_detacher_group := m_current_detacher_group s\<rparr>"
  define r1 where "r1 =
                 (if m_current_block s = KEYWORD_NODES2 then
                    (let node_name = GetArgStr s 0;
                         s1a = (if IsEnabled (m_sequential_importer s)
                                then s\<lparr>m_sequential_importer :=
                                          importer_record (AddNamedNode node_name)
                                            (m_sequential_importer s)\<rparr>
                                else s)
                     in (node0\<lparr>node_id := Id_str node_name\<rparr>,
                         s1a\<lparr>m_any_named_node_defined := True\<rparr>))
                  else
                    (let (node_num, s1a) = GetArgUint s 0;
                         s1b = (if IsEnabled (m_sequential_importer s1a)
                                then s1a\<lparr>m_sequential_importer :=
                                           importer_record (AddNumberedNode node_num)
                                             (m_sequential_importer s1a)\<rparr>
                                else s1a)
                     in (node0\<lparr>node_id := Id_num node_num\<rparr>, s1b)))"
  define node2 where "node2 = (fst r1)\<lparr>position_x := GetArgFloat E (snd r1) 1,
                             position_y := GetArgFloat E (snd r1) 2,
                             position_z := GetArgFloat E (snd r1) 3\<rparr>"
  define r3 where "r3 =
                 (if 4 < m_num_args (snd r1)
                  then (let (opts, s2a) = ParseNodeOptions (snd r1) (GetArgStr (snd r1) 4)
                        in (node2\<lparr>node_options := opts\<rparr>, s2a))
                  else (node2, snd r1))"
  define r4 where "r4 =
                 (if 5 < m_num_args (snd r3) then
                    (if OPTION_l_LOAD_WEIGHT \<in> node_options (fst r3)
                     then ((fst r3)\<lparr>load_weight_override := GetArgFloat E (snd r3) 5,
                                  has_load_weight_override := True\<rparr>, snd r3)
                     else (fst r3, LogMessage CONSOLE_SYSTEM_WARNING
                                     Load_weight_override_without_l (snd r3)))
                  else r3)"
  have eq: "ParseNodesUnified E s =
      update_current_module (\<lambda>m. m\<lparr>nodes := nodes m @ [fst r4]\<rparr>) (snd r4)"
    using assms
    by (simp add: ParseNodesUnified_def CheckNumArguments_enough node0_def r1_def node2_def
        r3_def r4_def Let_def split_beta split del: if_split cong: if_cong)
  obtain s1 imp named where s1: "only_logs s s1"
    and r1s: "snd r1 = s1\<lparr>m_sequential_importer := imp, m_any_named_node_defined := named\<rparr>"
  proof (cases "m_current_block s = KEYWORD_NODES2")
    case True
    have "only_logs s s"
      by (rule only_logs_refl)
    moreover have "snd r1 = s\<lparr>m_sequential_importer := m_sequential_importer (snd r1),
                              m_any_named_node_defined := True\<rparr>"
      by (simp add: r1_def True Let_def)
    ultimately show ?thesis
      by (rule that)
  next
    case False
    have "only_logs s (snd (GetArgUint s 0))"
      by (rule only_logs_GetArgUint)
    moreover have "snd r1 = (snd (GetArgUint s 0))
        \<lparr>m_sequential_importer := m_sequential_importer (snd r1),
         m_any_named_node_defined := m_any_named_node_defined (snd (GetArgUint s 0))\<rparr>"
      by (simp add: r1_def False Let_def split_beta)
    ultimately show ?thesis
      by (rule that)
  qed
  have k1: "node_node_defaults (fst r1) = m_user_node_defaults s
          \<and> node_detacher_group (fst r1) = m_current_detacher_group s"
    by (simp add: r1_def node0_def Let_def split_beta)
  have l3: "only_logs (snd r1) (snd r3)"
    by (simp add: r3_def only_logs_refl only_logs_ParseNodeOptions Let_def split_beta)
  have k3: "node_node_defaults (fst r3) = node_node_defaults (fst r1)
          \<and> node_detacher_group (fst r3) = node_detacher_group (fst r1)"
    by (simp add: r3_def node2_def Let_def split_beta)
  have l4: "only_logs (snd r3) (snd r4)"
    by (simp add: r4_def only_logs_refl only_logs_LogMessage)
  have k4: "node_node_defaults (fst r4) = node_node_defaults (fst r3)
          \<and> node_detacher_group (fst r4) = node_detacher_group (fst r3)"
    by (simp add: r4_def)
  from only_logs_trans[OF l3 l4] obtain ms where
    ms: "snd r4 = (snd r1)\<lparr>console := console (snd r1) @ ms\<rparr>"
    by (auto simp: only_logs_def)
  from s1 obtain ms1 where ms1: "s1 = s\<lparr>console := console s @ ms1\<rparr>"
    by (auto simp: only_logs_def)
  define s' where "s' = s\<lparr>console := console s @ ms1 @ ms\<rparr>"
  have "only_logs s s'"
    by (auto simp: only_logs_def s'_def)
  moreover have "snd r4 = s'\<lparr>m_sequential_importer := imp, m_any_named_node_defined := named\<rparr>"
    unfolding ms r1s by (simp add: ms1 s'_def)
  ultimately show ?thesis
    apply (intro exI[of _ "fst r4"] exI[of _ s'] exI[of _ imp] exI[of _ named])
    using eq k1 k3 k4 by simp
qed

section \<open>Integer decoding\<close>

lemma strtol_digits_append:
  "\<forall>c\<in>set ds. isdigit c \<Longrightarrow>
   strtol_digits (ds @ r) acc n =
     strtol_digits r (foldl (\<lambda>acc c. acc * 10 + digit_value c) acc ds) (n + length ds)"
  by (induction ds arbitrary: acc n) simp_all

lemma strtol_digits_stop:
  "r = [] \<or> \<not> isdigit (hd r) \<Longrightarrow> strtol_digits r acc n = (acc, n)"
  by (cases r) auto

lemma foldl_decimal_nonneg:
  "0 \<le> acc \<Longrightarrow> \<forall>c\<in>set ds. isdigit c \<Longrightarrow>
   0 \<le> foldl (\<lambda>acc c. acc * 10 + digit_value c) acc ds"
proof (induction ds arbitrary: acc)
  case Nil
  then show ?case by simp
next
  case (Cons c cs)
  from Cons.prems have "0 \<le> digit_value c"
    by (simp add: isdigit_def digit_value_def Let_def)
  with Cons.prems have "0 \<le> acc * 10 + digit_value c"
    by simp
  with Cons show ?case
    by simp
qed

lemma isdigit_not_special:
  assumes "isdigit c"
  shows "\<not> isspace c" "c \<noteq> CHR ''-''" "c \<noteq> CHR ''+''"
  using assms by (auto simp: isdigit_def isspace_def Let_def)

lemma strtol_number:
  assumes "ds \<noteq> []" "\<forall>c\<in>set ds. isdigit c" "r = [] \<or> \<not> isdigit (hd r)"
    and "decimal ds \<le> LONG_MAX"
  shows "strtol (ds @ r) = (decimal ds, length ds, False)"
proof -
  from assms(1) obtain d ds' where ds: "ds = d # ds'"
    by (cases ds) auto
  with assms(2) have d: "isdigit d"
    by simp
  note sp = isdigit_not_special[OF d]
  have ws: "takeWhile isspace (ds @ r) = []" "dropWhile isspace (ds @ r) = ds @ r"
    using sp(1) by (simp_all add: ds)
  have hd: "hd (ds @ r) = d"
    by (simp add: ds)
  have dg: "strtol_digits (ds @ r) 0 0 = (decimal ds, length ds)"
    using strtol_digits_append[OF assms(2), of r 0 0] strtol_digits_stop[OF assms(3)]
    by (simp add: decimal_def)
  have nn: "0 \<le> decimal ds"
    using foldl_decimal_nonneg[OF _ assms(2), of 0] by (simp add: decimal_def)
  have lo: "\<not> decimal ds < LONG_MIN"
    using nn by (simp add: LONG_MIN_def)
  have hi: "\<not> LONG_MAX < decimal ds"
    using assms(4) by simp
  have len: "length ds \<noteq> 0"
    using assms(1) by simp
  show ?thesis
    unfolding strtol_def ws Let_def hd
    using sp(2,3) dg lo hi len by simp
qed

lemma strtol_no_number:
  assumes "g = [] \<or> (\<not> isspace (hd g) \<and> hd g \<noteq> CHR ''-'' \<and> hd g \<noteq> CHR ''+'' \<and> \<not> isdigit (hd g))"
  shows "strtol g = (0, 0, False)"
proof (cases g)
  case Nil
  then show ?thesis by (simp add: strtol_def)
next
  case (Cons c cs)
  with assms show ?thesis
    by (simp add: strtol_def Let_def)
qed

section \<open>The document name is written once\<close>

lemmas decoder_fields =
  only_logs_fields[OF only_logs_LogMessage]
  only_logs_fields[OF only_logs_CheckNumArguments]
  only_logs_fields[OF only_logs_GetArgLong]
  only_logs_fields[OF only_logs_GetArgInt]
  only_logs_fields[OF only_logs_GetArgUint]
  only_logs_fields[OF only_logs_GetArgBraking]
  only_logs_fields[OF only_logs_GetArgPropulsion]
  only_logs_fields[OF only_logs_ParseArgUint]
  only_logs_fields[OF only_logs_ParseArgInt]
  only_logs_fields[OF only_logs_beam_options_loop]
  only_logs_fields[OF only_logs_cab_options_loop]
  only_logs_fields[OF only_logs_ParseNodeOptions_loop]
  only_logs_fields[OF only_logs_ParseNodeOptions]

lemma flush_staged_definition: "m_definition (flush_staged s) = m_definition s"
  by (simp add: flush_staged_def Let_def update_current_module_def decoder_fields
      split: option.splits)

lemma BeginBlock_definition: "m_definition (BeginBlock k s) = m_definition s"
  by (simp add: BeginBlock_def Let_def flush_staged_definition)

lemma switch_module_name: "name (m_definition (switch_module E n s)) = name (m_definition s)"
  by (simp add: switch_module_def Let_def BeginBlock_definition split: option.splits)

lemma ProcessChangeModuleLine_name:
  "name (m_definition (ProcessChangeModuleLine E k s)) = name (m_definition s)"
  by (simp add: ProcessChangeModuleLine_def Let_def switch_module_name decoder_fields
      CheckNumArguments_def)

lemma ProcessGlobalDirective_name:
  "name (m_definition (ProcessGlobalDirective k s)) = name (m_definition s)"
  by (cases k) (simp_all add: ProcessGlobalDirective_def Let_def)

lemma ParseDirectiveSetNodeDefaults_definition:
  "m_definition (ParseDirectiveSetNodeDefaults E s) = m_definition s"
  by (simp add: ParseDirectiveSetNodeDefaults_def CheckNumArguments_def Let_def split_beta
      decoder_fields)

lemma ParseDirectiveSetInertiaDefaults_definition:
  "m_definition (ParseDirectiveSetInertiaDefaults E s) = m_definition s"
  by (simp add: ParseDirectiveSetInertiaDefaults_def CheckNumArguments_def Let_def decoder_fields)

lemma ParseDirectiveSetDefaultMinimass_definition:
  "m_definition (ParseDirectiveSetDefaultMinimass E s) = m_definition s"
  by (simp add: ParseDirectiveSetDefaultMinimass_def CheckNumArguments_def decoder_fields)

lemma ParseDirectiveDetacherGroup_definition:
  "m_definition (ParseDirectiveDetacherGroup s) = m_definition s"
  by (simp add: ParseDirectiveDetacherGroup_def CheckNumArguments_def Let_def split_beta
      decoder_fields)

lemma ParseDirectiveSubmesh_definition:
  "m_definition (ParseDirectiveSubmesh E s) = m_definition s"
  by (simp add: ParseDirectiveSubmesh_def BeginBlock_definition)

lemma ParseDirectiveBackmesh_definition:
  "m_definition (ParseDirectiveBackmesh s) = m_definition s"
  by (simp add: ParseDirectiveBackmesh_def decoder_fields split: option.splits)

lemma mode_token_loop_definition:
  "mode_token_loop toks attrs s = Inr (attrs', s') \<Longrightarrow> m_definition s' = m_definition s"
  by (rule only_logs_fields[OF only_logs_mode_token_loop])

lemma ParseAntiLockBrakes_definition:
  assumes "ParseAntiLockBrakes E s = Inr s'"
  shows "m_definition s' = m_definition s"
proof (cases "length (split (drop 15 (m_current_line s)) '','') < 2")
  case True
  with assms show ?thesis
    by (auto simp: ParseAntiLockBrakes_def CheckNumArguments_def Let_def decoder_fields)
next
  case False
  let ?tokens = "split (drop 15 (m_current_line s)) '',''"
  let ?s1 = "s\<lparr>m_num_args := length ?tokens\<rparr>"
  let ?r = "ParseArgInt ?s1 (?tokens ! 1)"
  from False assms obtain attrs0 s3 where
    l: "mode_token_loop (drop 3 ?tokens) attrs0 (snd ?r) = Inr s3"
    and e: "m_definition s' = m_definition (snd s3)"
    by (auto simp: ParseAntiLockBrakes_def CheckNumArguments_def Let_def split_beta
        update_current_module_def split: sum.splits)
  from l have "m_definition (snd s3) = m_definition (snd ?r)"
    by (cases s3) (simp add: mode_token_loop_definition)
  with e show ?thesis
    by (simp add: decoder_fields)
qed

lemma ParseTractionControl_definition:
  assumes "ParseTractionControl E s = Inr s'"
  shows "m_definition s' = m_definition s"
proof (cases "length (split (drop 15 (m_current_line s)) '','') < 2")
  case True
  with assms show ?thesis
    by (auto simp: ParseTractionControl_def CheckNumArguments_def Let_def decoder_fields)
next
  case False
  let ?tokens = "split (drop 15 (m_current_line s)) '',''"
  let ?s1 = "s\<lparr>m_num_args := length ?tokens\<rparr>"
  from False assms obtain attrs0 s3 where
    l: "mode_token_loop (drop 4 ?tokens) attrs0 ?s1 = Inr s3"
    and e: "m_definition s' = m_definition (snd s3)"
    by (auto simp: ParseTractionControl_def CheckNumArguments_def Let_def split_beta
        update_current_module_def split: sum.splits)
  from l have "m_definition (snd s3) = m_definition ?s1"
    by (cases s3) (simp add: mode_token_loop_definition)
  with e show ?thesis
    by simp
qed


lemma update_current_module_definition:
  "m_definition (update_current_module f s) = m_definition s"
  by (simp add: update_current_module_def)

lemma ParseBeams_definition: "m_definition (ParseBeams E s) = m_definition s"
proof (cases "m_num_args s < 2")
  case True
  then show ?thesis
    by (simp add: ParseBeams_def CheckNumArguments_short decoder_fields)
next
  case False
  then have "2 \<le> m_num_args s" by simp
  from ParseBeams_enough[OF this, of E] obtain beam s' where
    "only_logs s s'"
    "ParseBeams E s = update_current_module (\<lambda>m. m\<lparr>beams := beams m @ [beam]\<rparr>) s'"
    by blast
  then show ?thesis
    by (simp add: update_current_module_definition only_logs_fields)
qed

lemma ParseNodesUnified_definition: "m_definition (ParseNodesUnified E s) = m_definition s"
proof (cases "m_num_args s < 4")
  case True
  then show ?thesis
    by (simp add: ParseNodesUnified_def CheckNumArguments_short decoder_fields)
next
  case False
  then have "4 \<le> m_num_args s" by simp
  from ParseNodesUnified_enough[OF this, of E] obtain node s' imp named where
    "only_logs s s'"
    "ParseNodesUnified E s = update_current_module (\<lambda>m. m\<lparr>nodes := nodes m @ [node]\<rparr>)
        (s'\<lparr>m_sequential_importer := imp, m_any_named_node_defined := named\<rparr>)"
    by blast
  then show ?thesis
    by (simp add: update_current_module_definition only_logs_fields)
qed

lemma ParseWheel_definition: "m_definition (ParseWheel E s) = m_definition s"
proof (cases "m_num_args s < 14")
  case True
  then show ?thesis
    by (simp add: ParseWheel_def CheckNumArguments_short decoder_fields)
next
  case False
  then have "14 \<le> m_num_args s" by simp
  from ParseWheel_enough[OF this, of E] obtain wheel s' imp where
    "only_logs s s'"
    "ParseWheel E s = update_current_module (\<lambda>m. m\<lparr>wheels := wheels m @ [wheel]\<rparr>)
        (s'\<lparr>m_sequential_importer := imp\<rparr>)"
    by blast
  then show ?thesis
    by (simp add: update_current_module_definition only_logs_fields)
qed

lemma ParseWheelDetachers_definition: "m_definition (ParseWheelDetachers s) = m_definition s"
proof (cases "m_num_args s < 2")
  case True
  then show ?thesis
    by (simp add: ParseWheelDetachers_def CheckNumArguments_short decoder_fields)
next
  case False
  then have "2 \<le> m_num_args s" by simp
  from ParseWheelDetachers_enough[OF this] obtain wd s' where
    "only_logs s s'"
    "ParseWheelDetachers s =
       update_current_module (\<lambda>m. m\<lparr>wheeldetachers := wheeldetachers m @ [wd]\<rparr>) s'"
    by blast
  then show ?thesis
    by (simp add: update_current_module_definition only_logs_fields)
qed

lemma ParseEngine_definition: "m_definition (ParseEngine E s) = m_definition s"
proof (cases "m_num_args s < 6")
  case True
  then show ?thesis
    by (simp add: ParseEngine_def CheckNumArguments_short decoder_fields)
next
  case False
  then have "6 \<le> m_num_args s" by simp
  then show ?thesis
    by (simp add: ParseEngine_enough update_current_module_definition decoder_fields)
qed

lemma ParseHelp_definition: "m_definition (ParseHelp s) = m_definition s"
  by (simp add: ParseHelp_def update_current_module_definition)

lemma ParseCab_definition: "ParseCab E s = Inr s' \<Longrightarrow> m_definition s' = m_definition s"
  by (auto simp: ParseCab_def CheckNumArguments_def Let_def split_beta decoder_fields
      split: if_splits option.splits)

lemma ParseTexcoords_definition:
  "ParseTexcoords E s = Inr s' \<Longrightarrow> m_definition s' = m_definition s"
  by (auto simp: ParseTexcoords_def CheckNumArguments_def Let_def decoder_fields
      split: if_splits option.splits)

lemma ParseCameraRails_definition:
  "ParseCameraRails E s = Inr s' \<Longrightarrow> m_definition s' = m_definition s"
  by (auto simp: ParseCameraRails_def split: option.splits)

lemma parse_current_block_definition:
  assumes "parse_current_block E s = Inr s'"
  shows "m_definition s' = m_definition s"
  using assms
  by (cases "m_current_block s")
     (auto simp: parse_current_block_def ParseBeams_definition ParseNodesUnified_definition
        ParseWheel_definition ParseWheelDetachers_definition ParseEngine_definition
        ParseHelp_definition
        dest: ParseCab_definition ParseTexcoords_definition ParseCameraRails_definition)

lemma dispatch_keyword_name:
  assumes "dispatch_keyword E k s = Inr s'"
  shows "name (m_definition s') = name (m_definition s)"
proof (cases k)
  case KEYWORD_INVALID
  with assms have "parse_current_block E (s\<lparr>m_log_keyword := m_current_block s\<rparr>) = Inr s'"
    by (simp add: dispatch_keyword_def)
  from parse_current_block_definition[OF this] show ?thesis
    by simp
next
  case KEYWORD_ANTILOCKBRAKES
  with assms show ?thesis
    by (simp add: dispatch_keyword_def ParseAntiLockBrakes_definition)
next
  case KEYWORD_TRACTIONCONTROL
  with assms show ?thesis
    by (simp add: dispatch_keyword_def ParseTractionControl_definition)
qed (use assms in \<open>auto simp: dispatch_keyword_def ProcessGlobalDirective_name
      ProcessChangeModuleLine_name ParseDirectiveSection_def
      ParseDirectiveSetNodeDefaults_definition ParseDirectiveSetInertiaDefaults_definition
      ParseDirectiveSetDefaultMinimass_definition ParseDirectiveDetacherGroup_definition
      ParseDirectiveSubmesh_definition ParseDirectiveBackmesh_definition
      BeginBlock_definition\<close>)

lemma ProcessCurrentLine_keeps_name:
  assumes "name (m_definition s) \<noteq> []" and "ProcessCurrentLine E s = Inr s'"
  shows "name (m_definition s') = name (m_definition s)"
proof (cases "starts_comment (m_current_line s)")
  case True
  with assms(2) show ?thesis
    by (auto simp: ProcessCurrentLine_def starts_comment_def)
next
  case False
  let ?s1 = "if m_current_block s \<noteq> KEYWORD_COMMENT \<and> m_current_block s \<noteq> KEYWORD_DESCRIPTION
             then TokenizeCurrentLine E s else s"
  let ?k = "IdentifyKeywordInCurrentLine E ?s1"
  from False assms have "dispatch_keyword E ?k (?s1\<lparr>m_log_keyword := ?k\<rparr>) = Inr s'"
    by (simp add: ProcessCurrentLine_def starts_comment_def Let_def)
  from dispatch_keyword_name[OF this] show ?thesis
    by (simp add: TokenizeCurrentLine_def Let_def)
qed

lemma ProcessRawLine_keeps_name:
  assumes "name (m_definition s) \<noteq> []" and "ProcessRawLine E raw s = Inr s'"
  shows "name (m_definition s') = name (m_definition s)"
proof (cases "line_skipped E raw")
  case True
  with assms(2) show ?thesis
    by (auto simp: ProcessRawLine_skipped)
next
  case False
  let ?s = "s\<lparr>m_current_line := line_text E raw\<rparr>"
  from False have r: "raw_text E raw \<noteq> []" "hd (raw_text E raw) \<noteq> CHR '';''"
    "hd (raw_text E raw) \<noteq> CHR ''/''"
    by (auto simp: line_skipped_def starts_comment_def char_at_def hd_conv_nth)
  have "ProcessRawLine E raw s =
      (if raw_text E raw = [] \<or> hd (raw_text E raw) = CHR '';'' \<or> hd (raw_text E raw) = CHR ''/''
       then Inr (s\<lparr>m_current_line_number := Suc (m_current_line_number s)\<rparr>)
       else (case ProcessCurrentLine E ?s of
               Inl f \<Rightarrow> Inl f
             | Inr s' \<Rightarrow> Inr (s'\<lparr>m_current_line_number := Suc (m_current_line_number s')\<rparr>)))"
    by (simp add: ProcessRawLine_def raw_text_def line_text_def Let_def)
  with r assms(2) obtain s1 where s1: "ProcessCurrentLine E ?s = Inr s1"
    and s': "s' = s1\<lparr>m_current_line_number := Suc (m_current_line_number s1)\<rparr>"
    by (auto split: sum.splits)
  from ProcessCurrentLine_keeps_name[OF _ s1] assms(1) s' show ?thesis
    by simp
qed

lemma ProcessLines_keeps_name:
  assumes "name (m_definition s) \<noteq> []" and "ProcessLines E ls s = Inr s'"
  shows "name (m_definition s') = name (m_definition s)"
  using assms
proof (induction ls arbitrary: s)
  case Nil
  then show ?case by simp
next
  case (Cons l ls)
  from Cons.prems(2) obtain s1 where s1: "ProcessRawLine E l s = Inr s1"
    and rest: "ProcessLines E ls s1 = Inr s'"
    by (auto split: sum.splits)
  from ProcessRawLine_keeps_name[OF Cons.prems(1) s1]
  have n: "name (m_definition s1) = name (m_definition s)" .
  with Cons.prems(1) have "name (m_definition s1) \<noteq> []"
    by simp
  from Cons.IH[OF this rest] n show ?case
    by simp
qed

section \<open>Node defaults\<close>

lemma ParseDirectiveSetNodeDefaults_enough:
  assumes "2 \<le> m_num_args s" and "m_ror_node_defaults s \<noteq> node_defaults_next s"
  shows "\<exists>s' opts. only_logs s s'
      \<and> ParseDirectiveSetNodeDefaults E s =
          s'\<lparr>node_defaults_store := (node_defaults_store s)
               (node_defaults_next s :=
                  \<lparr>load_weight = (if GetArgFloat E s 1 < 0 then load_weight (ror_node_defaults s)
                                   else GetArgFloat E s 1),
                   friction = (if 2 < m_num_args s \<and> \<not> GetArgFloat E s 2 < 0
                               then GetArgFloat E s 2 else friction (ror_node_defaults s)),
                   volume = (if 3 < m_num_args s \<and> \<not> GetArgFloat E s 3 < 0
                             then GetArgFloat E s 3 else volume (ror_node_defaults s)),
                   surface = (if 4 < m_num_args s \<and> \<not> GetArgFloat E s 4 < 0
                              then GetArgFloat E s 4 else surface (ror_node_defaults s)),
                   nd_options = opts\<rparr>),
             node_defaults_next := Suc (node_defaults_next s),
             m_user_node_defaults := node_defaults_next s\<rparr>"
proof -
  let ?a = "node_defaults_next s"
  define load_weight_v where "load_weight_v = GetArgFloat E s 1"
  define friction_v where "friction_v = (if 2 < m_num_args s then GetArgFloat E s 2 else - 1)"
  define volume_v where "volume_v = (if 3 < m_num_args s then GetArgFloat E s 3 else - 1)"
  define surface_v where "surface_v = (if 4 < m_num_args s then GetArgFloat E s 4 else - 1)"
  define s2 where "s2 = s\<lparr>node_defaults_store := (node_defaults_store s)(?a := user_node_defaults s),
                          node_defaults_next := Suc ?a, m_user_node_defaults := ?a\<rparr>"
  define nd where "nd =
     (user_node_defaults s)
       \<lparr>load_weight := (if load_weight_v < 0 then load_weight (ror_node_defaults s)
                        else load_weight_v),
        friction := (if friction_v < 0 then friction (ror_node_defaults s) else friction_v),
        volume := (if volume_v < 0 then volume (ror_node_defaults s) else volume_v),
        surface := (if surface_v < 0 then surface (ror_node_defaults s) else surface_v)\<rparr>"
  define s3 where "s3 = s2\<lparr>node_defaults_store := (node_defaults_store s2)(?a := nd)\<rparr>"
  define r where "r = ParseNodeOptions s3 (if 5 < m_num_args s then GetArgStr s 5 else [])"
  have ror: "ror_node_defaults s2 = ror_node_defaults s"
    using assms(2) by (simp add: ror_node_defaults_def s2_def)
  have s2a: "node_defaults_store s2 ?a = user_node_defaults s"
    by (simp add: s2_def)
  have eq: "ParseDirectiveSetNodeDefaults E s =
      (snd r)\<lparr>node_defaults_store := (node_defaults_store (snd r))
                 (?a := (node_defaults_store (snd r) ?a)\<lparr>nd_options := fst r\<rparr>)\<rparr>"
    unfolding ParseDirectiveSetNodeDefaults_def CheckNumArguments_enough[OF assms(1)]
    using assms(2)
    by (simp add: Let_def split_beta r_def s3_def nd_def s2_def
        ror_node_defaults_def user_node_defaults_def
        load_weight_v_def friction_v_def volume_v_def surface_v_def
        split del: if_split cong: if_cong)
  have "only_logs s3 (snd r)"
    unfolding r_def by (rule only_logs_ParseNodeOptions)
  then obtain ms where ms: "snd r = s3\<lparr>console := console s3 @ ms\<rparr>"
    by (auto simp: only_logs_def)
  define s' where "s' = s\<lparr>console := console s @ ms\<rparr>"
  have "only_logs s s'"
    by (auto simp: only_logs_def s'_def)
  moreover have "ParseDirectiveSetNodeDefaults E s =
      s'\<lparr>node_defaults_store := (node_defaults_store s)(?a := nd\<lparr>nd_options := fst r\<rparr>),
          node_defaults_next := Suc ?a, m_user_node_defaults := ?a\<rparr>"
    unfolding eq ms by (simp add: s3_def s2_def s'_def)
  moreover have "nd\<lparr>nd_options := fst r\<rparr> =
      \<lparr>load_weight = (if GetArgFloat E s 1 < 0 then load_weight (ror_node_defaults s)
                       else GetArgFloat E s 1),
       friction = (if 2 < m_num_args s \<and> \<not> GetArgFloat E s 2 < 0
                   then GetArgFloat E s 2 else friction (ror_node_defaults s)),
       volume = (if 3 < m_num_args s \<and> \<not> GetArgFloat E s 3 < 0
                 then GetArgFloat E s 3 else volume (ror_node_defaults s)),
       surface = (if 4 < m_num_args s \<and> \<not> GetArgFloat E s 4 < 0
                  then GetArgFloat E s 4 else surface (ror_node_defaults s)),
       nd_options = fst r\<rparr>"
    by (simp add: nd_def load_weight_v_def friction_v_def volume_v_def surface_v_def)
  ultimately show ?thesis
    by (intro exI[of _ s'] exI[of _ "fst r"]) simp
qed


lemma tokenized_GetArgFloat:
  assumes "i < length (line_tokens E (line_text E raw))"
  shows "GetArgFloat E (tokenized E raw k s) i = parseReal E (line_tokens E (line_text E raw) ! i)"
  by (simp add: GetArgFloat_def tokenized_GetArgStr[OF assms])

lemma ProcessRawLine_set_node_defaults:
  assumes "line_is E raw KEYWORD_SET_NODE_DEFAULTS 2" and "name (m_definition s) \<noteq> []"
    and "m_current_block s \<noteq> KEYWORD_COMMENT" "m_current_block s \<noteq> KEYWORD_DESCRIPTION"
    and "m_ror_node_defaults s \<noteq> node_defaults_next s"
  shows "\<exists>s' opts. ProcessRawLine E raw s = Inr s'
      \<and> node_defaults_store s' = (node_defaults_store s)
           (node_defaults_next s :=
              resolve_against (ror_node_defaults s) E (line_tokens E (line_text E raw)) opts)
      \<and> node_defaults_next s' = Suc (node_defaults_next s)
      \<and> m_user_node_defaults s' = node_defaults_next s
      \<and> m_ror_node_defaults s' = m_ror_node_defaults s
      \<and> m_definition s' = m_definition s
      \<and> m_current_block s' = m_current_block s
      \<and> m_current_module s' = m_current_module s
      \<and> module_store s' = module_store s"
proof -
  let ?k = KEYWORD_SET_NODE_DEFAULTS
  let ?t = "tokenized E raw ?k s"
  let ?toks = "line_tokens E (line_text E raw)"
  from assms(1) have n: "2 \<le> length ?toks"
    by (simp add: line_is_def)
  then have n2: "2 \<le> m_num_args ?t"
    by (simp add: tokenized_num_args)
  have ror: "m_ror_node_defaults ?t \<noteq> node_defaults_next ?t"
    using assms(5) by (simp add: tokenized_fields)
  from ParseDirectiveSetNodeDefaults_enough[OF n2 ror, of E] obtain t' opts where
    l: "only_logs ?t t'"
    and eq: "ParseDirectiveSetNodeDefaults E ?t =
          t'\<lparr>node_defaults_store := (node_defaults_store ?t)
               (node_defaults_next ?t :=
                  \<lparr>load_weight = (if GetArgFloat E ?t 1 < 0 then load_weight (ror_node_defaults ?t)
                                   else GetArgFloat E ?t 1),
                   friction = (if 2 < m_num_args ?t \<and> \<not> GetArgFloat E ?t 2 < 0
                               then GetArgFloat E ?t 2 else friction (ror_node_defaults ?t)),
                   volume = (if 3 < m_num_args ?t \<and> \<not> GetArgFloat E ?t 3 < 0
                             then GetArgFloat E ?t 3 else volume (ror_node_defaults ?t)),
                   surface = (if 4 < m_num_args ?t \<and> \<not> GetArgFloat E ?t 4 < 0
                              then GetArgFloat E ?t 4 else surface (ror_node_defaults ?t)),
                   nd_options = opts\<rparr>),
             node_defaults_next := Suc (node_defaults_next ?t),
             m_user_node_defaults := node_defaults_next ?t\<rparr>"
    by blast
  have v: "\<lparr>load_weight = (if GetArgFloat E ?t 1 < 0 then load_weight (ror_node_defaults ?t)
                                   else GetArgFloat E ?t 1),
                   friction = (if 2 < m_num_args ?t \<and> \<not> GetArgFloat E ?t 2 < 0
                               then GetArgFloat E ?t 2 else friction (ror_node_defaults ?t)),
                   volume = (if 3 < m_num_args ?t \<and> \<not> GetArgFloat E ?t 3 < 0
                             then GetArgFloat E ?t 3 else volume (ror_node_defaults ?t)),
                   surface = (if 4 < m_num_args ?t \<and> \<not> GetArgFloat E ?t 4 < 0
                              then GetArgFloat E ?t 4 else surface (ror_node_defaults ?t)),
                   nd_options = opts\<rparr> =
           resolve_against (ror_node_defaults s) E ?toks opts"
    using n
    by (simp add: resolve_against_def arg_or_minus_one_def tokenized_num_args tokenized_reads
        tokenized_GetArgFloat)
  define s' where "s' = (ParseDirectiveSetNodeDefaults E ?t)
      \<lparr>m_current_line_number := Suc (m_current_line_number (ParseDirectiveSetNodeDefaults E ?t))\<rparr>"
  have run: "ProcessRawLine E raw s = Inr s'"
    using ProcessRawLine_line[OF assms(1-4)]
    by (simp add: dispatch_keyword_def s'_def)
  have "node_defaults_store s' = (node_defaults_store s)
           (node_defaults_next s := resolve_against (ror_node_defaults s) E ?toks opts)"
    unfolding s'_def eq v by (simp add: tokenized_fields)
  moreover have "node_defaults_next s' = Suc (node_defaults_next s)"
    "m_user_node_defaults s' = node_defaults_next s"
    unfolding s'_def eq by (simp_all add: tokenized_fields)
  moreover have "m_ror_node_defaults s' = m_ror_node_defaults s"
    "m_definition s' = m_definition s" "m_current_block s' = m_current_block s"
    "m_current_module s' = m_current_module s" "module_store s' = module_store s"
    unfolding s'_def eq by (simp_all add: only_logs_fields[OF l] tokenized_fields)
  ultimately show ?thesis
    using run by blast
qed

lemma ProcessRawLine_node:
  assumes "line_is E raw KEYWORD_INVALID 4" and "name (m_definition s) \<noteq> []"
    and "m_current_block s = KEYWORD_NODES \<or> m_current_block s = KEYWORD_NODES2"
  shows "\<exists>s' node. ProcessRawLine E raw s = Inr s'
      \<and> module_store s' = (module_store s)
           (m_current_module s :=
              (current_module s)\<lparr>nodes := nodes (current_module s) @ [node]\<rparr>)
      \<and> node_node_defaults node = m_user_node_defaults s
      \<and> node_defaults_store s' = node_defaults_store s
      \<and> node_defaults_next s' = node_defaults_next s
      \<and> m_user_node_defaults s' = m_user_node_defaults s
      \<and> m_ror_node_defaults s' = m_ror_node_defaults s
      \<and> m_definition s' = m_definition s
      \<and> m_current_block s' = m_current_block s
      \<and> m_current_module s' = m_current_module s"
proof -
  let ?k = KEYWORD_INVALID
  let ?t = "tokenized E raw ?k s"
  let ?u = "?t\<lparr>m_log_keyword := m_current_block ?t\<rparr>"
  from assms(3) have blk: "m_current_block s \<noteq> KEYWORD_COMMENT"
    "m_current_block s \<noteq> KEYWORD_DESCRIPTION"
    by auto
  from assms(1) have "4 \<le> length (line_tokens E (line_text E raw))"
    by (simp add: line_is_def)
  then have n: "4 \<le> m_num_args ?u"
    by (simp add: tokenized_num_args)
  from ParseNodesUnified_enough[OF n, of E] obtain node u' imp named where
    l: "only_logs ?u u'"
    and eq: "ParseNodesUnified E ?u =
        update_current_module (\<lambda>m. m\<lparr>nodes := nodes m @ [node]\<rparr>)
          (u'\<lparr>m_sequential_importer := imp, m_any_named_node_defined := named\<rparr>)"
    and nd: "node_node_defaults node = m_user_node_defaults ?u"
    by blast
  have d: "dispatch_keyword E ?k ?t = Inr (ParseNodesUnified E ?u)"
    using assms(3) by (auto simp: dispatch_keyword_def parse_current_block_def tokenized_fields)
  define s' where "s' = (ParseNodesUnified E ?u)
      \<lparr>m_current_line_number := Suc (m_current_line_number (ParseNodesUnified E ?u))\<rparr>"
  have run: "ProcessRawLine E raw s = Inr s'"
    using ProcessRawLine_line[OF assms(1,2) blk] d by (simp add: s'_def)
  have "module_store s' = (module_store s)
           (m_current_module s :=
              (current_module s)\<lparr>nodes := nodes (current_module s) @ [node]\<rparr>)"
    unfolding s'_def eq
    by (simp add: update_current_module_def current_module_def only_logs_fields[OF l]
        tokenized_fields)
  moreover have "node_node_defaults node = m_user_node_defaults s"
    using nd by (simp add: tokenized_fields)
  moreover have "node_defaults_store s' = node_defaults_store s"
    "node_defaults_next s' = node_defaults_next s"
    "m_user_node_defaults s' = m_user_node_defaults s"
    "m_ror_node_defaults s' = m_ror_node_defaults s"
    "m_definition s' = m_definition s" "m_current_block s' = m_current_block s"
    "m_current_module s' = m_current_module s"
    unfolding s'_def eq
    by (simp_all add: update_current_module_def only_logs_fields[OF l] tokenized_fields)
  ultimately show ?thesis
    using run by blast
qed

section \<open>Staged objects\<close>

lemma rails_nonempty_store:
  "module_store s' = module_store s \<Longrightarrow> rails_nonempty s' = rails_nonempty s"
  by (simp add: rails_nonempty_def)

lemma rails_nonempty_only_logs: "only_logs s s' \<Longrightarrow> rails_nonempty s' = rails_nonempty s"
  by (rule rails_nonempty_store) (rule only_logs_fields)

lemma rails_nonempty_update:
  assumes "\<And>m. set (camerarail (f m)) \<subseteq> set (camerarail m) \<union> {r. rail_nodes r \<noteq> []}"
    and "rails_nonempty s"
  shows "rails_nonempty (update_current_module f s)"
  unfolding rails_nonempty_def
proof (intro allI ballI)
  fix a r
  assume r: "r \<in> set (camerarail (module_store (update_current_module f s) a))"
  show "rail_nodes r \<noteq> []"
  proof (cases "a = m_current_module s")
    case True
    with r have "r \<in> set (camerarail (f (current_module s)))"
      by (simp add: update_current_module_def)
    with assms(1) have "r \<in> set (camerarail (current_module s)) \<or> rail_nodes r \<noteq> []"
      by blast
    with assms(2) show ?thesis
      by (auto simp: rails_nonempty_def current_module_def)
  next
    case False
    with r have "r \<in> set (camerarail (module_store s a))"
      by (simp add: update_current_module_def)
    with assms(2) show ?thesis
      by (auto simp: rails_nonempty_def)
  qed
qed

lemma flush_staged_rails:
  assumes "rails_nonempty s"
  shows "rails_nonempty (flush_staged s)"
proof -
  define s1 where "s1 = (case m_current_submesh s of
                  Some sm \<Rightarrow>
                    (update_current_module (\<lambda>m. m\<lparr>submeshes := submeshes m @ [sm]\<rparr>) s)
                      \<lparr>m_current_submesh := None\<rparr>
                | None \<Rightarrow> s)"
  have r1: "rails_nonempty s1"
  proof (cases "m_current_submesh s")
    case None
    with assms show ?thesis by (simp add: s1_def)
  next
    case (Some sm)
    have "rails_nonempty (update_current_module (\<lambda>m. m\<lparr>submeshes := submeshes m @ [sm]\<rparr>) s)"
      by (rule rails_nonempty_update[OF _ assms]) simp
    then show ?thesis
      by (simp add: s1_def Some rails_nonempty_def)
  qed
  have eq: "flush_staged s =
      (case m_current_camera_rail s1 of
           None \<Rightarrow> s1
         | Some cr \<Rightarrow>
             if length (rail_nodes cr) = 0
             then LogMessage CONSOLE_SYSTEM_WARNING Empty_section_camerarail s1
             else (update_current_module (\<lambda>m. m\<lparr>camerarail := camerarail m @ [cr]\<rparr>) s1)
                    \<lparr>m_current_camera_rail := None\<rparr>)"
    unfolding flush_staged_def s1_def Let_def ..
  show ?thesis
  proof (cases "m_current_camera_rail s1")
    case None
    with r1 eq show ?thesis by simp
  next
    case (Some cr)
    show ?thesis
    proof (cases "rail_nodes cr = []")
      case True
      with Some eq r1 show ?thesis
        by (simp add: rails_nonempty_only_logs[OF only_logs_LogMessage])
    next
      case False
      have "rails_nonempty (update_current_module (\<lambda>m. m\<lparr>camerarail := camerarail m @ [cr]\<rparr>) s1)"
        by (rule rails_nonempty_update[OF _ r1]) (use False in auto)
      with Some False eq show ?thesis
        by (simp add: rails_nonempty_def)
    qed
  qed
qed

lemma BeginBlock_rails: "rails_nonempty s \<Longrightarrow> rails_nonempty (BeginBlock k s)"
  using flush_staged_rails[of s] by (simp add: BeginBlock_def Let_def rails_nonempty_def)

lemma switch_module_rails:
  assumes "rails_nonempty s"
  shows "rails_nonempty (switch_module E n s)"
proof -
  from BeginBlock_rails[OF assms, of KEYWORD_INVALID]
  have "rails_nonempty (BeginBlock KEYWORD_INVALID s)" .
  then show ?thesis
    by (auto simp: switch_module_def Let_def rails_nonempty_def Module_ctor_def
        split: option.splits)
qed

lemma ProcessChangeModuleLine_rails:
  "rails_nonempty s \<Longrightarrow> rails_nonempty (ProcessChangeModuleLine E k s)"
  by (simp add: ProcessChangeModuleLine_def Let_def switch_module_rails CheckNumArguments_def
      rails_nonempty_only_logs[OF only_logs_LogMessage])

lemma ProcessGlobalDirective_store: "module_store (ProcessGlobalDirective k s) = module_store s"
  by (cases k) (simp_all add: ProcessGlobalDirective_def Let_def)

lemma ParseDirectiveSetNodeDefaults_store:
  "module_store (ParseDirectiveSetNodeDefaults E s) = module_store s"
  by (simp add: ParseDirectiveSetNodeDefaults_def CheckNumArguments_def Let_def split_beta
      decoder_fields)

lemma ParseDirectiveSetInertiaDefaults_store:
  "module_store (ParseDirectiveSetInertiaDefaults E s) = module_store s"
  by (simp add: ParseDirectiveSetInertiaDefaults_def CheckNumArguments_def Let_def decoder_fields)

lemma ParseDirectiveSetDefaultMinimass_store:
  "module_store (ParseDirectiveSetDefaultMinimass E s) = module_store s"
  by (simp add: ParseDirectiveSetDefaultMinimass_def CheckNumArguments_def decoder_fields)

lemma ParseDirectiveDetacherGroup_store:
  "module_store (ParseDirectiveDetacherGroup s) = module_store s"
  by (simp add: ParseDirectiveDetacherGroup_def CheckNumArguments_def Let_def split_beta
      decoder_fields)

lemma ParseDirectiveBackmesh_store: "module_store (ParseDirectiveBackmesh s) = module_store s"
  by (simp add: ParseDirectiveBackmesh_def decoder_fields split: option.splits)

lemma ParseDirectiveSubmesh_rails:
  "rails_nonempty s \<Longrightarrow> rails_nonempty (ParseDirectiveSubmesh E s)"
  using BeginBlock_rails[of s KEYWORD_INVALID]
  by (simp add: ParseDirectiveSubmesh_def rails_nonempty_def)

lemma ParseAntiLockBrakes_rails:
  assumes "ParseAntiLockBrakes E s = Inr s'" and "rails_nonempty s"
  shows "rails_nonempty s'"
proof (cases "length (split (drop 15 (m_current_line s)) '','') < 2")
  case True
  with assms(1) have "s' = LogMessage CONSOLE_SYSTEM_WARNING
      (Not_enough_arguments (length (split (drop 15 (m_current_line s)) '','')) 2)
      (s\<lparr>m_num_args := length (split (drop 15 (m_current_line s)) '','')\<rparr>)"
    by (auto simp: ParseAntiLockBrakes_def CheckNumArguments_def Let_def)
  with assms(2) show ?thesis
    by (simp add: rails_nonempty_def decoder_fields)
next
  case False
  let ?tokens = "split (drop 15 (m_current_line s)) '',''"
  let ?s1 = "s\<lparr>m_num_args := length ?tokens\<rparr>"
  let ?r = "ParseArgInt ?s1 (?tokens ! 1)"
  from False assms(1) obtain attrs0 attrs1 s3 alb where
    l: "mode_token_loop (drop 3 ?tokens) attrs0 (snd ?r) = Inr (attrs1, s3)"
    and e: "s' = update_current_module
                   (\<lambda>m. m\<lparr>antilockbrakes := antilockbrakes m @ [alb]\<rparr>) s3"
    by (auto simp: ParseAntiLockBrakes_def CheckNumArguments_def Let_def split_beta
        split: sum.splits)
  from only_logs_trans[OF only_logs_ParseArgInt only_logs_mode_token_loop[OF l]]
  have "rails_nonempty s3 = rails_nonempty ?s1"
    by (rule rails_nonempty_only_logs)
  with assms(2) have "rails_nonempty s3"
    by (simp add: rails_nonempty_def)
  then show ?thesis
    unfolding e by (intro rails_nonempty_update) simp_all
qed

lemma ParseTractionControl_rails:
  assumes "ParseTractionControl E s = Inr s'" and "rails_nonempty s"
  shows "rails_nonempty s'"
proof (cases "length (split (drop 15 (m_current_line s)) '','') < 2")
  case True
  with assms(1) have "s' = LogMessage CONSOLE_SYSTEM_WARNING
      (Not_enough_arguments (length (split (drop 15 (m_current_line s)) '','')) 2)
      (s\<lparr>m_num_args := length (split (drop 15 (m_current_line s)) '','')\<rparr>)"
    by (auto simp: ParseTractionControl_def CheckNumArguments_def Let_def)
  with assms(2) show ?thesis
    by (simp add: rails_nonempty_def decoder_fields)
next
  case False
  let ?tokens = "split (drop 15 (m_current_line s)) '',''"
  let ?s1 = "s\<lparr>m_num_args := length ?tokens\<rparr>"
  from False assms(1) obtain attrs0 attrs1 s3 tc where
    l: "mode_token_loop (drop 4 ?tokens) attrs0 ?s1 = Inr (attrs1, s3)"
    and e: "s' = update_current_module
                   (\<lambda>m. m\<lparr>tractioncontrol := tractioncontrol m @ [tc]\<rparr>) s3"
    by (auto simp: ParseTractionControl_def CheckNumArguments_def Let_def split_beta
        split: sum.splits)
  from only_logs_mode_token_loop[OF l]
  have "rails_nonempty s3 = rails_nonempty ?s1"
    by (rule rails_nonempty_only_logs)
  with assms(2) have "rails_nonempty s3"
    by (simp add: rails_nonempty_def)
  then show ?thesis
    unfolding e by (intro rails_nonempty_update) simp_all
qed


lemma rails_nonempty_update_other:
  assumes "\<And>m. camerarail (f m) = camerarail m" and "rails_nonempty s"
  shows "rails_nonempty (update_current_module f s)"
  by (rule rails_nonempty_update[OF _ assms(2)]) (simp add: assms(1))

lemma ParseBeams_rails:
  assumes "rails_nonempty s"
  shows "rails_nonempty (ParseBeams E s)"
proof (cases "m_num_args s < 2")
  case True
  with assms show ?thesis
    by (simp add: ParseBeams_def CheckNumArguments_short
        rails_nonempty_only_logs[OF only_logs_LogMessage])
next
  case False
  then have "2 \<le> m_num_args s" by simp
  from ParseBeams_enough[OF this, of E] obtain beam s' where
    l: "only_logs s s'"
    and e: "ParseBeams E s = update_current_module (\<lambda>m. m\<lparr>beams := beams m @ [beam]\<rparr>) s'"
    by blast
  from l assms have "rails_nonempty s'"
    by (simp add: rails_nonempty_only_logs)
  then show ?thesis
    unfolding e by (intro rails_nonempty_update_other) simp_all
qed

lemma ParseNodesUnified_rails:
  assumes "rails_nonempty s"
  shows "rails_nonempty (ParseNodesUnified E s)"
proof (cases "m_num_args s < 4")
  case True
  with assms show ?thesis
    by (simp add: ParseNodesUnified_def CheckNumArguments_short
        rails_nonempty_only_logs[OF only_logs_LogMessage])
next
  case False
  then have "4 \<le> m_num_args s" by simp
  from ParseNodesUnified_enough[OF this, of E] obtain node s' imp named where
    l: "only_logs s s'"
    and e: "ParseNodesUnified E s = update_current_module (\<lambda>m. m\<lparr>nodes := nodes m @ [node]\<rparr>)
        (s'\<lparr>m_sequential_importer := imp, m_any_named_node_defined := named\<rparr>)"
    by blast
  from l assms have "rails_nonempty s'"
    by (simp add: rails_nonempty_only_logs)
  then have "rails_nonempty (s'\<lparr>m_sequential_importer := imp, m_any_named_node_defined := named\<rparr>)"
    by (simp add: rails_nonempty_def)
  then show ?thesis
    unfolding e by (intro rails_nonempty_update_other) simp_all
qed

lemma ParseWheel_rails:
  assumes "rails_nonempty s"
  shows "rails_nonempty (ParseWheel E s)"
proof (cases "m_num_args s < 14")
  case True
  with assms show ?thesis
    by (simp add: ParseWheel_def CheckNumArguments_short
        rails_nonempty_only_logs[OF only_logs_LogMessage])
next
  case False
  then have "14 \<le> m_num_args s" by simp
  from ParseWheel_enough[OF this, of E] obtain wheel s' imp where
    l: "only_logs s s'"
    and e: "ParseWheel E s = update_current_module (\<lambda>m. m\<lparr>wheels := wheels m @ [wheel]\<rparr>)
        (s'\<lparr>m_sequential_importer := imp\<rparr>)"
    by blast
  from l assms have "rails_nonempty s'"
    by (simp add: rails_nonempty_only_logs)
  then have "rails_nonempty (s'\<lparr>m_sequential_importer := imp\<rparr>)"
    by (simp add: rails_nonempty_def)
  then show ?thesis
    unfolding e by (intro rails_nonempty_update_other) simp_all
qed

lemma ParseWheelDetachers_rails:
  assumes "rails_nonempty s"
  shows "rails_nonempty (ParseWheelDetachers s)"
proof (cases "m_num_args s < 2")
  case True
  with assms show ?thesis
    by (simp add: ParseWheelDetachers_def CheckNumArguments_short
        rails_nonempty_only_logs[OF only_logs_LogMessage])
next
  case False
  then have "2 \<le> m_num_args s" by simp
  from ParseWheelDetachers_enough[OF this] obtain wd s' where
    l: "only_logs s s'"
    and e: "ParseWheelDetachers s =
       update_current_module (\<lambda>m. m\<lparr>wheeldetachers := wheeldetachers m @ [wd]\<rparr>) s'"
    by blast
  from l assms have "rails_nonempty s'"
    by (simp add: rails_nonempty_only_logs)
  then show ?thesis
    unfolding e by (intro rails_nonempty_update_other) simp_all
qed

lemma ParseEngine_rails:
  assumes "rails_nonempty s"
  shows "rails_nonempty (ParseEngine E s)"
proof (cases "m_num_args s < 6")
  case True
  with assms show ?thesis
    by (simp add: ParseEngine_def CheckNumArguments_short
        rails_nonempty_only_logs[OF only_logs_LogMessage])
next
  case False
  then have "6 \<le> m_num_args s" by simp
  with assms show ?thesis
    by (simp add: ParseEngine_enough rails_nonempty_update_other
        rails_nonempty_only_logs[OF only_logs_LogMessage])
qed

lemma ParseHelp_rails: "rails_nonempty s \<Longrightarrow> rails_nonempty (ParseHelp s)"
  by (simp add: ParseHelp_def rails_nonempty_update_other)

lemma ParseCab_store: "ParseCab E s = Inr s' \<Longrightarrow> module_store s' = module_store s"
  by (auto simp: ParseCab_def CheckNumArguments_def Let_def split_beta decoder_fields
      split: if_splits option.splits)

lemma ParseTexcoords_store: "ParseTexcoords E s = Inr s' \<Longrightarrow> module_store s' = module_store s"
  by (auto simp: ParseTexcoords_def CheckNumArguments_def Let_def decoder_fields
      split: if_splits option.splits)

lemma ParseCameraRails_store:
  "ParseCameraRails E s = Inr s' \<Longrightarrow> module_store s' = module_store s"
  by (auto simp: ParseCameraRails_def split: option.splits)

lemma parse_current_block_rails:
  assumes "parse_current_block E s = Inr s'" and "rails_nonempty s"
  shows "rails_nonempty s'"
proof (cases "m_current_block s")
  case KEYWORD_CAB
  with assms(1) have "ParseCab E s = Inr s'"
    by (simp add: parse_current_block_def)
  from ParseCab_store[OF this] assms(2) show ?thesis
    by (simp add: rails_nonempty_def)
next
  case KEYWORD_TEXCOORDS
  with assms(1) have "ParseTexcoords E s = Inr s'"
    by (simp add: parse_current_block_def)
  from ParseTexcoords_store[OF this] assms(2) show ?thesis
    by (simp add: rails_nonempty_def)
next
  case KEYWORD_CAMERARAIL
  with assms(1) have "ParseCameraRails E s = Inr s'"
    by (simp add: parse_current_block_def)
  from ParseCameraRails_store[OF this] assms(2) show ?thesis
    by (simp add: rails_nonempty_def)
qed (use assms in \<open>auto simp: parse_current_block_def ParseBeams_rails ParseNodesUnified_rails
        ParseWheel_rails ParseWheelDetachers_rails ParseEngine_rails ParseHelp_rails\<close>)

lemma dispatch_keyword_rails:
  assumes "dispatch_keyword E k s = Inr s'" and "rails_nonempty s"
  shows "rails_nonempty s'"
proof (cases k)
  case KEYWORD_INVALID
  with assms(1) have "parse_current_block E (s\<lparr>m_log_keyword := m_current_block s\<rparr>) = Inr s'"
    by (simp add: dispatch_keyword_def)
  moreover from assms(2) have "rails_nonempty (s\<lparr>m_log_keyword := m_current_block s\<rparr>)"
    by (simp add: rails_nonempty_def)
  ultimately show ?thesis
    by (rule parse_current_block_rails)
next
  case KEYWORD_ANTILOCKBRAKES
  with assms show ?thesis
    by (simp add: dispatch_keyword_def ParseAntiLockBrakes_rails)
next
  case KEYWORD_TRACTIONCONTROL
  with assms show ?thesis
    by (simp add: dispatch_keyword_def ParseTractionControl_rails)
qed (use assms in \<open>auto simp: dispatch_keyword_def ParseDirectiveSection_def
      ProcessChangeModuleLine_rails ParseDirectiveSubmesh_rails BeginBlock_rails
      rails_nonempty_store[OF ProcessGlobalDirective_store]
      rails_nonempty_store[OF ParseDirectiveSetNodeDefaults_store]
      rails_nonempty_store[OF ParseDirectiveSetInertiaDefaults_store]
      rails_nonempty_store[OF ParseDirectiveSetDefaultMinimass_store]
      rails_nonempty_store[OF ParseDirectiveDetacherGroup_store]
      rails_nonempty_store[OF ParseDirectiveBackmesh_store]\<close>)

lemma ProcessCurrentLine_rails:
  assumes "ProcessCurrentLine E s = Inr s'" and "rails_nonempty s"
  shows "rails_nonempty s'"
proof (cases "starts_comment (m_current_line s)")
  case True
  with assms show ?thesis
    by (auto simp: ProcessCurrentLine_def starts_comment_def)
next
  case False
  show ?thesis
  proof (cases "name (m_definition s) = []")
    case True
    with False assms(1) have "s' = s\<lparr>m_definition := (m_definition s)\<lparr>name := m_current_line s\<rparr>\<rparr>"
      by (auto simp: ProcessCurrentLine_def starts_comment_def)
    with assms(2) show ?thesis
      by (simp add: rails_nonempty_def)
  next
    case named: False
    let ?s1 = "if m_current_block s \<noteq> KEYWORD_COMMENT \<and> m_current_block s \<noteq> KEYWORD_DESCRIPTION
               then TokenizeCurrentLine E s else s"
    let ?k = "IdentifyKeywordInCurrentLine E ?s1"
    from False assms(1) have "dispatch_keyword E ?k (?s1\<lparr>m_log_keyword := ?k\<rparr>) = Inr s'"
      unfolding ProcessCurrentLine_def if_not_P[OF named]
      by (simp add: starts_comment_def Let_def)
    moreover from assms(2) have "rails_nonempty (?s1\<lparr>m_log_keyword := ?k\<rparr>)"
      by (simp add: rails_nonempty_def TokenizeCurrentLine_def Let_def)
    ultimately show ?thesis
      by (rule dispatch_keyword_rails)
  qed
qed

lemma ProcessRawLine_rails:
  assumes "ProcessRawLine E raw s = Inr s'" and "rails_nonempty s"
  shows "rails_nonempty s'"
proof (cases "line_skipped E raw")
  case True
  with assms show ?thesis
    by (auto simp: ProcessRawLine_skipped rails_nonempty_def)
next
  case False
  let ?s = "s\<lparr>m_current_line := line_text E raw\<rparr>"
  from False have r: "raw_text E raw \<noteq> []" "hd (raw_text E raw) \<noteq> CHR '';''"
    "hd (raw_text E raw) \<noteq> CHR ''/''"
    by (auto simp: line_skipped_def starts_comment_def char_at_def hd_conv_nth)
  have "ProcessRawLine E raw s =
      (if raw_text E raw = [] \<or> hd (raw_text E raw) = CHR '';'' \<or> hd (raw_text E raw) = CHR ''/''
       then Inr (s\<lparr>m_current_line_number := Suc (m_current_line_number s)\<rparr>)
       else (case ProcessCurrentLine E ?s of
               Inl f \<Rightarrow> Inl f
             | Inr s' \<Rightarrow> Inr (s'\<lparr>m_current_line_number := Suc (m_current_line_number s')\<rparr>)))"
    by (simp add: ProcessRawLine_def raw_text_def line_text_def Let_def)
  with r assms(1) obtain s1 where s1: "ProcessCurrentLine E ?s = Inr s1"
    and s': "s' = s1\<lparr>m_current_line_number := Suc (m_current_line_number s1)\<rparr>"
    by (auto split: sum.splits)
  from assms(2) have "rails_nonempty ?s"
    by (simp add: rails_nonempty_def)
  from ProcessCurrentLine_rails[OF s1 this] s' show ?thesis
    by (simp add: rails_nonempty_def)
qed

lemma ProcessLines_rails:
  assumes "ProcessLines E ls s = Inr s'" and "rails_nonempty s"
  shows "rails_nonempty s'"
  using assms
proof (induction ls arbitrary: s)
  case Nil
  then show ?case by simp
next
  case (Cons l ls)
  from Cons.prems(1) obtain s1 where s1: "ProcessRawLine E l s = Inr s1"
    and rest: "ProcessLines E ls s1 = Inr s'"
    by (auto split: sum.splits)
  from Cons.IH[OF rest ProcessRawLine_rails[OF s1 Cons.prems(2)]] show ?case .
qed

section \<open>Claims on the detacher group and the argument count\<close>



text \<open>
  C3, as amended.  For the sections \<^verbatim>\<open>wheels\<close>, \<^verbatim>\<open>beams\<close>, \<^verbatim>\<open>nodes\<close>/\<^verbatim>\<open>nodes2\<close>,
  \<^verbatim>\<open>wheeldetachers\<close> and \<^verbatim>\<open>engine\<close>: a data line with fewer tokens than the minimum of
  the section logs exactly one warning and changes nothing else; a line with at least
  that many tokens appends exactly one record to the collection of the section in the
  current module, except that an \<^verbatim>\<open>engine\<close> line without a forward gear logs one error
  and appends nothing.
\<close>

theorem argument_count_gate:
  "(m_num_args s < 14 \<longrightarrow>
      ParseWheel E s =
        LogMessage CONSOLE_SYSTEM_WARNING (Not_enough_arguments (m_num_args s) 14) s)
   \<and> (14 \<le> m_num_args s \<longrightarrow>
        (\<exists>wheel. wheels (current_module (ParseWheel E s)) = wheels (current_module s) @ [wheel]))
   \<and> (m_num_args s < 2 \<longrightarrow>
        ParseBeams E s =
          LogMessage CONSOLE_SYSTEM_WARNING (Not_enough_arguments (m_num_args s) 2) s)
   \<and> (2 \<le> m_num_args s \<longrightarrow>
        (\<exists>beam. beams (current_module (ParseBeams E s)) = beams (current_module s) @ [beam]))
   \<and> (m_num_args s < 4 \<longrightarrow>
        ParseNodesUnified E s =
          LogMessage CONSOLE_SYSTEM_WARNING (Not_enough_arguments (m_num_args s) 4) s)
   \<and> (4 \<le> m_num_args s \<longrightarrow>
        (\<exists>node. nodes (current_module (ParseNodesUnified E s)) = nodes (current_module s) @ [node]))
   \<and> (m_num_args s < 2 \<longrightarrow>
        ParseWheelDetachers s =
          LogMessage CONSOLE_SYSTEM_WARNING (Not_enough_arguments (m_num_args s) 2) s)
   \<and> (2 \<le> m_num_args s \<longrightarrow>
        (\<exists>wd. wheeldetachers (current_module (ParseWheelDetachers s)) =
                wheeldetachers (current_module s) @ [wd]))
   \<and> (m_num_args s < 6 \<longrightarrow>
        ParseEngine E s =
          LogMessage CONSOLE_SYSTEM_WARNING (Not_enough_arguments (m_num_args s) 6) s)
   \<and> (6 \<le> m_num_args s \<and> 6 < m_num_args s \<and> 0 \<le> GetArgFloat E s 6 \<longrightarrow>
        (\<exists>e. engine (current_module (ParseEngine E s)) = engine (current_module s) @ [e]))
   \<and> (6 \<le> m_num_args s \<and> (m_num_args s = 6 \<or> GetArgFloat E s 6 < 0) \<longrightarrow>
        ParseEngine E s = LogMessage CONSOLE_SYSTEM_ERROR No_forward_gear s)"
proof (intro conjI impI)
  assume "m_num_args s < 14"
  then show "ParseWheel E s =
      LogMessage CONSOLE_SYSTEM_WARNING (Not_enough_arguments (m_num_args s) 14) s"
    by (simp add: ParseWheel_def CheckNumArguments_short)
next
  assume "14 \<le> m_num_args s"
  from ParseWheel_enough[OF this, of E] obtain wheel s' imp where
    "only_logs s s'"
    "ParseWheel E s = update_current_module (\<lambda>m. m\<lparr>wheels := wheels m @ [wheel]\<rparr>)
                        (s'\<lparr>m_sequential_importer := imp\<rparr>)"
    by blast
  then have "wheels (current_module (ParseWheel E s)) = wheels (current_module s) @ [wheel]"
    by (simp add: current_module_def update_current_module_def only_logs_fields)
  then show "\<exists>wheel. wheels (current_module (ParseWheel E s)) = wheels (current_module s) @ [wheel]"
    by (rule exI)
next
  assume "m_num_args s < 2"
  then show "ParseBeams E s =
      LogMessage CONSOLE_SYSTEM_WARNING (Not_enough_arguments (m_num_args s) 2) s"
    by (simp add: ParseBeams_def CheckNumArguments_short)
next
  assume "2 \<le> m_num_args s"
  from ParseBeams_enough[OF this, of E] obtain beam s' where
    "only_logs s s'"
    "ParseBeams E s = update_current_module (\<lambda>m. m\<lparr>beams := beams m @ [beam]\<rparr>) s'"
    by blast
  then have "beams (current_module (ParseBeams E s)) = beams (current_module s) @ [beam]"
    by (simp add: only_logs_reads)
  then show "\<exists>beam. beams (current_module (ParseBeams E s)) = beams (current_module s) @ [beam]"
    by (rule exI)
next
  assume "m_num_args s < 4"
  then show "ParseNodesUnified E s =
      LogMessage CONSOLE_SYSTEM_WARNING (Not_enough_arguments (m_num_args s) 4) s"
    by (simp add: ParseNodesUnified_def CheckNumArguments_short)
next
  assume "4 \<le> m_num_args s"
  from ParseNodesUnified_enough[OF this, of E] obtain node s' imp named where
    "only_logs s s'"
    "ParseNodesUnified E s = update_current_module (\<lambda>m. m\<lparr>nodes := nodes m @ [node]\<rparr>)
        (s'\<lparr>m_sequential_importer := imp, m_any_named_node_defined := named\<rparr>)"
    by blast
  then have "nodes (current_module (ParseNodesUnified E s)) = nodes (current_module s) @ [node]"
    by (simp add: current_module_def update_current_module_def only_logs_fields)
  then show "\<exists>node. nodes (current_module (ParseNodesUnified E s)) =
      nodes (current_module s) @ [node]"
    by (rule exI)
next
  assume "m_num_args s < 2"
  then show "ParseWheelDetachers s =
      LogMessage CONSOLE_SYSTEM_WARNING (Not_enough_arguments (m_num_args s) 2) s"
    by (simp add: ParseWheelDetachers_def CheckNumArguments_short)
next
  assume "2 \<le> m_num_args s"
  from ParseWheelDetachers_enough[OF this] obtain wd s' where
    "only_logs s s'"
    "ParseWheelDetachers s =
       update_current_module (\<lambda>m. m\<lparr>wheeldetachers := wheeldetachers m @ [wd]\<rparr>) s'"
    by blast
  then have "wheeldetachers (current_module (ParseWheelDetachers s)) =
      wheeldetachers (current_module s) @ [wd]"
    by (simp add: only_logs_reads)
  then show "\<exists>wd. wheeldetachers (current_module (ParseWheelDetachers s)) =
                wheeldetachers (current_module s) @ [wd]"
    by (rule exI)
next
  assume "m_num_args s < 6"
  then show "ParseEngine E s =
      LogMessage CONSOLE_SYSTEM_WARNING (Not_enough_arguments (m_num_args s) 6) s"
    by (simp add: ParseEngine_def CheckNumArguments_short)
next
  assume a: "6 \<le> m_num_args s \<and> 6 < m_num_args s \<and> 0 \<le> GetArgFloat E s 6"
  then have "[6 ..< m_num_args s] = 6 # [7 ..< m_num_args s]"
    by (simp add: upt_conv_Cons)
  with a have "takeWhile (\<lambda>ratio. \<not> ratio < 0) (map (GetArgFloat E s) [6 ..< m_num_args s]) \<noteq> []"
    by simp
  with a show "\<exists>e. engine (current_module (ParseEngine E s)) = engine (current_module s) @ [e]"
    by (simp add: ParseEngine_enough)
next
  assume a: "6 \<le> m_num_args s \<and> (m_num_args s = 6 \<or> GetArgFloat E s 6 < 0)"
  have "takeWhile (\<lambda>ratio. \<not> ratio < 0) (map (GetArgFloat E s) [6 ..< m_num_args s]) = []"
  proof (cases "m_num_args s = 6")
    case True
    then show ?thesis by simp
  next
    case False
    with a have "[6 ..< m_num_args s] = 6 # [7 ..< m_num_args s]" "GetArgFloat E s 6 < 0"
      by (simp_all add: upt_conv_Cons)
    then show ?thesis by simp
  qed
  with a show "ParseEngine E s = LogMessage CONSOLE_SYSTEM_ERROR No_forward_gear s"
    by (simp add: ParseEngine_enough)
qed


theorem argument_count_gate_witness:
  "ParseWheel example_env
     (tokenized example_env ''1 2 3 4 5 6 7 8 9 10 11 12 13'' KEYWORD_INVALID
        (example_start\<lparr>m_current_block := KEYWORD_WHEELS\<rparr>)) =
   LogMessage CONSOLE_SYSTEM_WARNING (Not_enough_arguments 13 14)
     (tokenized example_env ''1 2 3 4 5 6 7 8 9 10 11 12 13'' KEYWORD_INVALID
        (example_start\<lparr>m_current_block := KEYWORD_WHEELS\<rparr>))
   \<and> length (wheels (current_module
         (ParseWheel example_env
            (tokenized example_env ''1 2 3 4 5 6 7 8 9 10 11 12 13 14'' KEYWORD_INVALID
               (example_start\<lparr>m_current_block := KEYWORD_WHEELS\<rparr>))))) =
       Suc (length (wheels (current_module example_start)))"
proof -
  let ?st = "example_start\<lparr>m_current_block := KEYWORD_WHEELS\<rparr>"
  let ?s13 = "tokenized example_env ''1 2 3 4 5 6 7 8 9 10 11 12 13'' KEYWORD_INVALID ?st"
  let ?s14 = "tokenized example_env ''1 2 3 4 5 6 7 8 9 10 11 12 13 14'' KEYWORD_INVALID ?st"
  have n13: "m_num_args ?s13 = 13"
    unfolding tokenized_num_args by code_simp
  have n14: "m_num_args ?s14 = 14"
    unfolding tokenized_num_args by code_simp
  have short: "ParseWheel example_env ?s13 =
      LogMessage CONSOLE_SYSTEM_WARNING (Not_enough_arguments 13 14) ?s13"
    using argument_count_gate[of ?s13 example_env] n13 by simp
  from argument_count_gate[of ?s14 example_env] n14
  obtain wheel where "wheels (current_module (ParseWheel example_env ?s14)) =
      wheels (current_module ?s14) @ [wheel]"
    by auto
  moreover have "current_module ?s14 = current_module example_start"
    by (simp add: tokenized_reads, simp add: current_module_def)
  ultimately have "length (wheels (current_module (ParseWheel example_env ?s14))) =
      Suc (length (wheels (current_module example_start)))"
    by simp
  with short show ?thesis
    by simp
qed

theorem engine_line_without_gear_counterexample:
  "length (line_tokens example_env ''1 2 3 4 5 6'') = 6
   \<and> observe (length \<circ> engine \<circ> current_module)
        (ProcessLines example_env [''My truck'', ''engine'', ''1 2 3 4 5 6''] example_start) = Some 0"
  by code_simp

section \<open>Claims on the decoders\<close>

text \<open>
  C6, as amended.  An integer argument is decoded with \<^verbatim>\<open>strtol\<close>.  When the slice is a
  number followed by other characters, one warning is logged and the number is kept (it
  is not replaced by 0).  When no number can be read, or the number is out of range, one
  error is logged and the value is 0.  A float argument is what \<^verbatim>\<open>parseReal\<close> with the
  fallback 0 returns, and the parser logs nothing for it.  The line goes on in every case:
  a \<^verbatim>\<open>wheeldetachers\<close> line with two tokens appends its record whatever the tokens are.
\<close>

theorem numeric_decode_policy:
  "(arg_cstr s i = ds @ g @ rest \<and> slice_length (arg_slice s i) = length ds + length g
      \<and> ds \<noteq> [] \<and> (\<forall>c\<in>set ds. isdigit c) \<and> g \<noteq> [] \<and> \<not> isdigit (hd g)
      \<and> decimal ds \<le> LONG_MAX
    \<longrightarrow> GetArgLong s i =
          (decimal ds,
           LogMessage CONSOLE_SYSTEM_WARNING (Invalid_trailing_characters (i + 1)) s))
   \<and> (arg_cstr s i = []
        \<or> (\<not> isspace (hd (arg_cstr s i)) \<and> hd (arg_cstr s i) \<noteq> CHR ''-''
            \<and> hd (arg_cstr s i) \<noteq> CHR ''+'' \<and> \<not> isdigit (hd (arg_cstr s i)))
      \<longrightarrow> GetArgLong s i = (0, LogMessage CONSOLE_SYSTEM_ERROR (Not_valid_integer (i + 1)) s))
   \<and> (snd (snd (strtol (arg_cstr s i)))
      \<longrightarrow> GetArgLong s i =
            (0, LogMessage CONSOLE_SYSTEM_ERROR (Cannot_parse_as_integer (i + 1)) s))
   \<and> GetArgInt s i = (long_to_int (fst (GetArgLong s i)), snd (GetArgLong s i))
   \<and> GetArgFloat E s i = parseReal E (GetArgStr s i)
   \<and> (2 \<le> m_num_args s
      \<longrightarrow> (\<exists>wd. wheeldetachers (current_module (ParseWheelDetachers s)) =
                  wheeldetachers (current_module s) @ [wd]
               \<and> wheel_id wd = fst (GetArgInt s 0)))"
proof (intro conjI impI)
  assume a: "arg_cstr s i = ds @ g @ rest \<and> slice_length (arg_slice s i) = length ds + length g
      \<and> ds \<noteq> [] \<and> (\<forall>c\<in>set ds. isdigit c) \<and> g \<noteq> [] \<and> \<not> isdigit (hd g)
      \<and> decimal ds \<le> LONG_MAX"
  then have "g @ rest = [] \<or> \<not> isdigit (hd (g @ rest))"
    by simp
  with a have "strtol (ds @ g @ rest) = (decimal ds, length ds, False)"
    by (intro strtol_number) simp_all
  with a show "GetArgLong s i =
      (decimal ds, LogMessage CONSOLE_SYSTEM_WARNING (Invalid_trailing_characters (i + 1)) s)"
    by (simp add: GetArgLong_def)
next
  assume "arg_cstr s i = []
        \<or> (\<not> isspace (hd (arg_cstr s i)) \<and> hd (arg_cstr s i) \<noteq> CHR ''-''
            \<and> hd (arg_cstr s i) \<noteq> CHR ''+'' \<and> \<not> isdigit (hd (arg_cstr s i)))"
  then have "strtol (arg_cstr s i) = (0, 0, False)"
    by (rule strtol_no_number)
  then show "GetArgLong s i = (0, LogMessage CONSOLE_SYSTEM_ERROR (Not_valid_integer (i + 1)) s)"
    by (simp add: GetArgLong_def)
next
  assume "snd (snd (strtol (arg_cstr s i)))"
  then show "GetArgLong s i =
      (0, LogMessage CONSOLE_SYSTEM_ERROR (Cannot_parse_as_integer (i + 1)) s)"
    by (simp add: GetArgLong_def split_beta)
next
  show "GetArgInt s i = (long_to_int (fst (GetArgLong s i)), snd (GetArgLong s i))"
    by (simp add: GetArgInt_def split_beta)
next
  show "GetArgFloat E s i = parseReal E (GetArgStr s i)"
    by (simp add: GetArgFloat_def)
next
  assume "2 \<le> m_num_args s"
  from ParseWheelDetachers_enough[OF this] obtain wd s' where
    "only_logs s s'"
    "ParseWheelDetachers s =
       update_current_module (\<lambda>m. m\<lparr>wheeldetachers := wheeldetachers m @ [wd]\<rparr>) s'"
    "wheel_id wd = fst (GetArgInt s 0)"
    by blast
  then have "wheeldetachers (current_module (ParseWheelDetachers s)) =
      wheeldetachers (current_module s) @ [wd] \<and> wheel_id wd = fst (GetArgInt s 0)"
    by (simp add: only_logs_reads)
  then show "\<exists>wd. wheeldetachers (current_module (ParseWheelDetachers s)) =
                  wheeldetachers (current_module s) @ [wd]
               \<and> wheel_id wd = fst (GetArgInt s 0)"
    by (rule exI)
qed

theorem numeric_decode_policy_witness:
  "GetArgLong (tokenized example_env ''12abc 7'' KEYWORD_INVALID example_start) 0 =
     (12, LogMessage CONSOLE_SYSTEM_WARNING (Invalid_trailing_characters 1)
            (tokenized example_env ''12abc 7'' KEYWORD_INVALID example_start))
   \<and> GetArgLong (tokenized example_env ''abc 7'' KEYWORD_INVALID example_start) 0 =
     (0, LogMessage CONSOLE_SYSTEM_ERROR (Not_valid_integer 1)
           (tokenized example_env ''abc 7'' KEYWORD_INVALID example_start))
   \<and> GetArgLong (tokenized example_env ''99999999999999999999 7'' KEYWORD_INVALID example_start) 0 =
     (0, LogMessage CONSOLE_SYSTEM_ERROR (Cannot_parse_as_integer 1)
           (tokenized example_env ''99999999999999999999 7'' KEYWORD_INVALID example_start))
   \<and> length (wheeldetachers (current_module (ParseWheelDetachers
         (tokenized example_env ''12abc 7'' KEYWORD_INVALID example_start)))) =
       Suc (length (wheeldetachers (current_module example_start)))"
proof -
  let ?s = "tokenized example_env ''12abc 7'' KEYWORD_INVALID example_start"
  let ?t = "tokenized example_env ''abc 7'' KEYWORD_INVALID example_start"
  let ?u = "tokenized example_env ''99999999999999999999 7'' KEYWORD_INVALID example_start"
  have lt: "line_text example_env ''12abc 7'' = ''12abc 7''"
    "line_text example_env ''abc 7'' = ''abc 7''"
    "line_text example_env ''99999999999999999999 7'' = ''99999999999999999999 7''"
    by code_simp+
  have toks: "tokenize (LINE_MAX_ARGS example_env) ''12abc 7'' =
      [\<lparr>slice_start = 0, slice_length = 5\<rparr>, \<lparr>slice_start = 6, slice_length = 1\<rparr>]"
    "tokenize (LINE_MAX_ARGS example_env) ''abc 7'' =
      [\<lparr>slice_start = 0, slice_length = 3\<rparr>, \<lparr>slice_start = 4, slice_length = 1\<rparr>]"
    "tokenize (LINE_MAX_ARGS example_env) ''99999999999999999999 7'' =
      [\<lparr>slice_start = 0, slice_length = 20\<rparr>, \<lparr>slice_start = 21, slice_length = 1\<rparr>]"
    by code_simp+
  have s0: "arg_cstr ?s 0 = ''12'' @ ''abc'' @ '' 7''" "slice_length (arg_slice ?s 0) = 5"
    "m_num_args ?s = 2"
    by (simp_all add: tokenized_arg_cstr tokenized_arg_slice tokenized_num_args line_tokens_def
        lt toks)
  have t0: "arg_cstr ?t 0 = ''abc 7''"
    by (simp add: tokenized_arg_cstr line_tokens_def lt toks)
  have u0: "arg_cstr ?u 0 = ''99999999999999999999 7''"
    by (simp add: tokenized_arg_cstr line_tokens_def lt toks)
  have d: "decimal ''12'' = 12" "decimal ''12'' \<le> LONG_MAX" "\<forall>c\<in>set ''12''. isdigit c"
    "\<not> isdigit (hd ''abc'')"
    by code_simp+
  have e: "\<not> isspace (hd ''abc 7'')" "\<not> isdigit (hd ''abc 7'')"
    by code_simp+
  have r: "snd (snd (strtol ''99999999999999999999 7''))"
    by code_simp
  have cm: "current_module ?s = current_module example_start"
    by (simp add: tokenized_reads)
  have 1: "GetArgLong ?s 0 =
     (12, LogMessage CONSOLE_SYSTEM_WARNING (Invalid_trailing_characters 1) ?s)"
    using numeric_decode_policy[of ?s 0 "''12''" "''abc''" "'' 7''" example_env] s0 d
    by simp
  have 2: "GetArgLong ?t 0 = (0, LogMessage CONSOLE_SYSTEM_ERROR (Not_valid_integer 1) ?t)"
    using numeric_decode_policy[of ?t 0 "[]" "[]" "[]" example_env] t0 e
    by simp
  have 3: "GetArgLong ?u 0 = (0, LogMessage CONSOLE_SYSTEM_ERROR (Cannot_parse_as_integer 1) ?u)"
    using numeric_decode_policy[of ?u 0 "[]" "[]" "[]" example_env] u0 r
    by simp
  from numeric_decode_policy[of ?s 0 "[]" "[]" "[]" example_env] s0(3)
  obtain wd where "wheeldetachers (current_module (ParseWheelDetachers ?s)) =
      wheeldetachers (current_module ?s) @ [wd]"
    by auto
  with cm have 4: "length (wheeldetachers (current_module (ParseWheelDetachers ?s))) =
       Suc (length (wheeldetachers (current_module example_start)))"
    by simp
  from 1 2 3 4 show ?thesis
    by blast
qed

theorem trailing_garbage_keeps_number_counterexample:
  "line_tokens example_env ''12abc 7'' = [''12abc'', ''7'']
   \<and> observe (map wheel_id \<circ> wheeldetachers \<circ> current_module)
        (ProcessLines example_env [''My truck'', ''wheeldetachers'', ''12abc 7''] example_start) =
       Some [12]"
  by code_simp

text \<open>
  C5.  An \<^verbatim>\<open>AntiLockBrakes\<close> line with exactly three comma-separated tokens: the third
  token is not read, the pulse value of the record stays the value of the constructor
  (0 in the concrete environment, while the token decodes to 5).  With a fourth token the
  third one is read, and \<^verbatim>\<open>TractionControl\<close> reads its third token when there are three.
\<close>

theorem antilockbrakes_third_token_not_read:
  "split (drop 15 ''AntiLockBrakes 1000, 10, 5'') '','' = [''1000'', '' 10'', '' 5'']
   \<and> parseReal example_env '' 5'' = 5
   \<and> observe (map alb_pulse_per_sec \<circ> antilockbrakes \<circ> current_module)
        (ProcessLines example_env [''My truck'', ''AntiLockBrakes 1000, 10, 5''] example_start) =
       Some [0]
   \<and> observe (map alb_pulse_per_sec \<circ> antilockbrakes \<circ> current_module)
        (ProcessLines example_env [''My truck'', ''AntiLockBrakes 1000, 10, 5, mode: ON'']
           example_start) = Some [5]
   \<and> observe (map tc_fade_speed \<circ> tractioncontrol \<circ> current_module)
        (ProcessLines example_env [''My truck'', ''TractionControl 1000, 10, 5''] example_start) =
       Some [5]"
  by code_simp

lemma ProcessLines_append:
  "ProcessLines E (xs @ ys) s =
     (case ProcessLines E xs s of Inl f \<Rightarrow> Inl f | Inr s1 \<Rightarrow> ProcessLines E ys s1)"
  by (induction xs arbitrary: s) (auto split: sum.splits)

lemma ProcessLines_skipped:
  "\<forall>l\<in>set pre. line_skipped E l \<Longrightarrow>
   ProcessLines E pre s =
     Inr (s\<lparr>m_current_line_number := m_current_line_number s + length pre\<rparr>)"
  by (induction pre arbitrary: s) (simp_all add: ProcessRawLine_skipped)

lemma ProcessCurrentLine_sets_name:
  assumes "\<not> starts_comment (m_current_line s)" "name (m_definition s) = []"
    and "m_current_line s \<noteq> []"
  shows "ProcessCurrentLine E s =
           Inr (s\<lparr>m_definition := (m_definition s)\<lparr>name := m_current_line s\<rparr>\<rparr>)"
  using assms by (simp add: ProcessCurrentLine_def starts_comment_def)

lemma ProcessRawLine_sets_name:
  assumes "name (m_definition s) = []" "\<not> line_skipped E l" "line_text E l \<noteq> []"
    and "\<not> starts_comment (line_text E l)"
  shows "ProcessRawLine E l s =
           Inr (s\<lparr>m_current_line := line_text E l,
                  m_definition := (m_definition s)\<lparr>name := line_text E l\<rparr>,
                  m_current_line_number := Suc (m_current_line_number s)\<rparr>)"
proof -
  let ?s = "s\<lparr>m_current_line := line_text E l\<rparr>"
  from assms(2) have r: "raw_text E l \<noteq> []" "hd (raw_text E l) \<noteq> CHR '';''"
    "hd (raw_text E l) \<noteq> CHR ''/''"
    by (auto simp: line_skipped_def starts_comment_def char_at_def hd_conv_nth)
  have "ProcessRawLine E l s =
      (if raw_text E l = [] \<or> hd (raw_text E l) = CHR '';'' \<or> hd (raw_text E l) = CHR ''/''
       then Inr (s\<lparr>m_current_line_number := Suc (m_current_line_number s)\<rparr>)
       else (case ProcessCurrentLine E ?s of
               Inl f \<Rightarrow> Inl f
             | Inr s' \<Rightarrow> Inr (s'\<lparr>m_current_line_number := Suc (m_current_line_number s')\<rparr>)))"
    by (simp add: ProcessRawLine_def raw_text_def line_text_def Let_def)
  moreover have "ProcessCurrentLine E ?s =
      Inr (?s\<lparr>m_definition := (m_definition ?s)\<lparr>name := m_current_line ?s\<rparr>\<rparr>)"
    using assms by (intro ProcessCurrentLine_sets_name) simp_all
  ultimately show ?thesis
    using r by simp
qed

section \<open>Claim on the document name\<close>

text \<open>
  C9.  While the document has no name, the first line that is processed (it is not blank
  and does not start with \<^verbatim>\<open>;\<close> or \<^verbatim>\<open>/\<close>) becomes the name: the line is stored and
  nothing else happens, whatever keyword the line would be identified as.  Once the name is
  not empty, no line changes it.
\<close>

theorem first_line_becomes_name:
  "(\<not> starts_comment (m_current_line s) \<and> name (m_definition s) = [] \<and> m_current_line s \<noteq> []
      \<longrightarrow> ProcessCurrentLine E s =
            Inr (s\<lparr>m_definition := (m_definition s)\<lparr>name := m_current_line s\<rparr>\<rparr>))
   \<and> (name (m_definition s) \<noteq> [] \<and> ProcessCurrentLine E s = Inr s'
      \<longrightarrow> name (m_definition s') = name (m_definition s))
   \<and> (name (m_definition s) = [] \<and> (\<forall>x\<in>set pre. line_skipped E x) \<and> \<not> line_skipped E l
       \<and> line_text E l \<noteq> [] \<and> \<not> starts_comment (line_text E l)
      \<longrightarrow> ProcessLines E (pre @ [l]) s =
            Inr (s\<lparr>m_current_line := line_text E l,
                   m_definition := (m_definition s)\<lparr>name := line_text E l\<rparr>,
                   m_current_line_number := Suc (m_current_line_number s + length pre)\<rparr>)
          \<and> (ProcessLines E (pre @ l # post) s = Inr s'
              \<longrightarrow> name (m_definition s') = line_text E l))"
proof (intro conjI impI)
  assume "\<not> starts_comment (m_current_line s) \<and> name (m_definition s) = [] \<and> m_current_line s \<noteq> []"
  then show "ProcessCurrentLine E s =
      Inr (s\<lparr>m_definition := (m_definition s)\<lparr>name := m_current_line s\<rparr>\<rparr>)"
    by (simp add: ProcessCurrentLine_sets_name)
next
  assume "name (m_definition s) \<noteq> [] \<and> ProcessCurrentLine E s = Inr s'"
  then show "name (m_definition s') = name (m_definition s)"
    using ProcessCurrentLine_keeps_name by blast
next
  assume a: "name (m_definition s) = [] \<and> (\<forall>x\<in>set pre. line_skipped E x) \<and> \<not> line_skipped E l
       \<and> line_text E l \<noteq> [] \<and> \<not> starts_comment (line_text E l)"
  let ?s0 = "s\<lparr>m_current_line_number := m_current_line_number s + length pre\<rparr>"
  let ?s1 = "s\<lparr>m_current_line := line_text E l,
                m_definition := (m_definition s)\<lparr>name := line_text E l\<rparr>,
                m_current_line_number := Suc (m_current_line_number s + length pre)\<rparr>"
  from a have pre: "ProcessLines E pre s = Inr ?s0"
    by (simp add: ProcessLines_skipped)
  from a have "ProcessRawLine E l ?s0 = Inr ?s1"
    by (simp add: ProcessRawLine_sets_name)
  with pre show one: "ProcessLines E (pre @ [l]) s = Inr ?s1"
    by (simp add: ProcessLines_append)
  assume "ProcessLines E (pre @ l # post) s = Inr s'"
  then have "ProcessLines E ((pre @ [l]) @ post) s = Inr s'"
    by simp
  with one have rest: "ProcessLines E post ?s1 = Inr s'"
    by (simp only: ProcessLines_append sum.case)
  from a have "name (m_definition ?s1) \<noteq> []"
    by simp
  from ProcessLines_keeps_name[OF this rest] show "name (m_definition s') = line_text E l"
    by simp
qed

theorem first_line_becomes_name_witness:
  "ProcessLines example_env ([[], ''; a comment''] @ [''beams'']) example_start =
     Inr (example_start
            \<lparr>m_current_line := ''beams'',
             m_definition := (m_definition example_start)\<lparr>name := ''beams''\<rparr>,
             m_current_line_number := Suc (m_current_line_number example_start + 2)\<rparr>)
   \<and> IdentifyKeyword example_env ''beams'' = KEYWORD_BEAMS"
proof -
  have h: "name (m_definition example_start) = []"
    "\<forall>x\<in>set [[], ''; a comment'']. line_skipped example_env x"
    "\<not> line_skipped example_env ''beams''"
    "line_text example_env ''beams'' = ''beams''"
    "\<not> starts_comment ''beams''"
    "IdentifyKeyword example_env ''beams'' = KEYWORD_BEAMS"
    by code_simp+
  from first_line_becomes_name[of example_start example_env undefined "[[], ''; a comment'']"
      "''beams''" "[]"] h
  show ?thesis
    by simp
qed

section \<open>Claims on the defaults\<close>

text \<open>
  C1.  A \<^verbatim>\<open>set_node_defaults\<close> line with values A, a node line, a \<^verbatim>\<open>set_node_defaults\<close> line
  with values B and another node line: both lines append a node to the current module;
  the node defaults that the first node points to are the values A (read against the
  engine defaults), after the first node line and still after the fourth line; the second
  node points to another object, which holds the values B.
\<close>

theorem defaults_snapshot_isolation:
  assumes "name (m_definition s) \<noteq> []"
    and "m_current_block s = KEYWORD_NODES \<or> m_current_block s = KEYWORD_NODES2"
    and "m_ror_node_defaults s < node_defaults_next s"
    and "line_is E lA KEYWORD_SET_NODE_DEFAULTS 2" and "line_is E l1 KEYWORD_INVALID 4"
    and "line_is E lB KEYWORD_SET_NODE_DEFAULTS 2" and "line_is E l2 KEYWORD_INVALID 4"
  shows "\<exists>s2 s4 R1 R2 optsA optsB.
      ProcessLines E [lA, l1] s = Inr s2
      \<and> ProcessLines E [lA, l1, lB, l2] s = Inr s4
      \<and> nodes (current_module s2) = nodes (current_module s) @ [R1]
      \<and> nodes (current_module s4) = nodes (current_module s) @ [R1, R2]
      \<and> node_defaults_store s2 (node_node_defaults R1) =
          resolve_against (ror_node_defaults s) E (line_tokens E (line_text E lA)) optsA
      \<and> node_defaults_store s4 (node_node_defaults R1) =
          node_defaults_store s2 (node_node_defaults R1)
      \<and> node_node_defaults R2 \<noteq> node_node_defaults R1
      \<and> node_defaults_store s4 (node_node_defaults R2) =
          resolve_against (ror_node_defaults s) E (line_tokens E (line_text E lB)) optsB"
proof -
  let ?a = "node_defaults_next s"
  let ?c = "m_current_module s"
  from assms(2) have blk: "m_current_block s \<noteq> KEYWORD_COMMENT"
    "m_current_block s \<noteq> KEYWORD_DESCRIPTION"
    by auto
  from assms(3) have ror: "m_ror_node_defaults s \<noteq> ?a"
    by simp
  from ProcessRawLine_set_node_defaults[OF assms(4) assms(1) blk ror]
  obtain s1 optsA where
    r1: "ProcessRawLine E lA s = Inr s1"
    and st1: "node_defaults_store s1 = (node_defaults_store s)
           (?a := resolve_against (ror_node_defaults s) E (line_tokens E (line_text E lA)) optsA)"
    and f1: "node_defaults_next s1 = Suc ?a" "m_user_node_defaults s1 = ?a"
      "m_ror_node_defaults s1 = m_ror_node_defaults s" "m_definition s1 = m_definition s"
      "m_current_block s1 = m_current_block s" "m_current_module s1 = ?c"
      "module_store s1 = module_store s"
    by blast
  have n1: "name (m_definition s1) \<noteq> []"
    "m_current_block s1 = KEYWORD_NODES \<or> m_current_block s1 = KEYWORD_NODES2"
    using assms(1,2) f1 by simp_all
  from ProcessRawLine_node[OF assms(5) n1]
  obtain s2 R1 where
    r2: "ProcessRawLine E l1 s1 = Inr s2"
    and ms2: "module_store s2 = (module_store s1)
           (m_current_module s1 :=
              (current_module s1)\<lparr>nodes := nodes (current_module s1) @ [R1]\<rparr>)"
    and p1: "node_node_defaults R1 = m_user_node_defaults s1"
    and f2: "node_defaults_store s2 = node_defaults_store s1"
      "node_defaults_next s2 = node_defaults_next s1"
      "m_user_node_defaults s2 = m_user_node_defaults s1"
      "m_ror_node_defaults s2 = m_ror_node_defaults s1" "m_definition s2 = m_definition s1"
      "m_current_block s2 = m_current_block s1" "m_current_module s2 = m_current_module s1"
    by blast
  have n2: "name (m_definition s2) \<noteq> []"
    "m_current_block s2 \<noteq> KEYWORD_COMMENT" "m_current_block s2 \<noteq> KEYWORD_DESCRIPTION"
    "m_ror_node_defaults s2 \<noteq> node_defaults_next s2"
    using assms(1,3) blk f1 f2 by simp_all
  have ror2: "ror_node_defaults s2 = ror_node_defaults s"
    using ror by (simp add: ror_node_defaults_def f1 f2 st1)
  from ProcessRawLine_set_node_defaults[OF assms(6) n2]
  obtain s3 optsB where
    r3: "ProcessRawLine E lB s2 = Inr s3"
    and st3: "node_defaults_store s3 = (node_defaults_store s2)
           (node_defaults_next s2 :=
              resolve_against (ror_node_defaults s2) E (line_tokens E (line_text E lB)) optsB)"
    and f3: "node_defaults_next s3 = Suc (node_defaults_next s2)"
      "m_user_node_defaults s3 = node_defaults_next s2"
      "m_ror_node_defaults s3 = m_ror_node_defaults s2" "m_definition s3 = m_definition s2"
      "m_current_block s3 = m_current_block s2" "m_current_module s3 = m_current_module s2"
      "module_store s3 = module_store s2"
    by blast
  have n3: "name (m_definition s3) \<noteq> []"
    "m_current_block s3 = KEYWORD_NODES \<or> m_current_block s3 = KEYWORD_NODES2"
    using assms(1,2) f1 f2 f3 by simp_all
  from ProcessRawLine_node[OF assms(7) n3]
  obtain s4 R2 where
    r4: "ProcessRawLine E l2 s3 = Inr s4"
    and ms4: "module_store s4 = (module_store s3)
           (m_current_module s3 :=
              (current_module s3)\<lparr>nodes := nodes (current_module s3) @ [R2]\<rparr>)"
    and p2: "node_node_defaults R2 = m_user_node_defaults s3"
    and f4: "node_defaults_store s4 = node_defaults_store s3"
      "m_current_module s4 = m_current_module s3"
    by blast
  have run2: "ProcessLines E [lA, l1] s = Inr s2"
    using r1 r2 by simp
  have run4: "ProcessLines E [lA, l1, lB, l2] s = Inr s4"
    using r1 r2 r3 r4 by simp
  have a1: "node_node_defaults R1 = ?a"
    using p1 f1 by simp
  have a2: "node_node_defaults R2 = Suc ?a"
    using p2 f3 f2 f1 by simp
  have c2: "nodes (current_module s2) = nodes (current_module s) @ [R1]"
    by (simp add: current_module_def ms2 f2 f1)
  have c4: "nodes (current_module s4) = nodes (current_module s) @ [R1, R2]"
    by (simp add: current_module_def ms4 f4 f3 ms2 f2 f1)
  have v2: "node_defaults_store s2 (node_node_defaults R1) =
      resolve_against (ror_node_defaults s) E (line_tokens E (line_text E lA)) optsA"
    by (simp add: a1 f2 st1)
  have v4: "node_defaults_store s4 (node_node_defaults R1) =
      node_defaults_store s2 (node_node_defaults R1)"
    by (simp add: a1 f4 st3 f2 f1)
  have ne: "node_node_defaults R2 \<noteq> node_node_defaults R1"
    by (simp add: a1 a2)
  have vB: "node_defaults_store s4 (node_node_defaults R2) =
      resolve_against (ror_node_defaults s) E (line_tokens E (line_text E lB)) optsB"
    by (simp add: a2 f4 st3 f2 f1 ror2)
  from run2 run4 c2 c4 v2 v4 ne vB show ?thesis
    by blast
qed


theorem defaults_snapshot_isolation_witness:
  "observe (\<lambda>s. map (\<lambda>n. friction (node_defaults_store s (node_node_defaults n)))
                    (nodes (current_module s)))
     (ProcessLines example_env
        [''set_node_defaults 10 5 5 5'', ''0, 1, 2, 3'', ''set_node_defaults 10 -1'', ''1, 2, 3, 4'']
        (example_start\<lparr>m_definition := (m_definition example_start)\<lparr>name := ''My truck''\<rparr>,
                        m_current_block := KEYWORD_NODES\<rparr>)) = Some [5, 1]"
proof -
  let ?s = "example_start\<lparr>m_definition := (m_definition example_start)\<lparr>name := ''My truck''\<rparr>,
                        m_current_block := KEYWORD_NODES\<rparr>"
  let ?lA = "''set_node_defaults 10 5 5 5''"
  let ?lB = "''set_node_defaults 10 -1''"
  have h: "name (m_definition ?s) \<noteq> []"
    "m_current_block ?s = KEYWORD_NODES \<or> m_current_block ?s = KEYWORD_NODES2"
    by simp_all
  have w: "m_ror_node_defaults ?s < node_defaults_next ?s"
    by code_simp
  have l: "line_is example_env ?lA KEYWORD_SET_NODE_DEFAULTS 2"
    "line_is example_env ''0, 1, 2, 3'' KEYWORD_INVALID 4"
    "line_is example_env ?lB KEYWORD_SET_NODE_DEFAULTS 2"
    "line_is example_env ''1, 2, 3, 4'' KEYWORD_INVALID 4"
    by code_simp+
  have v: "arg_or_minus_one example_env (line_tokens example_env (line_text example_env ?lA)) 2 = 5"
    "arg_or_minus_one example_env (line_tokens example_env (line_text example_env ?lB)) 2 = - 1"
    "friction (ror_node_defaults ?s) = 1"
    "nodes (current_module ?s) = []"
    by code_simp+
  from defaults_snapshot_isolation[OF h w l] show ?thesis
  proof (elim exE conjE)
    fix s2 s4 :: Parser and R1 R2 :: Node and optsA optsB :: "NodeOption set"
    assume run: "ProcessLines example_env [?lA, ''0, 1, 2, 3'', ?lB, ''1, 2, 3, 4''] ?s = Inr s4"
      and c: "nodes (current_module s4) = nodes (current_module ?s) @ [R1, R2]"
      and a: "node_defaults_store s2 (node_node_defaults R1) =
          resolve_against (ror_node_defaults ?s) example_env
            (line_tokens example_env (line_text example_env ?lA)) optsA"
        "node_defaults_store s4 (node_node_defaults R1) =
          node_defaults_store s2 (node_node_defaults R1)"
        "node_defaults_store s4 (node_node_defaults R2) =
          resolve_against (ror_node_defaults ?s) example_env
            (line_tokens example_env (line_text example_env ?lB)) optsB"
    have "friction (node_defaults_store s4 (node_node_defaults R1)) = 5"
      "friction (node_defaults_store s4 (node_node_defaults R2)) = 1"
      using a v by (simp_all add: resolve_against_def)
    with c v(4) have "map (\<lambda>n. friction (node_defaults_store s4 (node_node_defaults n)))
        (nodes (current_module s4)) = [5, 1]"
      by simp
    with run show ?thesis
      by (simp add: observe_def)
  qed
qed

text \<open>
  C2, as amended.  In a \<^verbatim>\<open>set_node_defaults\<close> directive a scalar that is negative or
  missing takes the value of the engine defaults, whatever the current defaults were; a
  \<^verbatim>\<open>set_inertia_defaults\<close> directive with a negative start or stop delay makes the engine
  defaults current again, and a missing stop delay is 0.  The engine defaults themselves
  do not change.
\<close>

theorem negative_sentinel_selects_engine_default:
  assumes "2 \<le> m_num_args s" and "m_ror_node_defaults s \<noteq> node_defaults_next s"
  shows "load_weight (user_node_defaults (ParseDirectiveSetNodeDefaults E s)) =
           (if GetArgFloat E s 1 < 0 then load_weight (ror_node_defaults s) else GetArgFloat E s 1)
     \<and> friction (user_node_defaults (ParseDirectiveSetNodeDefaults E s)) =
           (if 2 < m_num_args s \<and> \<not> GetArgFloat E s 2 < 0 then GetArgFloat E s 2
            else friction (ror_node_defaults s))
     \<and> volume (user_node_defaults (ParseDirectiveSetNodeDefaults E s)) =
           (if 3 < m_num_args s \<and> \<not> GetArgFloat E s 3 < 0 then GetArgFloat E s 3
            else volume (ror_node_defaults s))
     \<and> surface (user_node_defaults (ParseDirectiveSetNodeDefaults E s)) =
           (if 4 < m_num_args s \<and> \<not> GetArgFloat E s 4 < 0 then GetArgFloat E s 4
            else surface (ror_node_defaults s))
     \<and> ror_node_defaults (ParseDirectiveSetNodeDefaults E s) = ror_node_defaults s
     \<and> m_user_default_inertia (ParseDirectiveSetInertiaDefaults E s) =
           (if GetArgFloat E s 1 < 0 \<or> (2 < m_num_args s \<and> GetArgFloat E s 2 < 0)
            then m_ror_default_inertia s
            else (m_user_default_inertia s)
                   \<lparr>start_delay_factor := GetArgFloat E s 1,
                    stop_delay_factor := (if 2 < m_num_args s then GetArgFloat E s 2 else 0),
                    start_function := (if 3 < m_num_args s then GetArgStr s 3
                                       else start_function (m_user_default_inertia s)),
                    stop_function := (if 4 < m_num_args s then GetArgStr s 4
                                      else stop_function (m_user_default_inertia s))\<rparr>)
     \<and> m_ror_default_inertia (ParseDirectiveSetInertiaDefaults E s) = m_ror_default_inertia s"
proof -
  from ParseDirectiveSetNodeDefaults_enough[OF assms, of E] obtain s' opts where
    l: "only_logs s s'"
    and eq: "ParseDirectiveSetNodeDefaults E s =
          s'\<lparr>node_defaults_store := (node_defaults_store s)
               (node_defaults_next s :=
                  \<lparr>load_weight = (if GetArgFloat E s 1 < 0 then load_weight (ror_node_defaults s)
                                   else GetArgFloat E s 1),
                   friction = (if 2 < m_num_args s \<and> \<not> GetArgFloat E s 2 < 0
                               then GetArgFloat E s 2 else friction (ror_node_defaults s)),
                   volume = (if 3 < m_num_args s \<and> \<not> GetArgFloat E s 3 < 0
                             then GetArgFloat E s 3 else volume (ror_node_defaults s)),
                   surface = (if 4 < m_num_args s \<and> \<not> GetArgFloat E s 4 < 0
                              then GetArgFloat E s 4 else surface (ror_node_defaults s)),
                   nd_options = opts\<rparr>),
             node_defaults_next := Suc (node_defaults_next s),
             m_user_node_defaults := node_defaults_next s\<rparr>"
    by blast
  have u: "user_node_defaults (ParseDirectiveSetNodeDefaults E s) =
      \<lparr>load_weight = (if GetArgFloat E s 1 < 0 then load_weight (ror_node_defaults s)
                                   else GetArgFloat E s 1),
                   friction = (if 2 < m_num_args s \<and> \<not> GetArgFloat E s 2 < 0
                               then GetArgFloat E s 2 else friction (ror_node_defaults s)),
                   volume = (if 3 < m_num_args s \<and> \<not> GetArgFloat E s 3 < 0
                             then GetArgFloat E s 3 else volume (ror_node_defaults s)),
                   surface = (if 4 < m_num_args s \<and> \<not> GetArgFloat E s 4 < 0
                              then GetArgFloat E s 4 else surface (ror_node_defaults s)),
                   nd_options = opts\<rparr>"
    unfolding eq by (simp add: user_node_defaults_def)
  have r: "ror_node_defaults (ParseDirectiveSetNodeDefaults E s) = ror_node_defaults s"
    unfolding eq using assms(2) by (simp add: ror_node_defaults_def only_logs_fields[OF l])
  have i: "m_user_default_inertia (ParseDirectiveSetInertiaDefaults E s) =
           (if GetArgFloat E s 1 < 0 \<or> (2 < m_num_args s \<and> GetArgFloat E s 2 < 0)
            then m_ror_default_inertia s
            else (m_user_default_inertia s)
                   \<lparr>start_delay_factor := GetArgFloat E s 1,
                    stop_delay_factor := (if 2 < m_num_args s then GetArgFloat E s 2 else 0),
                    start_function := (if 3 < m_num_args s then GetArgStr s 3
                                       else start_function (m_user_default_inertia s)),
                    stop_function := (if 4 < m_num_args s then GetArgStr s 4
                                      else stop_function (m_user_default_inertia s))\<rparr>)"
    using assms(1)
    by (simp add: ParseDirectiveSetInertiaDefaults_def CheckNumArguments_enough Let_def)
  have j: "m_ror_default_inertia (ParseDirectiveSetInertiaDefaults E s) = m_ror_default_inertia s"
    using assms(1)
    by (simp add: ParseDirectiveSetInertiaDefaults_def CheckNumArguments_enough Let_def)
  from u r i j show ?thesis
    by simp
qed


theorem negative_sentinel_selects_engine_default_witness:
  "friction (user_node_defaults (ParseDirectiveSetNodeDefaults example_env
      (tokenized example_env ''set_node_defaults 10 -1'' KEYWORD_SET_NODE_DEFAULTS
         example_start))) = 1
   \<and> load_weight (user_node_defaults (ParseDirectiveSetNodeDefaults example_env
      (tokenized example_env ''set_node_defaults 10 -1'' KEYWORD_SET_NODE_DEFAULTS
         example_start))) = 10
   \<and> volume (user_node_defaults (ParseDirectiveSetNodeDefaults example_env
      (tokenized example_env ''set_node_defaults 10 -1'' KEYWORD_SET_NODE_DEFAULTS
         example_start))) = 1"
proof -
  let ?l = "''set_node_defaults 10 -1''"
  let ?s = "tokenized example_env ?l KEYWORD_SET_NODE_DEFAULTS example_start"
  have toks: "line_tokens example_env (line_text example_env ?l) =
      [''set_node_defaults'', ''10'', ''-1'']"
    by code_simp
  have n: "m_num_args ?s = 3"
    by (simp add: tokenized_num_args toks)
  then have n2: "2 \<le> m_num_args ?s"
    by simp
  have ror: "m_ror_node_defaults ?s \<noteq> node_defaults_next ?s"
    unfolding tokenized_fields by code_simp
  have v: "GetArgFloat example_env ?s 1 = 10" "GetArgFloat example_env ?s 2 = - 1"
    unfolding GetArgFloat_def by (simp_all add: tokenized_GetArgStr toks) code_simp+
  have r: "friction (ror_node_defaults ?s) = 1" "volume (ror_node_defaults ?s) = 1"
    unfolding tokenized_reads by code_simp+
  from negative_sentinel_selects_engine_default[OF n2 ror, of example_env] n v r
  show ?thesis
    by simp
qed

theorem negative_sentinel_counterexample:
  "observe (friction \<circ> user_node_defaults)
     (ProcessLines example_env [''My truck'', ''set_node_defaults 10 5''] example_start) = Some 5
   \<and> observe (friction \<circ> user_node_defaults)
       (ProcessLines example_env
          [''My truck'', ''set_node_defaults 10 5'', ''set_node_defaults 10 -1''] example_start) =
      Some 1"
proof -
  let ?l1 = "''set_node_defaults 10 5''"
  let ?l2 = "''set_node_defaults 10 -1''"
  let ?s0 = "example_start
      \<lparr>m_current_line := line_text example_env ''My truck'',
       m_definition := (m_definition example_start)\<lparr>name := line_text example_env ''My truck''\<rparr>,
       m_current_line_number := Suc (m_current_line_number example_start)\<rparr>"
  have h: "name (m_definition example_start) = []" "\<not> line_skipped example_env ''My truck''"
    "line_text example_env ''My truck'' \<noteq> []"
    "\<not> starts_comment (line_text example_env ''My truck'')"
    by code_simp+
  have r0: "ProcessRawLine example_env ''My truck'' example_start = Inr ?s0"
    by (rule ProcessRawLine_sets_name[OF h])
  have e: "m_ror_node_defaults example_start = 0" "node_defaults_next example_start = 1"
    "m_current_block example_start = KEYWORD_INVALID"
    by code_simp+
  have s0: "name (m_definition ?s0) \<noteq> []" "m_current_block ?s0 \<noteq> KEYWORD_COMMENT"
    "m_current_block ?s0 \<noteq> KEYWORD_DESCRIPTION"
    "m_ror_node_defaults ?s0 \<noteq> node_defaults_next ?s0"
    using h(3) by (simp_all add: e)
  have l: "line_is example_env ?l1 KEYWORD_SET_NODE_DEFAULTS 2"
    "line_is example_env ?l2 KEYWORD_SET_NODE_DEFAULTS 2"
    by code_simp+
  have v: "arg_or_minus_one example_env (line_tokens example_env (line_text example_env ?l1)) 2 = 5"
    "arg_or_minus_one example_env (line_tokens example_env (line_text example_env ?l2)) 2 = - 1"
    by code_simp+
  have f0: "friction (ror_node_defaults ?s0) = 1"
    unfolding ror_node_defaults_def by simp code_simp
  from ProcessRawLine_set_node_defaults[OF l(1) s0]
  obtain s1 :: Parser and opts1 where
    r1: "ProcessRawLine example_env ?l1 ?s0 = Inr s1"
    and st1: "node_defaults_store s1 = (node_defaults_store ?s0)
           (node_defaults_next ?s0 :=
              resolve_against (ror_node_defaults ?s0) example_env
                (line_tokens example_env (line_text example_env ?l1)) opts1)"
    and f1: "node_defaults_next s1 = Suc (node_defaults_next ?s0)"
      "m_user_node_defaults s1 = node_defaults_next ?s0"
      "m_ror_node_defaults s1 = m_ror_node_defaults ?s0" "m_definition s1 = m_definition ?s0"
      "m_current_block s1 = m_current_block ?s0"
    by (elim exE conjE) (rule that, assumption+)
  have u1: "friction (user_node_defaults s1) = 5"
    by (simp add: user_node_defaults_def f1 st1 resolve_against_def v del: fun_upd_apply)
       (simp add: v)
  have s1: "name (m_definition s1) \<noteq> []" "m_current_block s1 \<noteq> KEYWORD_COMMENT"
    "m_current_block s1 \<noteq> KEYWORD_DESCRIPTION"
    "m_ror_node_defaults s1 \<noteq> node_defaults_next s1"
    using h(3) by (simp_all add: f1 e)
  have ror1: "ror_node_defaults s1 = ror_node_defaults ?s0"
    using s0(4) by (simp add: ror_node_defaults_def f1 st1)
  from ProcessRawLine_set_node_defaults[OF l(2) s1]
  obtain s2 :: Parser and opts2 where
    r2: "ProcessRawLine example_env ?l2 s1 = Inr s2"
    and st2: "node_defaults_store s2 = (node_defaults_store s1)
           (node_defaults_next s1 :=
              resolve_against (ror_node_defaults s1) example_env
                (line_tokens example_env (line_text example_env ?l2)) opts2)"
    and f2: "m_user_node_defaults s2 = node_defaults_next s1"
    by (elim exE conjE) (rule that, assumption+)
  have u2: "friction (user_node_defaults s2) = 1"
    by (simp add: user_node_defaults_def f2 st2 resolve_against_def v ror1 f0)
  have "ProcessLines example_env [''My truck'', ?l1] example_start = Inr s1"
    "ProcessLines example_env [''My truck'', ?l1, ?l2] example_start = Inr s2"
    using r0 r1 r2 by simp_all
  with u1 u2 show ?thesis
    by (simp add: observe_def)
qed

section \<open>Where the staged objects are flushed\<close>

lemma flush_staged_submesh:
  assumes "m_current_submesh s = Some sm"
  shows "submeshes (current_module (flush_staged s)) = submeshes (current_module s) @ [sm]"
    and "m_current_submesh (flush_staged s) = None"
  using assms
  by (auto simp: flush_staged_def Let_def update_current_module_def current_module_def
      LogMessage_def split: option.splits)

lemma flush_staged_empty_rail:
  assumes "m_current_camera_rail s = Some cr" and "rail_nodes cr = []"
  shows "camerarail (current_module (flush_staged s)) = camerarail (current_module s)"
    and "console (flush_staged s) =
           console s @ [\<lparr>msg_type = CONSOLE_SYSTEM_WARNING, msg_line = m_current_line_number s,
                          msg_keyword = m_log_keyword s, msg_text = Empty_section_camerarail\<rparr>]"
    and "m_current_camera_rail (flush_staged s) = Some cr"
  using assms
  by (auto simp: flush_staged_def Let_def update_current_module_def current_module_def
      LogMessage_def split: option.splits)

lemma flush_staged_rail:
  assumes "m_current_camera_rail s = Some cr" and "rail_nodes cr \<noteq> []"
  shows "camerarail (current_module (flush_staged s)) = camerarail (current_module s) @ [cr]"
    and "console (flush_staged s) = console s"
    and "m_current_camera_rail (flush_staged s) = None"
  using assms
  by (auto simp: flush_staged_def Let_def update_current_module_def current_module_def
      LogMessage_def split: option.splits)

lemma flush_staged_fields:
  "m_current_module (flush_staged s) = m_current_module s"
  "m_root_module (flush_staged s) = m_root_module s"
  "m_sequential_importer (flush_staged s) = m_sequential_importer s"
  "m_definition (flush_staged s) = m_definition s"
  "module_next (flush_staged s) = module_next s"
  by (simp_all add: flush_staged_def Let_def update_current_module_def LogMessage_def
      split: option.splits)

lemma dispatch_section:
  assumes "3 \<le> m_num_args s" and "GetArgStr s 2 \<noteq> mod_name (current_module s)"
  shows "dispatch_keyword E KEYWORD_SECTION s = Inr (switch_module E (GetArgStr s 2) s)"
  using assms
  by (simp add: dispatch_keyword_def ParseDirectiveSection_def ProcessChangeModuleLine_def
      CheckNumArguments_enough)

text \<open>
  C7, as amended.  A flush of the staged objects always commits a staged submesh to the
  current module; it commits a staged camera-rail that has nodes, and for a staged
  camera-rail without nodes it logs exactly one warning and leaves the collection of
  rails as it was.  The keywords \<^verbatim>\<open>end\<close>, \<^verbatim>\<open>end_comment\<close> and \<^verbatim>\<open>end_description\<close>, the
  opening of a \<^verbatim>\<open>camerarail\<close> section, the \<^verbatim>\<open>submesh\<close> directive, a module switch
  (\<^verbatim>\<open>end_section\<close> inside a named module, or a \<^verbatim>\<open>section\<close> line that names another module,
  be it the root, a known or a new one) and the end of the file (\<^verbatim>\<open>Finalize\<close>, before the
  sequential importer runs when it is enabled) all flush, and the flush is made in the
  module that is current before the switch; the opening of any other section changes
  the current block only and keeps the staged objects.  No sequence of lines puts a
  camera-rail without nodes into a module.
\<close>

theorem staged_objects_flush:
  "(\<forall>sm. m_current_submesh s = Some sm \<longrightarrow>
      submeshes (current_module (flush_staged s)) = submeshes (current_module s) @ [sm]
      \<and> m_current_submesh (flush_staged s) = None)
   \<and> (\<forall>cr. m_current_camera_rail s = Some cr \<and> rail_nodes cr = [] \<longrightarrow>
        camerarail (current_module (flush_staged s)) = camerarail (current_module s)
        \<and> console (flush_staged s) =
            console s @ [\<lparr>msg_type = CONSOLE_SYSTEM_WARNING,
                           msg_line = m_current_line_number s,
                           msg_keyword = m_log_keyword s,
                           msg_text = Empty_section_camerarail\<rparr>])
   \<and> (\<forall>cr. m_current_camera_rail s = Some cr \<and> rail_nodes cr \<noteq> [] \<longrightarrow>
        camerarail (current_module (flush_staged s)) = camerarail (current_module s) @ [cr]
        \<and> console (flush_staged s) = console s)
   \<and> (k \<in> {KEYWORD_END, KEYWORD_END_COMMENT, KEYWORD_END_DESCRIPTION} \<longrightarrow>
        dispatch_keyword E k s = Inr ((flush_staged s)\<lparr>m_current_block := KEYWORD_INVALID\<rparr>))
   \<and> dispatch_keyword E KEYWORD_CAMERARAIL s =
        Inr ((flush_staged s)\<lparr>m_current_block := KEYWORD_CAMERARAIL,
                               m_current_camera_rail := Some \<lparr>rail_nodes = []\<rparr>\<rparr>)
   \<and> dispatch_keyword E KEYWORD_SUBMESH s =
        Inr ((flush_staged s)\<lparr>m_current_block := KEYWORD_INVALID,
                               m_current_submesh := Some (new_Submesh E)\<rparr>)
   \<and> (m_current_module s \<noteq> m_root_module s \<longrightarrow>
        dispatch_keyword E KEYWORD_END_SECTION s =
          Inr ((flush_staged s)\<lparr>m_current_block := KEYWORD_INVALID,
                                 m_current_module := m_root_module s\<rparr>))
   \<and> (\<not> IsEnabled (m_sequential_importer s) \<longrightarrow>
        Finalize P s = (flush_staged s)\<lparr>m_current_block := KEYWORD_INVALID\<rparr>)
   \<and> (IsEnabled (m_sequential_importer s) \<longrightarrow>
        Finalize P s = P ((flush_staged s)\<lparr>m_current_block := KEYWORD_INVALID\<rparr>))
   \<and> (3 \<le> m_num_args s \<and> GetArgStr s 2 \<noteq> mod_name (current_module s)
        \<and> GetArgStr s 2 = ROOT_MODULE_NAME E \<longrightarrow>
        dispatch_keyword E KEYWORD_SECTION s =
          Inr ((flush_staged s)\<lparr>m_current_block := KEYWORD_INVALID,
                                 m_current_module := m_root_module s\<rparr>))
   \<and> (\<forall>a. 3 \<le> m_num_args s \<and> GetArgStr s 2 \<noteq> mod_name (current_module s)
        \<and> GetArgStr s 2 \<noteq> ROOT_MODULE_NAME E
        \<and> user_modules (m_definition s) (GetArgStr s 2) = Some a \<longrightarrow>
        dispatch_keyword E KEYWORD_SECTION s =
          Inr ((flush_staged s)\<lparr>m_current_block := KEYWORD_INVALID, m_current_module := a\<rparr>))
   \<and> (3 \<le> m_num_args s \<and> GetArgStr s 2 \<noteq> mod_name (current_module s)
        \<and> GetArgStr s 2 \<noteq> ROOT_MODULE_NAME E
        \<and> user_modules (m_definition s) (GetArgStr s 2) = None \<longrightarrow>
        dispatch_keyword E KEYWORD_SECTION s =
          Inr ((flush_staged s)
                 \<lparr>m_current_block := KEYWORD_INVALID,
                  module_store := (module_store (flush_staged s))
                    (module_next s := Module_ctor (GetArgStr s 2)),
                  module_next := Suc (module_next s),
                  m_current_module := module_next s,
                  m_definition := (m_definition s)
                    \<lparr>user_modules := (user_modules (m_definition s))
                       (GetArgStr s 2 \<mapsto> module_next s)\<rparr>\<rparr>))
   \<and> (k' \<in> {KEYWORD_BEAMS, KEYWORD_CAB, KEYWORD_COMMENT, KEYWORD_DESCRIPTION, KEYWORD_ENGINE,
              KEYWORD_HELP, KEYWORD_NODES, KEYWORD_NODES2, KEYWORD_TEXCOORDS,
              KEYWORD_WHEELDETACHERS, KEYWORD_WHEELS} \<longrightarrow>
        dispatch_keyword E k' s = Inr (s\<lparr>m_current_block := k'\<rparr>))
   \<and> (rails_nonempty s \<and> ProcessLines E ls s = Inr s' \<longrightarrow> rails_nonempty s')"
proof (intro conjI allI impI)
  fix sm
  assume "m_current_submesh s = Some sm"
  then show "submeshes (current_module (flush_staged s)) = submeshes (current_module s) @ [sm]"
    and "m_current_submesh (flush_staged s) = None"
    by (rule flush_staged_submesh)+
next
  fix cr
  assume "m_current_camera_rail s = Some cr \<and> rail_nodes cr = []"
  then have a: "m_current_camera_rail s = Some cr" "rail_nodes cr = []"
    by simp_all
  from flush_staged_empty_rail(1)[OF a]
  show "camerarail (current_module (flush_staged s)) = camerarail (current_module s)" .
  from flush_staged_empty_rail(2)[OF a]
  show "console (flush_staged s) =
      console s @ [\<lparr>msg_type = CONSOLE_SYSTEM_WARNING, msg_line = m_current_line_number s,
                     msg_keyword = m_log_keyword s, msg_text = Empty_section_camerarail\<rparr>]" .
next
  fix cr
  assume "m_current_camera_rail s = Some cr \<and> rail_nodes cr \<noteq> []"
  then have a: "m_current_camera_rail s = Some cr" "rail_nodes cr \<noteq> []"
    by simp_all
  from flush_staged_rail(1)[OF a]
  show "camerarail (current_module (flush_staged s)) = camerarail (current_module s) @ [cr]" .
  from flush_staged_rail(2)[OF a]
  show "console (flush_staged s) = console s" .
next
  assume "k \<in> {KEYWORD_END, KEYWORD_END_COMMENT, KEYWORD_END_DESCRIPTION}"
  then show "dispatch_keyword E k s = Inr ((flush_staged s)\<lparr>m_current_block := KEYWORD_INVALID\<rparr>)"
    by (auto simp: dispatch_keyword_def BeginBlock_def)
next
  show "dispatch_keyword E KEYWORD_CAMERARAIL s =
        Inr ((flush_staged s)\<lparr>m_current_block := KEYWORD_CAMERARAIL,
                               m_current_camera_rail := Some \<lparr>rail_nodes = []\<rparr>\<rparr>)"
    by (simp add: dispatch_keyword_def BeginBlock_def)
next
  show "dispatch_keyword E KEYWORD_SUBMESH s =
        Inr ((flush_staged s)\<lparr>m_current_block := KEYWORD_INVALID,
                               m_current_submesh := Some (new_Submesh E)\<rparr>)"
    by (simp add: dispatch_keyword_def ParseDirectiveSubmesh_def BeginBlock_def)
next
  assume "m_current_module s \<noteq> m_root_module s"
  then show "dispatch_keyword E KEYWORD_END_SECTION s =
          Inr ((flush_staged s)\<lparr>m_current_block := KEYWORD_INVALID,
                                 m_current_module := m_root_module s\<rparr>)"
    by (simp add: dispatch_keyword_def ProcessChangeModuleLine_def switch_module_def
        BeginBlock_def flush_staged_fields)
next
  assume "\<not> IsEnabled (m_sequential_importer s)"
  then show "Finalize P s = (flush_staged s)\<lparr>m_current_block := KEYWORD_INVALID\<rparr>"
    by (simp add: Finalize_def BeginBlock_def flush_staged_fields)
next
  assume "IsEnabled (m_sequential_importer s)"
  then show "Finalize P s = P ((flush_staged s)\<lparr>m_current_block := KEYWORD_INVALID\<rparr>)"
    by (simp add: Finalize_def BeginBlock_def flush_staged_fields)
next
  assume "3 \<le> m_num_args s \<and> GetArgStr s 2 \<noteq> mod_name (current_module s)
        \<and> GetArgStr s 2 = ROOT_MODULE_NAME E"
  then have a: "3 \<le> m_num_args s" "GetArgStr s 2 \<noteq> mod_name (current_module s)"
    and r: "GetArgStr s 2 = ROOT_MODULE_NAME E"
    by auto
  show "dispatch_keyword E KEYWORD_SECTION s =
          Inr ((flush_staged s)\<lparr>m_current_block := KEYWORD_INVALID,
                                 m_current_module := m_root_module s\<rparr>)"
    unfolding dispatch_section[OF a]
    by (simp add: r switch_module_def BeginBlock_def flush_staged_fields)
next
  fix a
  assume "3 \<le> m_num_args s \<and> GetArgStr s 2 \<noteq> mod_name (current_module s)
        \<and> GetArgStr s 2 \<noteq> ROOT_MODULE_NAME E
        \<and> user_modules (m_definition s) (GetArgStr s 2) = Some a"
  then have a: "3 \<le> m_num_args s" "GetArgStr s 2 \<noteq> mod_name (current_module s)"
    and r: "GetArgStr s 2 \<noteq> ROOT_MODULE_NAME E"
      "user_modules (m_definition s) (GetArgStr s 2) = Some a"
    by auto
  show "dispatch_keyword E KEYWORD_SECTION s =
          Inr ((flush_staged s)\<lparr>m_current_block := KEYWORD_INVALID, m_current_module := a\<rparr>)"
    unfolding dispatch_section[OF a]
    by (simp add: r switch_module_def BeginBlock_def flush_staged_fields)
next
  assume "3 \<le> m_num_args s \<and> GetArgStr s 2 \<noteq> mod_name (current_module s)
        \<and> GetArgStr s 2 \<noteq> ROOT_MODULE_NAME E
        \<and> user_modules (m_definition s) (GetArgStr s 2) = None"
  then have a: "3 \<le> m_num_args s" "GetArgStr s 2 \<noteq> mod_name (current_module s)"
    and r: "GetArgStr s 2 \<noteq> ROOT_MODULE_NAME E"
      "user_modules (m_definition s) (GetArgStr s 2) = None"
    by auto
  show "dispatch_keyword E KEYWORD_SECTION s =
          Inr ((flush_staged s)
                 \<lparr>m_current_block := KEYWORD_INVALID,
                  module_store := (module_store (flush_staged s))
                    (module_next s := Module_ctor (GetArgStr s 2)),
                  module_next := Suc (module_next s),
                  m_current_module := module_next s,
                  m_definition := (m_definition s)
                    \<lparr>user_modules := (user_modules (m_definition s))
                       (GetArgStr s 2 \<mapsto> module_next s)\<rparr>\<rparr>)"
    unfolding dispatch_section[OF a]
    by (simp add: r switch_module_def BeginBlock_def flush_staged_fields Let_def)
next
  assume "k' \<in> {KEYWORD_BEAMS, KEYWORD_CAB, KEYWORD_COMMENT, KEYWORD_DESCRIPTION, KEYWORD_ENGINE,
              KEYWORD_HELP, KEYWORD_NODES, KEYWORD_NODES2, KEYWORD_TEXCOORDS,
              KEYWORD_WHEELDETACHERS, KEYWORD_WHEELS}"
  then show "dispatch_keyword E k' s = Inr (s\<lparr>m_current_block := k'\<rparr>)"
    by (auto simp: dispatch_keyword_def BeginBlock_def)
next
  assume "rails_nonempty s \<and> ProcessLines E ls s = Inr s'"
  then show "rails_nonempty s'"
    using ProcessLines_rails by blast
qed

theorem staged_objects_flush_witness:
  "submeshes (current_module (flush_staged
      (example_start\<lparr>m_current_submesh := Some \<lparr>texcoords = [], cab_triangles = [], backmesh = False\<rparr>,
                     m_current_camera_rail := Some \<lparr>rail_nodes = []\<rparr>\<rparr>))) =
     [\<lparr>texcoords = [], cab_triangles = [], backmesh = False\<rparr>]
   \<and> camerarail (current_module (flush_staged
      (example_start\<lparr>m_current_submesh := Some \<lparr>texcoords = [], cab_triangles = [], backmesh = False\<rparr>,
                     m_current_camera_rail := Some \<lparr>rail_nodes = []\<rparr>\<rparr>))) = []
   \<and> console (flush_staged
      (example_start\<lparr>m_current_submesh := Some \<lparr>texcoords = [], cab_triangles = [], backmesh = False\<rparr>,
                     m_current_camera_rail := Some \<lparr>rail_nodes = []\<rparr>\<rparr>)) =
     [\<lparr>msg_type = CONSOLE_SYSTEM_WARNING, msg_line = 1, msg_keyword = KEYWORD_INVALID,
       msg_text = Empty_section_camerarail\<rparr>]
   \<and> IsEnabled (m_sequential_importer example_start)
   \<and> (let s' = Finalize (\<lambda>t. t)
          (example_start\<lparr>m_current_submesh := Some \<lparr>texcoords = [], cab_triangles = [], backmesh = False\<rparr>,
                         m_current_camera_rail := Some \<lparr>rail_nodes = []\<rparr>\<rparr>)
        in (submeshes (current_module s'), camerarail (current_module s'), length (console s'))) =
       ([\<lparr>texcoords = [], cab_triangles = [], backmesh = False\<rparr>], [], 1)
   \<and> observe (\<lambda>s'. (submeshes (module_store s' 0), camerarail (module_store s' 0),
                      length (console s'), m_current_module s',
                      submeshes (current_module s'), m_current_submesh s'))
       (dispatch_keyword example_env KEYWORD_SECTION
          (tokenized example_env ''section 1 alpha'' KEYWORD_SECTION
             (example_start\<lparr>m_current_submesh := Some \<lparr>texcoords = [], cab_triangles = [], backmesh = False\<rparr>,
                            m_current_camera_rail := Some \<lparr>rail_nodes = []\<rparr>\<rparr>))) =
       Some ([\<lparr>texcoords = [], cab_triangles = [], backmesh = False\<rparr>], [], 1, 1, [], None)"
proof -
  let ?E = example_env
  let ?sm = "\<lparr>texcoords = [], cab_triangles = [], backmesh = False\<rparr>"
  let ?s = "example_start\<lparr>m_current_submesh := Some ?sm,
                          m_current_camera_rail := Some \<lparr>rail_nodes = []\<rparr>\<rparr>"
  let ?t = "tokenized ?E ''section 1 alpha'' KEYWORD_SECTION ?s"
  have m: "submeshes (current_module ?s) = []" "camerarail (current_module ?s) = []"
    "console example_start = []" "m_current_line_number example_start = 1"
    "m_log_keyword example_start = KEYWORD_INVALID"
    by code_simp+
  have en: "IsEnabled (m_sequential_importer example_start)"
    by code_simp
  from staged_objects_flush[of ?s] have f:
    "submeshes (current_module (flush_staged ?s)) = submeshes (current_module ?s) @ [?sm]"
    "camerarail (current_module (flush_staged ?s)) = camerarail (current_module ?s)"
    "console (flush_staged ?s) =
       console ?s @ [\<lparr>msg_type = CONSOLE_SYSTEM_WARNING, msg_line = m_current_line_number ?s,
                      msg_keyword = m_log_keyword ?s, msg_text = Empty_section_camerarail\<rparr>]"
    by simp_all
  with m have c1: "submeshes (current_module (flush_staged ?s)) = [?sm]"
    and c2: "camerarail (current_module (flush_staged ?s)) = []"
    and c3: "console (flush_staged ?s) =
     [\<lparr>msg_type = CONSOLE_SYSTEM_WARNING, msg_line = 1, msg_keyword = KEYWORD_INVALID,
       msg_text = Empty_section_camerarail\<rparr>]"
    by simp_all
  from staged_objects_flush[where s = ?s and P = "\<lambda>t. t"] en
  have "Finalize (\<lambda>t. t) ?s = (flush_staged ?s)\<lparr>m_current_block := KEYWORD_INVALID\<rparr>"
    by simp
  with c1 c2 c3 have c5: "(let s' = Finalize (\<lambda>t. t) ?s
        in (submeshes (current_module s'), camerarail (current_module s'), length (console s'))) =
       ([?sm], [], 1)"
    by (simp add: current_module_def)
  have tk: "length (line_tokens ?E (line_text ?E ''section 1 alpha'')) = 3"
    "line_tokens ?E (line_text ?E ''section 1 alpha'') ! 2 = ''alpha''"
    by code_simp+
  have g: "GetArgStr ?t 2 = ''alpha''"
    using tokenized_GetArgStr[of 2 ?E "''section 1 alpha''" KEYWORD_SECTION ?s] tk by simp
  have n: "3 \<le> m_num_args ?t"
    by (simp add: tokenized_num_args tk)
  have e: "mod_name (current_module example_start) = ''_Root_''"
    "ROOT_MODULE_NAME ?E = ''_Root_''"
    "user_modules (m_definition example_start) ''alpha'' = None"
    "m_current_module example_start = 0" "module_next example_start = 1"
    by code_simp+
  have h: "GetArgStr ?t 2 \<noteq> mod_name (current_module ?t)"
    "GetArgStr ?t 2 \<noteq> ROOT_MODULE_NAME ?E"
    "user_modules (m_definition ?t) (GetArgStr ?t 2) = None"
    using e by (simp_all add: g tokenized_reads tokenized_fields current_module_def)
  have st: "m_current_submesh ?t = Some ?sm"
    "m_current_camera_rail ?t = Some \<lparr>rail_nodes = []\<rparr> \<and> rail_nodes \<lparr>rail_nodes = []\<rparr> = []"
    by (simp_all add: tokenized_fields)
  have mt: "submeshes (current_module ?t) = []" "camerarail (current_module ?t) = []"
    "console ?t = []"
    using m by (simp_all add: tokenized_reads tokenized_fields)
  from staged_objects_flush[where s = ?t and E = ?E] n h
  have d: "dispatch_keyword ?E KEYWORD_SECTION ?t =
          Inr ((flush_staged ?t)
                 \<lparr>m_current_block := KEYWORD_INVALID,
                  module_store := (module_store (flush_staged ?t))
                    (module_next ?t := Module_ctor (GetArgStr ?t 2)),
                  module_next := Suc (module_next ?t),
                  m_current_module := module_next ?t,
                  m_definition := (m_definition ?t)
                    \<lparr>user_modules := (user_modules (m_definition ?t))
                       (GetArgStr ?t 2 \<mapsto> module_next ?t)\<rparr>\<rparr>)"
    by simp
  from staged_objects_flush[where s = ?t and E = ?E] st have ft:
    "submeshes (current_module (flush_staged ?t)) = submeshes (current_module ?t) @ [?sm]"
    "m_current_submesh (flush_staged ?t) = None"
    "camerarail (current_module (flush_staged ?t)) = camerarail (current_module ?t)"
    "console (flush_staged ?t) =
       console ?t @ [\<lparr>msg_type = CONSOLE_SYSTEM_WARNING, msg_line = m_current_line_number ?t,
                      msg_keyword = m_log_keyword ?t, msg_text = Empty_section_camerarail\<rparr>]"
    by simp_all
  have cur: "m_current_module (flush_staged ?t) = 0" "module_next ?t = 1"
    using e by (simp_all add: flush_staged_fields tokenized_fields)
  from ft mt cur have r: "submeshes (module_store (flush_staged ?t) 0) = [?sm]"
    "camerarail (module_store (flush_staged ?t) 0) = []"
    "length (console (flush_staged ?t)) = 1"
    by (simp_all add: current_module_def)
  have c6: "observe (\<lambda>s'. (submeshes (module_store s' 0), camerarail (module_store s' 0),
                      length (console s'), m_current_module s',
                      submeshes (current_module s'), m_current_submesh s'))
       (dispatch_keyword ?E KEYWORD_SECTION ?t) = Some ([?sm], [], 1, 1, [], None)"
    unfolding d
    by (simp add: observe_def r cur ft(2) current_module_def Module_ctor_def)
  from c1 c2 c3 en c5 c6 show ?thesis
    by (intro conjI)
qed

theorem staged_submesh_kept_counterexample:
  "observe (\<lambda>s. (submeshes (current_module s), m_current_submesh s, m_current_block s))
     (ProcessLines example_env [''My truck'', ''submesh'', ''beams''] example_start) =
   Some ([], Some \<lparr>texcoords = [], cab_triangles = [], backmesh = False\<rparr>, KEYWORD_BEAMS)"
  by code_simp

section \<open>Module switching\<close>

lemma ProcessRawLine_open_beams:
  assumes "line_is E raw KEYWORD_BEAMS 0" and "name (m_definition s) \<noteq> []"
    and "m_current_block s \<noteq> KEYWORD_COMMENT" "m_current_block s \<noteq> KEYWORD_DESCRIPTION"
  shows "ProcessRawLine E raw s =
           Inr ((tokenized E raw KEYWORD_BEAMS s)
                  \<lparr>m_current_block := KEYWORD_BEAMS,
                   m_current_line_number := Suc (m_current_line_number s)\<rparr>)"
  using ProcessRawLine_line[OF assms]
  by (simp add: dispatch_keyword_def BeginBlock_def tokenized_fields)

lemma ProcessRawLine_beam:
  assumes "line_is E raw KEYWORD_INVALID 2" and "name (m_definition s) \<noteq> []"
    and "m_current_block s = KEYWORD_BEAMS"
  shows "\<exists>s' beam. ProcessRawLine E raw s = Inr s'
      \<and> module_store s' = (module_store s)
           (m_current_module s :=
              (current_module s)\<lparr>beams := beams (current_module s) @ [beam]\<rparr>)
      \<and> module_next s' = module_next s
      \<and> m_root_module s' = m_root_module s
      \<and> m_current_module s' = m_current_module s
      \<and> m_definition s' = m_definition s
      \<and> m_current_block s' = m_current_block s
      \<and> m_current_submesh s' = m_current_submesh s
      \<and> m_current_camera_rail s' = m_current_camera_rail s"
proof -
  let ?k = KEYWORD_INVALID
  let ?t = "tokenized E raw ?k s"
  let ?u = "?t\<lparr>m_log_keyword := m_current_block ?t\<rparr>"
  from assms(3) have blk: "m_current_block s \<noteq> KEYWORD_COMMENT"
    "m_current_block s \<noteq> KEYWORD_DESCRIPTION"
    by auto
  from assms(1) have "2 \<le> length (line_tokens E (line_text E raw))"
    by (simp add: line_is_def)
  then have n: "2 \<le> m_num_args ?u"
    by (simp add: tokenized_num_args)
  from ParseBeams_enough[OF n, of E] obtain beam u' where
    l: "only_logs ?u u'"
    and eq: "ParseBeams E ?u = update_current_module (\<lambda>m. m\<lparr>beams := beams m @ [beam]\<rparr>) u'"
    by blast
  have d: "dispatch_keyword E ?k ?t = Inr (ParseBeams E ?u)"
    using assms(3) by (auto simp: dispatch_keyword_def parse_current_block_def tokenized_fields)
  define s' where "s' = (ParseBeams E ?u)
      \<lparr>m_current_line_number := Suc (m_current_line_number (ParseBeams E ?u))\<rparr>"
  have run: "ProcessRawLine E raw s = Inr s'"
    using ProcessRawLine_line[OF assms(1,2) blk] d by (simp add: s'_def)
  have "module_store s' = (module_store s)
           (m_current_module s :=
              (current_module s)\<lparr>beams := beams (current_module s) @ [beam]\<rparr>)"
    unfolding s'_def eq
    by (simp add: update_current_module_def current_module_def only_logs_fields[OF l]
        tokenized_fields)
  moreover have "module_next s' = module_next s" "m_root_module s' = m_root_module s"
    "m_current_module s' = m_current_module s"
    "m_definition s' = m_definition s" "m_current_block s' = m_current_block s"
    "m_current_submesh s' = m_current_submesh s"
    "m_current_camera_rail s' = m_current_camera_rail s"
    unfolding s'_def eq
    by (simp_all add: update_current_module_def only_logs_fields[OF l] tokenized_fields)
  ultimately show ?thesis
    using run by blast
qed

lemma flush_staged_nothing:
  "m_current_submesh s = None \<Longrightarrow> m_current_camera_rail s = None \<Longrightarrow> flush_staged s = s"
  by (simp add: flush_staged_def)

lemma ProcessRawLine_section:
  assumes "line_is E raw KEYWORD_SECTION 3" and "name (m_definition s) \<noteq> []"
    and "m_current_block s \<noteq> KEYWORD_COMMENT" "m_current_block s \<noteq> KEYWORD_DESCRIPTION"
    and "m_current_submesh s = None" "m_current_camera_rail s = None"
    and "line_tokens E (line_text E raw) ! 2 \<noteq> mod_name (current_module s)"
    and "line_tokens E (line_text E raw) ! 2 \<noteq> ROOT_MODULE_NAME E"
  shows "\<exists>s'. ProcessRawLine E raw s = Inr s'
      \<and> m_current_block s' = KEYWORD_INVALID
      \<and> m_root_module s' = m_root_module s
      \<and> name (m_definition s') = name (m_definition s)
      \<and> m_current_submesh s' = None
      \<and> m_current_camera_rail s' = None
      \<and> (case user_modules (m_definition s) (line_tokens E (line_text E raw) ! 2) of
            Some a \<Rightarrow>
              module_store s' = module_store s
              \<and> module_next s' = module_next s
              \<and> m_current_module s' = a
              \<and> user_modules (m_definition s') = user_modules (m_definition s)
          | None \<Rightarrow>
              module_store s' = (module_store s)
                (module_next s := Module_ctor (line_tokens E (line_text E raw) ! 2))
              \<and> module_next s' = Suc (module_next s)
              \<and> m_current_module s' = module_next s
              \<and> user_modules (m_definition s') =
                  (user_modules (m_definition s))
                    (line_tokens E (line_text E raw) ! 2 \<mapsto> module_next s))"
proof -
  let ?k = KEYWORD_SECTION
  let ?t = "tokenized E raw ?k s"
  let ?n = "line_tokens E (line_text E raw) ! 2"
  from assms(1) have len: "3 \<le> length (line_tokens E (line_text E raw))"
    by (simp add: line_is_def)
  then have c: "CheckNumArguments 3 ?t = (True, ?t)"
    by (simp add: CheckNumArguments_enough tokenized_num_args)
  from len have g: "GetArgStr ?t 2 = ?n"
    by (simp add: tokenized_GetArgStr)
  have fl: "flush_staged ?t = ?t"
    by (rule flush_staged_nothing) (simp_all add: tokenized_fields assms(5,6))
  have d: "dispatch_keyword E ?k ?t = Inr (switch_module E ?n ?t)"
    using assms(7)
    by (simp add: dispatch_keyword_def ParseDirectiveSection_def ProcessChangeModuleLine_def c g
        tokenized_reads)
  define s' where "s' = (switch_module E ?n ?t)
      \<lparr>m_current_line_number := Suc (m_current_line_number (switch_module E ?n ?t))\<rparr>"
  have run: "ProcessRawLine E raw s = Inr s'"
    using ProcessRawLine_line[OF assms(1-4)] d by (simp add: s'_def)
  have "m_current_block s' = KEYWORD_INVALID" "m_root_module s' = m_root_module s"
    "name (m_definition s') = name (m_definition s)"
    "m_current_submesh s' = None" "m_current_camera_rail s' = None"
    using assms(5,6,8)
    by (simp_all add: s'_def switch_module_def BeginBlock_def fl Let_def tokenized_fields
        split: option.splits)
  moreover have "case user_modules (m_definition s) ?n of
            Some a \<Rightarrow>
              module_store s' = module_store s
              \<and> module_next s' = module_next s
              \<and> m_current_module s' = a
              \<and> user_modules (m_definition s') = user_modules (m_definition s)
          | None \<Rightarrow>
              module_store s' = (module_store s)(module_next s := Module_ctor ?n)
              \<and> module_next s' = Suc (module_next s)
              \<and> m_current_module s' = module_next s
              \<and> user_modules (m_definition s') = (user_modules (m_definition s))(?n \<mapsto> module_next s)"
    using assms(8)
    by (simp add: s'_def switch_module_def BeginBlock_def fl Let_def tokenized_fields
        split: option.splits)
  ultimately show ?thesis
    using run by blast
qed

lemma ProcessRawLine_end_section:
  assumes "line_is E raw KEYWORD_END_SECTION 0" and "name (m_definition s) \<noteq> []"
    and "m_current_block s \<noteq> KEYWORD_COMMENT" "m_current_block s \<noteq> KEYWORD_DESCRIPTION"
    and "m_current_submesh s = None" "m_current_camera_rail s = None"
    and "m_current_module s \<noteq> m_root_module s"
  shows "ProcessRawLine E raw s =
           Inr ((tokenized E raw KEYWORD_END_SECTION s)
                  \<lparr>m_current_block := KEYWORD_INVALID,
                   m_current_module := m_root_module s,
                   m_current_line_number := Suc (m_current_line_number s)\<rparr>)"
proof -
  let ?t = "tokenized E raw KEYWORD_END_SECTION s"
  have fl: "flush_staged ?t = ?t"
    by (rule flush_staged_nothing) (simp_all add: tokenized_fields assms(5,6))
  have "dispatch_keyword E KEYWORD_END_SECTION ?t =
      Inr (?t\<lparr>m_current_block := KEYWORD_INVALID, m_current_module := m_root_module s\<rparr>)"
    using assms(7)
    by (simp add: dispatch_keyword_def ProcessChangeModuleLine_def switch_module_def BeginBlock_def
        fl tokenized_fields)
  with ProcessRawLine_line[OF assms(1-4)] show ?thesis
    by (simp add: tokenized_fields)
qed

lemma ProcessRawLine_section_current:
  assumes "line_is E raw KEYWORD_SECTION 3" and "name (m_definition s) \<noteq> []"
    and "m_current_block s \<noteq> KEYWORD_COMMENT" "m_current_block s \<noteq> KEYWORD_DESCRIPTION"
    and "line_tokens E (line_text E raw) ! 2 = mod_name (current_module s)"
  shows "ProcessRawLine E raw s =
           Inr ((LogMessage CONSOLE_SYSTEM_ERROR Reenter_current_module
                   (tokenized E raw KEYWORD_SECTION s))
                  \<lparr>m_current_line_number := Suc (m_current_line_number s)\<rparr>)"
proof -
  let ?t = "tokenized E raw KEYWORD_SECTION s"
  from assms(1) have len: "3 \<le> length (line_tokens E (line_text E raw))"
    by (simp add: line_is_def)
  then have c: "CheckNumArguments 3 ?t = (True, ?t)"
    by (simp add: CheckNumArguments_enough tokenized_num_args)
  from len have g: "GetArgStr ?t 2 = line_tokens E (line_text E raw) ! 2"
    by (simp add: tokenized_GetArgStr)
  have "dispatch_keyword E KEYWORD_SECTION ?t =
      Inr (LogMessage CONSOLE_SYSTEM_ERROR Reenter_current_module ?t)"
    using assms(5)
    by (simp add: dispatch_keyword_def ParseDirectiveSection_def ProcessChangeModuleLine_def c g
        tokenized_reads)
  with ProcessRawLine_line[OF assms(1-4)] show ?thesis
    by (simp add: LogMessage_def tokenized_fields)
qed


lemma ProcessRawLine_open_beams_fields:
  assumes "line_is E raw KEYWORD_BEAMS 0" and "name (m_definition s) \<noteq> []"
    and "m_current_block s \<noteq> KEYWORD_COMMENT" "m_current_block s \<noteq> KEYWORD_DESCRIPTION"
  shows "\<exists>s'. ProcessRawLine E raw s = Inr s'
      \<and> module_store s' = module_store s
      \<and> module_next s' = module_next s
      \<and> m_root_module s' = m_root_module s
      \<and> m_current_module s' = m_current_module s
      \<and> m_definition s' = m_definition s
      \<and> m_current_block s' = KEYWORD_BEAMS
      \<and> m_current_submesh s' = m_current_submesh s
      \<and> m_current_camera_rail s' = m_current_camera_rail s"
  by (simp add: ProcessRawLine_open_beams[OF assms] tokenized_fields)

lemma ProcessRawLine_end_section_fields:
  assumes "line_is E raw KEYWORD_END_SECTION 0" and "name (m_definition s) \<noteq> []"
    and "m_current_block s \<noteq> KEYWORD_COMMENT" "m_current_block s \<noteq> KEYWORD_DESCRIPTION"
    and "m_current_submesh s = None" "m_current_camera_rail s = None"
    and "m_current_module s \<noteq> m_root_module s"
  shows "\<exists>s'. ProcessRawLine E raw s = Inr s'
      \<and> module_store s' = module_store s
      \<and> module_next s' = module_next s
      \<and> m_root_module s' = m_root_module s
      \<and> m_current_module s' = m_root_module s
      \<and> m_definition s' = m_definition s
      \<and> m_current_block s' = KEYWORD_INVALID
      \<and> m_current_submesh s' = None
      \<and> m_current_camera_rail s' = None"
  by (simp add: ProcessRawLine_end_section[OF assms] tokenized_fields assms(5,6))

lemma ProcessRawLine_section_current_fields:
  assumes "line_is E raw KEYWORD_SECTION 3" and "name (m_definition s) \<noteq> []"
    and "m_current_block s \<noteq> KEYWORD_COMMENT" "m_current_block s \<noteq> KEYWORD_DESCRIPTION"
    and "line_tokens E (line_text E raw) ! 2 = mod_name (current_module s)"
  shows "\<exists>s'. ProcessRawLine E raw s = Inr s'
      \<and> module_store s' = module_store s
      \<and> module_next s' = module_next s
      \<and> m_current_module s' = m_current_module s
      \<and> m_definition s' = m_definition s
      \<and> m_current_block s' = m_current_block s
      \<and> console s' = console s @
            [\<lparr>msg_type = CONSOLE_SYSTEM_ERROR, msg_line = m_current_line_number s,
              msg_keyword = KEYWORD_SECTION, msg_text = Reenter_current_module\<rparr>]"
  by (simp add: ProcessRawLine_section_current[OF assms] tokenized_fields LogMessage_def)


text \<open>
  C8.  In the root module, with nothing staged: a \<^verbatim>\<open>section\<close> line that names a module
  \<open>alpha\<close> not yet known, two beam lines in a \<^verbatim>\<open>beams\<close> section, \<^verbatim>\<open>end_section\<close>, and one
  beam line in a \<^verbatim>\<open>beams\<close> section (a module switch closes the section, so the keyword
  \<^verbatim>\<open>beams\<close> opens it again).  After these lines the root module has gained exactly the
  third beam and the module registered under \<open>alpha\<close> holds exactly the first two.  A
  second \<^verbatim>\<open>section\<close> line for \<open>alpha\<close> creates no module: the registry and the allocation
  counter are unchanged and the next beam is appended to the same module object.  A
  \<^verbatim>\<open>section\<close> line that names the module which is current logs one error and changes
  neither the current module nor any module.
\<close>

theorem module_switching:
  assumes "name (m_definition s) \<noteq> []"
    and "m_current_block s \<noteq> KEYWORD_COMMENT" "m_current_block s \<noteq> KEYWORD_DESCRIPTION"
    and "m_current_submesh s = None" "m_current_camera_rail s = None"
    and "m_current_module s = m_root_module s" and "m_root_module s < module_next s"
    and "mod_name (current_module s) = ROOT_MODULE_NAME E"
    and "line_is E lsec KEYWORD_SECTION 3" and "line_tokens E (line_text E lsec) ! 2 = alpha"
    and "alpha \<noteq> ROOT_MODULE_NAME E" and "user_modules (m_definition s) alpha = None"
    and "line_is E lbeams KEYWORD_BEAMS 0" and "line_is E lend KEYWORD_END_SECTION 0"
    and "line_is E d1 KEYWORD_INVALID 2" and "line_is E d2 KEYWORD_INVALID 2"
    and "line_is E d3 KEYWORD_INVALID 2" and "line_is E d4 KEYWORD_INVALID 2"
  shows "\<exists>s7 s10 s11 a b1 b2 b3 b4.
      ProcessLines E [lsec, lbeams, d1, d2, lend, lbeams, d3] s = Inr s7
      \<and> user_modules (m_definition s7) = (user_modules (m_definition s))(alpha \<mapsto> a)
      \<and> a \<noteq> m_root_module s
      \<and> m_root_module s7 = m_root_module s
      \<and> m_current_module s7 = m_root_module s
      \<and> module_next s7 = Suc (module_next s)
      \<and> mod_name (module_store s7 a) = alpha
      \<and> beams (module_store s7 a) = [b1, b2]
      \<and> beams (module_store s7 (m_root_module s)) =
          beams (module_store s (m_root_module s)) @ [b3]
      \<and> ProcessLines E [lsec, lbeams, d4] s7 = Inr s10
      \<and> user_modules (m_definition s10) = user_modules (m_definition s7)
      \<and> module_next s10 = module_next s7
      \<and> m_current_module s10 = a
      \<and> m_root_module s10 = m_root_module s
      \<and> beams (module_store s10 a) = [b1, b2, b4]
      \<and> beams (module_store s10 (m_root_module s)) = beams (module_store s7 (m_root_module s))
      \<and> ProcessRawLine E lsec s10 = Inr s11
      \<and> m_current_module s11 = m_current_module s10
      \<and> module_store s11 = module_store s10
      \<and> m_definition s11 = m_definition s10
      \<and> m_current_block s11 = m_current_block s10
      \<and> console s11 = console s10 @
            [\<lparr>msg_type = CONSOLE_SYSTEM_ERROR, msg_line = m_current_line_number s10,
              msg_keyword = KEYWORD_SECTION, msg_text = Reenter_current_module\<rparr>]"
proof -
  let ?r = "m_root_module s"
  let ?a = "module_next s"
  let ?um = "user_modules (m_definition s)"
  let ?R = "module_store s ?r"
  note tok = assms(10)
  have ar: "?a \<noteq> ?r"
    using assms(7) by simp
  have n0: "line_tokens E (line_text E lsec) ! 2 \<noteq> mod_name (current_module s)"
    "line_tokens E (line_text E lsec) ! 2 \<noteq> ROOT_MODULE_NAME E"
    using assms(8,11) by (simp_all add: tok)
  from ProcessRawLine_section[OF assms(9) assms(1-5) n0]
  obtain s1 where r1: "ProcessRawLine E lsec s = Inr s1"
    and f1: "m_current_block s1 = KEYWORD_INVALID" "m_root_module s1 = ?r"
      "name (m_definition s1) = name (m_definition s)"
      "m_current_submesh s1 = None" "m_current_camera_rail s1 = None"
    and c1: "case ?um (line_tokens E (line_text E lsec) ! 2) of
            Some a \<Rightarrow>
              module_store s1 = module_store s
              \<and> module_next s1 = module_next s
              \<and> m_current_module s1 = a
              \<and> user_modules (m_definition s1) = ?um
          | None \<Rightarrow>
              module_store s1 = (module_store s)
                (?a := Module_ctor (line_tokens E (line_text E lsec) ! 2))
              \<and> module_next s1 = Suc ?a
              \<and> m_current_module s1 = ?a
              \<and> user_modules (m_definition s1) =
                  ?um(line_tokens E (line_text E lsec) ! 2 \<mapsto> ?a)"
    by blast
  from c1 have g1: "module_store s1 = (module_store s)(?a := Module_ctor alpha)"
    "module_next s1 = Suc ?a" "m_current_module s1 = ?a"
    "user_modules (m_definition s1) = ?um(alpha \<mapsto> ?a)"
    by (simp_all add: tok assms(12))
  have p1: "name (m_definition s1) \<noteq> []" "m_current_block s1 \<noteq> KEYWORD_COMMENT"
    "m_current_block s1 \<noteq> KEYWORD_DESCRIPTION"
    using assms(1) f1 by simp_all
  from ProcessRawLine_open_beams_fields[OF assms(13) p1]
  obtain s2 where r2: "ProcessRawLine E lbeams s1 = Inr s2"
    and f2: "module_store s2 = module_store s1" "module_next s2 = module_next s1"
      "m_root_module s2 = m_root_module s1" "m_current_module s2 = m_current_module s1"
      "m_definition s2 = m_definition s1" "m_current_block s2 = KEYWORD_BEAMS"
      "m_current_submesh s2 = m_current_submesh s1"
      "m_current_camera_rail s2 = m_current_camera_rail s1"
    by blast
  have p2: "name (m_definition s2) \<noteq> []"
    using p1 f2 by simp
  from ProcessRawLine_beam[OF assms(15) p2 f2(6)]
  obtain s3 b1 where r3: "ProcessRawLine E d1 s2 = Inr s3"
    and f3: "module_store s3 = (module_store s2)
           (m_current_module s2 :=
              (current_module s2)\<lparr>beams := beams (current_module s2) @ [b1]\<rparr>)"
      "module_next s3 = module_next s2" "m_root_module s3 = m_root_module s2"
      "m_current_module s3 = m_current_module s2" "m_definition s3 = m_definition s2"
      "m_current_block s3 = m_current_block s2" "m_current_submesh s3 = m_current_submesh s2"
      "m_current_camera_rail s3 = m_current_camera_rail s2"
    by blast
  have g3: "module_store s3 = (module_store s)(?a := (Module_ctor alpha)\<lparr>beams := [b1]\<rparr>)"
    by (simp add: f3 f2 g1 current_module_def Module_ctor_def)
  have p3: "name (m_definition s3) \<noteq> []" "m_current_block s3 = KEYWORD_BEAMS"
    using p2 f3 f2 by simp_all
  from ProcessRawLine_beam[OF assms(16) p3]
  obtain s4 b2 where r4: "ProcessRawLine E d2 s3 = Inr s4"
    and f4: "module_store s4 = (module_store s3)
           (m_current_module s3 :=
              (current_module s3)\<lparr>beams := beams (current_module s3) @ [b2]\<rparr>)"
      "module_next s4 = module_next s3" "m_root_module s4 = m_root_module s3"
      "m_current_module s4 = m_current_module s3" "m_definition s4 = m_definition s3"
      "m_current_block s4 = m_current_block s3" "m_current_submesh s4 = m_current_submesh s3"
      "m_current_camera_rail s4 = m_current_camera_rail s3"
    by blast
  have g4: "module_store s4 = (module_store s)(?a := (Module_ctor alpha)\<lparr>beams := [b1, b2]\<rparr>)"
    by (simp add: f4 g3 f3 f2 g1 current_module_def)
  have p4: "name (m_definition s4) \<noteq> []" "m_current_block s4 \<noteq> KEYWORD_COMMENT"
    "m_current_block s4 \<noteq> KEYWORD_DESCRIPTION" "m_current_submesh s4 = None"
    "m_current_camera_rail s4 = None" "m_current_module s4 \<noteq> m_root_module s4"
    using p3 f4 f3 f2 f1 g1 ar by simp_all
  from ProcessRawLine_end_section_fields[OF assms(14) p4]
  obtain s5 where r5: "ProcessRawLine E lend s4 = Inr s5"
    and f5: "module_store s5 = module_store s4" "module_next s5 = module_next s4"
      "m_root_module s5 = m_root_module s4" "m_current_module s5 = m_root_module s4"
      "m_definition s5 = m_definition s4" "m_current_block s5 = KEYWORD_INVALID"
      "m_current_submesh s5 = None" "m_current_camera_rail s5 = None"
    by blast
  have p5: "name (m_definition s5) \<noteq> []" "m_current_block s5 \<noteq> KEYWORD_COMMENT"
    "m_current_block s5 \<noteq> KEYWORD_DESCRIPTION"
    using p4 f5 by simp_all
  from ProcessRawLine_open_beams_fields[OF assms(13) p5]
  obtain s6 where r6: "ProcessRawLine E lbeams s5 = Inr s6"
    and f6: "module_store s6 = module_store s5" "module_next s6 = module_next s5"
      "m_root_module s6 = m_root_module s5" "m_current_module s6 = m_current_module s5"
      "m_definition s6 = m_definition s5" "m_current_block s6 = KEYWORD_BEAMS"
      "m_current_submesh s6 = m_current_submesh s5"
      "m_current_camera_rail s6 = m_current_camera_rail s5"
    by blast
  have p6: "name (m_definition s6) \<noteq> []"
    using p5 f6 by simp
  from ProcessRawLine_beam[OF assms(17) p6 f6(6)]
  obtain s7 b3 where r7: "ProcessRawLine E d3 s6 = Inr s7"
    and f7: "module_store s7 = (module_store s6)
           (m_current_module s6 :=
              (current_module s6)\<lparr>beams := beams (current_module s6) @ [b3]\<rparr>)"
      "module_next s7 = module_next s6" "m_root_module s7 = m_root_module s6"
      "m_current_module s7 = m_current_module s6" "m_definition s7 = m_definition s6"
      "m_current_block s7 = m_current_block s6" "m_current_submesh s7 = m_current_submesh s6"
      "m_current_camera_rail s7 = m_current_camera_rail s6"
    by blast
  have root7: "m_root_module s7 = ?r" "m_current_module s7 = ?r"
    by (simp_all add: f7 f6 f5 f4 f3 f2 f1)
  have g7: "module_store s7 =
      (module_store s)(?a := (Module_ctor alpha)\<lparr>beams := [b1, b2]\<rparr>,
                       ?r := ?R\<lparr>beams := beams ?R @ [b3]\<rparr>)"
    using ar by (simp add: f7 f6 f5 g4 f4 f3 f2 f1 current_module_def)
  have um7: "user_modules (m_definition s7) = ?um(alpha \<mapsto> ?a)"
    by (simp add: f7 f6 f5 f4 f3 f2 g1)
  have nx7: "module_next s7 = Suc ?a"
    by (simp add: f7 f6 f5 f4 f3 f2 g1)
  have run7: "ProcessLines E [lsec, lbeams, d1, d2, lend, lbeams, d3] s = Inr s7"
    using r1 r2 r3 r4 r5 r6 r7 by simp
  have p7: "name (m_definition s7) \<noteq> []" "m_current_block s7 \<noteq> KEYWORD_COMMENT"
    "m_current_block s7 \<noteq> KEYWORD_DESCRIPTION" "m_current_submesh s7 = None"
    "m_current_camera_rail s7 = None"
    using p6 f7 f6 f5 by simp_all
  have n7: "line_tokens E (line_text E lsec) ! 2 \<noteq> mod_name (current_module s7)"
    using assms(6,8,11) ar by (simp add: tok current_module_def root7 g7)
  from ProcessRawLine_section[OF assms(9) p7 n7 n0(2)]
  obtain s8 where r8: "ProcessRawLine E lsec s7 = Inr s8"
    and f8: "m_current_block s8 = KEYWORD_INVALID" "m_root_module s8 = m_root_module s7"
      "name (m_definition s8) = name (m_definition s7)"
      "m_current_submesh s8 = None" "m_current_camera_rail s8 = None"
    and c8: "case user_modules (m_definition s7) (line_tokens E (line_text E lsec) ! 2) of
            Some a \<Rightarrow>
              module_store s8 = module_store s7
              \<and> module_next s8 = module_next s7
              \<and> m_current_module s8 = a
              \<and> user_modules (m_definition s8) = user_modules (m_definition s7)
          | None \<Rightarrow>
              module_store s8 = (module_store s7)
                (module_next s7 := Module_ctor (line_tokens E (line_text E lsec) ! 2))
              \<and> module_next s8 = Suc (module_next s7)
              \<and> m_current_module s8 = module_next s7
              \<and> user_modules (m_definition s8) =
                  (user_modules (m_definition s7))
                    (line_tokens E (line_text E lsec) ! 2 \<mapsto> module_next s7)"
    by blast
  from c8 have g8: "module_store s8 = module_store s7" "module_next s8 = module_next s7"
    "m_current_module s8 = ?a" "user_modules (m_definition s8) = user_modules (m_definition s7)"
    by (simp_all add: tok um7)
  have p8: "name (m_definition s8) \<noteq> []" "m_current_block s8 \<noteq> KEYWORD_COMMENT"
    "m_current_block s8 \<noteq> KEYWORD_DESCRIPTION"
    using p7 f8 by simp_all
  from ProcessRawLine_open_beams_fields[OF assms(13) p8]
  obtain s9 where r9: "ProcessRawLine E lbeams s8 = Inr s9"
    and f9: "module_store s9 = module_store s8" "module_next s9 = module_next s8"
      "m_root_module s9 = m_root_module s8" "m_current_module s9 = m_current_module s8"
      "m_definition s9 = m_definition s8" "m_current_block s9 = KEYWORD_BEAMS"
      "m_current_submesh s9 = m_current_submesh s8"
      "m_current_camera_rail s9 = m_current_camera_rail s8"
    by blast
  have p9: "name (m_definition s9) \<noteq> []"
    using p8 f9 by simp
  from ProcessRawLine_beam[OF assms(18) p9 f9(6)]
  obtain s10 b4 where r10: "ProcessRawLine E d4 s9 = Inr s10"
    and f10: "module_store s10 = (module_store s9)
           (m_current_module s9 :=
              (current_module s9)\<lparr>beams := beams (current_module s9) @ [b4]\<rparr>)"
      "module_next s10 = module_next s9" "m_root_module s10 = m_root_module s9"
      "m_current_module s10 = m_current_module s9" "m_definition s10 = m_definition s9"
      "m_current_block s10 = m_current_block s9" "m_current_submesh s10 = m_current_submesh s9"
      "m_current_camera_rail s10 = m_current_camera_rail s9"
    by blast
  have run10: "ProcessLines E [lsec, lbeams, d4] s7 = Inr s10"
    using r8 r9 r10 by simp
  have cur10: "m_current_module s10 = ?a" "m_root_module s10 = ?r"
    by (simp_all add: f10 f9 g8 f8 root7)
  have g10: "module_store s10 =
      (module_store s7)(?a := (module_store s7 ?a)\<lparr>beams := beams (module_store s7 ?a) @ [b4]\<rparr>)"
    by (simp add: f10 f9 g8 current_module_def)
  have p10: "name (m_definition s10) \<noteq> []" "m_current_block s10 \<noteq> KEYWORD_COMMENT"
    "m_current_block s10 \<noteq> KEYWORD_DESCRIPTION"
    using p9 f10 f9 by simp_all
  have n10: "line_tokens E (line_text E lsec) ! 2 = mod_name (current_module s10)"
    using ar by (simp add: tok current_module_def cur10(1) g10 g7 Module_ctor_def)
  from ProcessRawLine_section_current_fields[OF assms(9) p10 n10]
  obtain s11 where r11: "ProcessRawLine E lsec s10 = Inr s11"
    and f11: "module_store s11 = module_store s10" "module_next s11 = module_next s10"
      "m_current_module s11 = m_current_module s10" "m_definition s11 = m_definition s10"
      "m_current_block s11 = m_current_block s10"
      "console s11 = console s10 @
            [\<lparr>msg_type = CONSOLE_SYSTEM_ERROR, msg_line = m_current_line_number s10,
              msg_keyword = KEYWORD_SECTION, msg_text = Reenter_current_module\<rparr>]"
    by blast
  have a7: "mod_name (module_store s7 ?a) = alpha" "beams (module_store s7 ?a) = [b1, b2]"
    "beams (module_store s7 ?r) = beams ?R @ [b3]"
    using ar by (simp_all add: g7 Module_ctor_def)
  have a10: "user_modules (m_definition s10) = user_modules (m_definition s7)"
    "module_next s10 = module_next s7"
    "beams (module_store s10 ?a) = [b1, b2, b4]"
    "beams (module_store s10 ?r) = beams (module_store s7 ?r)"
    using ar by (simp_all add: f10(2-) f9 g8 g10 a7)
  show ?thesis
    apply (rule exI[of _ s7], rule exI[of _ s10], rule exI[of _ s11], rule exI[of _ ?a])
    apply (rule exI[of _ b1], rule exI[of _ b2], rule exI[of _ b3], rule exI[of _ b4])
    apply (intro conjI)
    apply (rule run7 um7 ar root7 nx7 a7 a10 run10 cur10 r11 f11)+
    done
qed


theorem module_switching_witness:
  "observe (\<lambda>s. (length (beams (module_store s (m_root_module s))),
                  map_option (\<lambda>a. length (beams (module_store s a)))
                    (user_modules (m_definition s) ''alpha''),
                  module_next s))
     (ProcessLines example_env
        [''section 1 alpha'', ''beams'', ''1, 2'', ''2, 3'', ''end_section'', ''beams'', ''3, 4'']
        (example_start\<lparr>m_definition := (m_definition example_start)\<lparr>name := ''My truck''\<rparr>\<rparr>)) =
     Some (1, Some 2, 2)
   \<and> observe (\<lambda>s. (length (beams (module_store s (m_root_module s))),
                  map_option (\<lambda>a. length (beams (module_store s a)))
                    (user_modules (m_definition s) ''alpha''),
                  module_next s))
     (ProcessLines example_env
        ([''section 1 alpha'', ''beams'', ''1, 2'', ''2, 3'', ''end_section'', ''beams'', ''3, 4'']
         @ [''section 1 alpha'', ''beams'', ''4, 5''])
        (example_start\<lparr>m_definition := (m_definition example_start)\<lparr>name := ''My truck''\<rparr>\<rparr>)) =
     Some (1, Some 3, 2)"
proof -
  let ?s = "example_start\<lparr>m_definition := (m_definition example_start)\<lparr>name := ''My truck''\<rparr>\<rparr>"
  let ?E = example_env
  have h: "name (m_definition ?s) \<noteq> []"
    by simp
  have e: "m_current_block ?s \<noteq> KEYWORD_COMMENT" "m_current_block ?s \<noteq> KEYWORD_DESCRIPTION"
    "m_current_submesh ?s = None" "m_current_camera_rail ?s = None"
    "m_current_module ?s = m_root_module ?s" "m_root_module ?s < module_next ?s"
    "mod_name (current_module ?s) = ROOT_MODULE_NAME ?E"
    by code_simp+
  have l: "line_is ?E ''section 1 alpha'' KEYWORD_SECTION 3"
    "line_tokens ?E (line_text ?E ''section 1 alpha'') ! 2 = ''alpha''"
    "''alpha'' \<noteq> ROOT_MODULE_NAME ?E"
    "user_modules (m_definition ?s) ''alpha'' = None"
    "line_is ?E ''beams'' KEYWORD_BEAMS 0" "line_is ?E ''end_section'' KEYWORD_END_SECTION 0"
    "line_is ?E ''1, 2'' KEYWORD_INVALID 2" "line_is ?E ''2, 3'' KEYWORD_INVALID 2"
    "line_is ?E ''3, 4'' KEYWORD_INVALID 2" "line_is ?E ''4, 5'' KEYWORD_INVALID 2"
    by code_simp+
  have v: "beams (module_store ?s (m_root_module ?s)) = []" "module_next ?s = 1"
    by code_simp+
  from module_switching[OF h e l]
  obtain s7 s10 a b1 b2 b3 b4 where
    run7: "ProcessLines ?E
        [''section 1 alpha'', ''beams'', ''1, 2'', ''2, 3'', ''end_section'', ''beams'', ''3, 4'']
        ?s = Inr s7"
    and um7: "user_modules (m_definition s7) = (user_modules (m_definition ?s))(''alpha'' \<mapsto> a)"
    and root7: "m_root_module s7 = m_root_module ?s"
    and nx7: "module_next s7 = Suc (module_next ?s)"
    and al7: "beams (module_store s7 a) = [b1, b2]"
    and rt7: "beams (module_store s7 (m_root_module ?s)) =
          beams (module_store ?s (m_root_module ?s)) @ [b3]"
    and run10: "ProcessLines ?E [''section 1 alpha'', ''beams'', ''4, 5''] s7 = Inr s10"
    and um10: "user_modules (m_definition s10) = user_modules (m_definition s7)"
    and nx10: "module_next s10 = module_next s7"
    and al10: "beams (module_store s10 a) = [b1, b2, b4]"
    and rt10: "beams (module_store s10 (m_root_module ?s)) =
          beams (module_store s7 (m_root_module ?s))"
    and root10: "m_root_module s10 = m_root_module ?s"
    by blast
  have all10: "ProcessLines ?E
        ([''section 1 alpha'', ''beams'', ''1, 2'', ''2, 3'', ''end_section'', ''beams'', ''3, 4'']
         @ [''section 1 alpha'', ''beams'', ''4, 5'']) ?s = Inr s10"
    unfolding ProcessLines_append run7 using run10 by simp
  have "observe (\<lambda>s. (length (beams (module_store s (m_root_module s))),
                  map_option (\<lambda>a. length (beams (module_store s a)))
                    (user_modules (m_definition s) ''alpha''),
                  module_next s)) (Inr s7) = Some (1, Some 2, 2)"
    using root7 um7 al7 rt7 nx7 v by (simp add: observe_def)
  moreover have "observe (\<lambda>s. (length (beams (module_store s (m_root_module s))),
                  map_option (\<lambda>a. length (beams (module_store s a)))
                    (user_modules (m_definition s) ''alpha''),
                  module_next s)) (Inr s10) = Some (1, Some 3, 2)"
    using root10 um10 um7 al10 rt10 rt7 nx10 nx7 v by (simp add: observe_def)
  ultimately show ?thesis
    unfolding all10 run7 by (rule conjI)
qed

section \<open>Trailing comments\<close>

lemma beam_options_loop_beam:
  "fst (beam_options_loop cs b s) = fst (beam_options_loop cs b s')"
  by (induction cs arbitrary: b s s') simp_all

lemma beam_options_loop_support:
  "OPTION_s_SUPPORT \<in> beam_options (fst (beam_options_loop cs b s)) \<longleftrightarrow>
     CHR ''s'' \<in> set cs \<or> OPTION_s_SUPPORT \<in> beam_options b"
  by (induction cs arbitrary: b s) auto

lemma beam_options_loop_rest:
  "beam_defaults (fst (beam_options_loop cs b s)) = beam_defaults b"
  by (induction cs arbitrary: b s) simp_all

lemma ParseBeams_three:
  assumes "3 \<le> m_num_args u" and "CHR ''s'' \<notin> set (GetArgStr u 2)"
    and "OPTION_s_SUPPORT \<notin> beam_options (new_Beam E)"
  shows "ParseBeams E u =
     update_current_module
       (\<lambda>m. m\<lparr>beams := beams m @
          [fst (beam_options_loop (GetArgStr u 2)
                 ((new_Beam E)\<lparr>beam_defaults := m_user_beam_defaults u,
                               beam_detacher_group := m_current_detacher_group u,
                               beam_nodes := (GetArgNodeRef E u 0, GetArgNodeRef E u 1)\<rparr>) u)]\<rparr>)
       (snd (beam_options_loop (GetArgStr u 2)
                 ((new_Beam E)\<lparr>beam_defaults := m_user_beam_defaults u,
                               beam_detacher_group := m_current_detacher_group u,
                               beam_nodes := (GetArgNodeRef E u 0, GetArgNodeRef E u 1)\<rparr>) u))"
proof -
  from assms(1) have c: "CheckNumArguments 2 u = (True, u)" and n: "2 < m_num_args u"
    by (simp_all add: CheckNumArguments_enough)
  show ?thesis
    using assms(2,3) n
    by (simp add: ParseBeams_def c Let_def split_beta beam_options_loop_support)
qed


lemma ProcessRawLine_beam_three:
  assumes "line_is E raw KEYWORD_INVALID 3" and "name (m_definition s) \<noteq> []"
    and "m_current_block s = KEYWORD_BEAMS"
    and "CHR ''s'' \<notin> set (line_tokens E (line_text E raw) ! 2)"
    and "OPTION_s_SUPPORT \<notin> beam_options (new_Beam E)"
  shows "\<exists>s'. ProcessRawLine E raw s = Inr s'
      \<and> beams (current_module s') = beams (current_module s) @
          [fst (beam_options_loop (line_tokens E (line_text E raw) ! 2)
                 ((new_Beam E)
                    \<lparr>beam_defaults := m_user_beam_defaults s,
                     beam_detacher_group := m_current_detacher_group s,
                     beam_nodes := (ParseNodeRef E s (line_tokens E (line_text E raw) ! 0),
                                    ParseNodeRef E s (line_tokens E (line_text E raw) ! 1))\<rparr>) s)]
      \<and> m_current_line s' = line_text E raw
      \<and> m_num_args s' = length (line_tokens E (line_text E raw))"
proof -
  let ?k = KEYWORD_INVALID
  let ?t = "tokenized E raw ?k s"
  let ?toks = "line_tokens E (line_text E raw)"
  define B where "B = (new_Beam E)\<lparr>beam_defaults := m_user_beam_defaults s,
                          beam_detacher_group := m_current_detacher_group s,
                          beam_nodes := (ParseNodeRef E s (?toks ! 0), ParseNodeRef E s (?toks ! 1))\<rparr>"
  define opts where "opts = ?toks ! 2"
  define u where "u = ?t\<lparr>m_log_keyword := m_current_block ?t\<rparr>"
  from assms(3) have blk: "m_current_block s \<noteq> KEYWORD_COMMENT"
    "m_current_block s \<noteq> KEYWORD_DESCRIPTION"
    by auto
  from assms(1) have len: "3 \<le> length ?toks"
    by (simp add: line_is_def)
  then have n: "3 \<le> m_num_args u"
    by (simp add: u_def tokenized_num_args)
  have uf: "m_user_beam_defaults u = m_user_beam_defaults s"
    "m_current_detacher_group u = m_current_detacher_group s"
    "m_current_line u = line_text E raw" "m_num_args u = length ?toks"
    "module_store u = module_store s" "m_current_module u = m_current_module s"
    by (simp_all add: u_def tokenized_fields tokenized_num_args)
  have g: "GetArgStr u i = GetArgStr ?t i" for i
    by (simp add: u_def GetArgStr_def arg_cstr_def arg_slice_def)
  from len have i: "0 < length ?toks" "1 < length ?toks" "2 < length ?toks"
    by auto
  have a: "GetArgStr u 0 = ?toks ! 0" "GetArgStr u 1 = ?toks ! 1" "GetArgStr u 2 = opts"
    unfolding g opts_def by (rule tokenized_GetArgStr[OF i(1)] tokenized_GetArgStr[OF i(2)]
        tokenized_GetArgStr[OF i(3)])+
  have pr: "ParseNodeRef E u str = ParseNodeRef E s str" for str
    by (simp add: u_def ParseNodeRef_def tokenized_fields)
  have "GetArgNodeRef E u 0 = ParseNodeRef E s (?toks ! 0)"
    "GetArgNodeRef E u 1 = ParseNodeRef E s (?toks ! 1)"
    unfolding GetArgNodeRef_def a pr by (rule refl)+
  then have B: "(new_Beam E)\<lparr>beam_defaults := m_user_beam_defaults u,
                         beam_detacher_group := m_current_detacher_group u,
                         beam_nodes := (GetArgNodeRef E u 0, GetArgNodeRef E u 1)\<rparr> = B"
    by (simp only: uf B_def)
  have "CHR ''s'' \<notin> set (GetArgStr u 2)"
    unfolding a opts_def by (rule assms(4))
  from ParseBeams_three[OF n this assms(5)]
  have eq: "ParseBeams E u =
      update_current_module
        (\<lambda>m. m\<lparr>beams := beams m @ [fst (beam_options_loop opts B u)]\<rparr>)
        (snd (beam_options_loop opts B u))"
    unfolding B a .
  have l: "only_logs u (snd (beam_options_loop opts B u))"
    by (rule only_logs_beam_options_loop)
  have d: "dispatch_keyword E ?k ?t = Inr (ParseBeams E u)"
    using assms(3)
    by (auto simp: u_def dispatch_keyword_def parse_current_block_def tokenized_fields)
  define s' where "s' = (ParseBeams E u)
      \<lparr>m_current_line_number := Suc (m_current_line_number (ParseBeams E u))\<rparr>"
  have run: "ProcessRawLine E raw s = Inr s'"
    using ProcessRawLine_line[OF assms(1,2) blk] d by (simp add: s'_def)
  have cu: "current_module u = current_module s"
    by (simp add: current_module_def uf)
  have "current_module s' = current_module (ParseBeams E u)"
    by (simp add: s'_def current_module_def)
  then have "beams (current_module s') =
      beams (current_module s) @ [fst (beam_options_loop opts B u)]"
    unfolding eq
    by (simp add: only_logs_reads[OF l] cu)
  then have "beams (current_module s') =
      beams (current_module s) @ [fst (beam_options_loop opts B s)]"
    by (simp add: beam_options_loop_beam[of _ _ u s])
  moreover have "m_current_line s' = line_text E raw" "m_num_args s' = length ?toks"
    unfolding s'_def eq
    by (simp_all add: update_current_module_def only_logs_fields[OF l] uf)
  ultimately show ?thesis
    using run unfolding B_def opts_def by blast
qed

lemma ProcessRawLine_help:
  assumes "line_is E raw KEYWORD_INVALID 0" and "name (m_definition s) \<noteq> []"
    and "m_current_block s = KEYWORD_HELP"
  shows "\<exists>s'. ProcessRawLine E raw s = Inr s'
      \<and> help_records (current_module s') =
          help_records (current_module s) @ [\<lparr>material = line_text E raw\<rparr>]"
proof -
  let ?t = "tokenized E raw KEYWORD_INVALID s"
  let ?u = "?t\<lparr>m_log_keyword := m_current_block ?t\<rparr>"
  from assms(3) have blk: "m_current_block s \<noteq> KEYWORD_COMMENT"
    "m_current_block s \<noteq> KEYWORD_DESCRIPTION"
    by auto
  have d: "dispatch_keyword E KEYWORD_INVALID ?t = Inr (ParseHelp ?u)"
    using assms(3) by (auto simp: dispatch_keyword_def parse_current_block_def tokenized_fields)
  have "help_records (current_module (ParseHelp ?u)) =
      help_records (current_module s) @ [\<lparr>material = line_text E raw\<rparr>]"
    by (simp add: ParseHelp_def current_module_def update_current_module_def tokenized_fields)
  with ProcessRawLine_line[OF assms(1,2) blk] d show ?thesis
    by (simp add: current_module_def)
qed


text \<open>
  C4, as amended.  The parser strips no trailing comment: the whole line, less its
  leading white space, is the current line and is tokenized, so what follows a \<^verbatim>\<open>;\<close> or
  \<^verbatim>\<open>//\<close> reaches the section parser as arguments.  Two lines of a \<^verbatim>\<open>beams\<close> section whose
  first three tokens are the same, the third without the option \<^verbatim>\<open>s\<close>, append the same
  record, because the parser then reads no further token.  A line of a \<^verbatim>\<open>help\<close> section is
  stored whole.
\<close>

theorem trailing_tokens_are_arguments:
  "(name (m_definition s) \<noteq> [] \<and> m_current_block s = KEYWORD_BEAMS
      \<and> line_is E l1 KEYWORD_INVALID 3 \<and> line_is E l2 KEYWORD_INVALID 3
      \<and> take 3 (line_tokens E (line_text E l1)) = take 3 (line_tokens E (line_text E l2))
      \<and> CHR ''s'' \<notin> set (line_tokens E (line_text E l1) ! 2)
      \<and> OPTION_s_SUPPORT \<notin> beam_options (new_Beam E)
    \<longrightarrow> (\<exists>s1 s2 b.
          ProcessRawLine E l1 s = Inr s1 \<and> ProcessRawLine E l2 s = Inr s2
          \<and> beams (current_module s1) = beams (current_module s) @ [b]
          \<and> beams (current_module s2) = beams (current_module s) @ [b]
          \<and> m_current_line s2 = line_text E l2
          \<and> m_num_args s2 = length (line_tokens E (line_text E l2))))
   \<and> (name (m_definition s) \<noteq> [] \<and> m_current_block s = KEYWORD_HELP
      \<and> line_is E l KEYWORD_INVALID 0
    \<longrightarrow> (\<exists>s'. ProcessRawLine E l s = Inr s'
          \<and> help_records (current_module s') =
              help_records (current_module s) @ [\<lparr>material = line_text E l\<rparr>]))"
proof (intro conjI impI)
  let ?t1 = "line_tokens E (line_text E l1)"
  let ?t2 = "line_tokens E (line_text E l2)"
  assume a: "name (m_definition s) \<noteq> [] \<and> m_current_block s = KEYWORD_BEAMS
      \<and> line_is E l1 KEYWORD_INVALID 3 \<and> line_is E l2 KEYWORD_INVALID 3
      \<and> take 3 ?t1 = take 3 ?t2
      \<and> CHR ''s'' \<notin> set (?t1 ! 2)
      \<and> OPTION_s_SUPPORT \<notin> beam_options (new_Beam E)"
  then have h: "name (m_definition s) \<noteq> []" "m_current_block s = KEYWORD_BEAMS"
    and l1: "line_is E l1 KEYWORD_INVALID 3" and l2: "line_is E l2 KEYWORD_INVALID 3"
    and tk: "take 3 ?t1 = take 3 ?t2" and o1: "CHR ''s'' \<notin> set (?t1 ! 2)"
    and nb: "OPTION_s_SUPPORT \<notin> beam_options (new_Beam E)"
    by simp_all
  have same: "?t1 ! i = ?t2 ! i" if "i < 3" for i
  proof -
    from that have "?t1 ! i = take 3 ?t1 ! i" "?t2 ! i = take 3 ?t2 ! i"
      by simp_all
    with tk show ?thesis
      by simp
  qed
  have e: "?t1 ! 0 = ?t2 ! 0" "?t1 ! 1 = ?t2 ! 1" "?t1 ! 2 = ?t2 ! 2"
    by (rule same, simp)+
  have o2: "CHR ''s'' \<notin> set (?t2 ! 2)"
    using o1 unfolding e .
  from ProcessRawLine_beam_three[OF l1 h o1 nb] obtain s1 where
    r1: "ProcessRawLine E l1 s = Inr s1"
    and b1: "beams (current_module s1) = beams (current_module s) @
          [fst (beam_options_loop (?t1 ! 2)
                 ((new_Beam E)
                    \<lparr>beam_defaults := m_user_beam_defaults s,
                     beam_detacher_group := m_current_detacher_group s,
                     beam_nodes := (ParseNodeRef E s (?t1 ! 0), ParseNodeRef E s (?t1 ! 1))\<rparr>) s)]"
    by blast
  from ProcessRawLine_beam_three[OF l2 h o2 nb] obtain s2 where
    r2: "ProcessRawLine E l2 s = Inr s2"
    and b2: "beams (current_module s2) = beams (current_module s) @
          [fst (beam_options_loop (?t2 ! 2)
                 ((new_Beam E)
                    \<lparr>beam_defaults := m_user_beam_defaults s,
                     beam_detacher_group := m_current_detacher_group s,
                     beam_nodes := (ParseNodeRef E s (?t2 ! 0), ParseNodeRef E s (?t2 ! 1))\<rparr>) s)]"
    and c2: "m_current_line s2 = line_text E l2" "m_num_args s2 = length ?t2"
    by blast
  have b1': "beams (current_module s1) = beams (current_module s) @
          [fst (beam_options_loop (?t2 ! 2)
                 ((new_Beam E)
                    \<lparr>beam_defaults := m_user_beam_defaults s,
                     beam_detacher_group := m_current_detacher_group s,
                     beam_nodes := (ParseNodeRef E s (?t2 ! 0), ParseNodeRef E s (?t2 ! 1))\<rparr>) s)]"
    using b1 unfolding e .
  from r1 r2 b1' b2 c2 show "\<exists>s1 s2 b.
          ProcessRawLine E l1 s = Inr s1 \<and> ProcessRawLine E l2 s = Inr s2
          \<and> beams (current_module s1) = beams (current_module s) @ [b]
          \<and> beams (current_module s2) = beams (current_module s) @ [b]
          \<and> m_current_line s2 = line_text E l2
          \<and> m_num_args s2 = length ?t2"
    by blast
next
  assume "name (m_definition s) \<noteq> [] \<and> m_current_block s = KEYWORD_HELP
      \<and> line_is E l KEYWORD_INVALID 0"
  then have "line_is E l KEYWORD_INVALID 0" "name (m_definition s) \<noteq> []"
    "m_current_block s = KEYWORD_HELP"
    by simp_all
  then show "\<exists>s'. ProcessRawLine E l s = Inr s'
          \<and> help_records (current_module s') =
              help_records (current_module s) @ [\<lparr>material = line_text E l\<rparr>]"
    by (rule ProcessRawLine_help)
qed

theorem trailing_tokens_are_arguments_witness:
  "observe (beams \<circ> current_module)
     (ProcessRawLine example_env ''beam 1 2 ; comment''
        (example_start\<lparr>m_definition := (m_definition example_start)\<lparr>name := ''My truck''\<rparr>,
                        m_current_block := KEYWORD_BEAMS\<rparr>)) =
   observe (beams \<circ> current_module)
     (ProcessRawLine example_env ''beam 1 2''
        (example_start\<lparr>m_definition := (m_definition example_start)\<lparr>name := ''My truck''\<rparr>,
                        m_current_block := KEYWORD_BEAMS\<rparr>))
   \<and> observe (beams \<circ> current_module)
     (ProcessRawLine example_env ''beam 1 2 //comment''
        (example_start\<lparr>m_definition := (m_definition example_start)\<lparr>name := ''My truck''\<rparr>,
                        m_current_block := KEYWORD_BEAMS\<rparr>)) =
   observe (beams \<circ> current_module)
     (ProcessRawLine example_env ''beam 1 2''
        (example_start\<lparr>m_definition := (m_definition example_start)\<lparr>name := ''My truck''\<rparr>,
                        m_current_block := KEYWORD_BEAMS\<rparr>))
   \<and> observe (length \<circ> beams \<circ> current_module)
     (ProcessRawLine example_env ''beam 1 2''
        (example_start\<lparr>m_definition := (m_definition example_start)\<lparr>name := ''My truck''\<rparr>,
                        m_current_block := KEYWORD_BEAMS\<rparr>)) = Some 1
   \<and> observe (help_records \<circ> current_module)
     (ProcessRawLine example_env ''help some/path/thing''
        (example_start\<lparr>m_definition := (m_definition example_start)\<lparr>name := ''My truck''\<rparr>,
                        m_current_block := KEYWORD_HELP\<rparr>)) =
     Some [\<lparr>material = ''help some/path/thing''\<rparr>]"
proof -
  let ?E = example_env
  let ?sB = "example_start\<lparr>m_definition := (m_definition example_start)\<lparr>name := ''My truck''\<rparr>,
                        m_current_block := KEYWORD_BEAMS\<rparr>"
  let ?sH = "example_start\<lparr>m_definition := (m_definition example_start)\<lparr>name := ''My truck''\<rparr>,
                        m_current_block := KEYWORD_HELP\<rparr>"
  let ?l0 = "''beam 1 2''"
  let ?l1 = "''beam 1 2 ; comment''"
  let ?l2 = "''beam 1 2 //comment''"
  let ?lh = "''help some/path/thing''"
  have h: "name (m_definition ?sB) \<noteq> []" "m_current_block ?sB = KEYWORD_BEAMS"
    "name (m_definition ?sH) \<noteq> []" "m_current_block ?sH = KEYWORD_HELP"
    by simp_all
  have l: "line_is ?E ?l0 KEYWORD_INVALID 3" "line_is ?E ?l1 KEYWORD_INVALID 3"
    "line_is ?E ?l2 KEYWORD_INVALID 3" "line_is ?E ?lh KEYWORD_INVALID 0"
    by code_simp+
  have t: "take 3 (line_tokens ?E (line_text ?E ?l0)) = take 3 (line_tokens ?E (line_text ?E ?l1))"
    "take 3 (line_tokens ?E (line_text ?E ?l0)) = take 3 (line_tokens ?E (line_text ?E ?l2))"
    "CHR ''s'' \<notin> set (line_tokens ?E (line_text ?E ?l0) ! 2)"
    "OPTION_s_SUPPORT \<notin> beam_options (new_Beam ?E)"
    "line_text ?E ?lh = ?lh"
    by code_simp+
  have v: "beams (current_module ?sB) = []" "help_records (current_module ?sH) = []"
    by code_simp+
  from trailing_tokens_are_arguments[of ?sB ?E ?l0 ?l1] h l t
  obtain s1 s2 b where
    "ProcessRawLine ?E ?l0 ?sB = Inr s1" "ProcessRawLine ?E ?l1 ?sB = Inr s2"
    "beams (current_module s1) = beams (current_module ?sB) @ [b]"
    "beams (current_module s2) = beams (current_module ?sB) @ [b]"
    by blast
  then have c1: "observe (beams \<circ> current_module) (ProcessRawLine ?E ?l1 ?sB) =
      observe (beams \<circ> current_module) (ProcessRawLine ?E ?l0 ?sB)"
    and c3: "observe (length \<circ> beams \<circ> current_module) (ProcessRawLine ?E ?l0 ?sB) = Some 1"
    by (simp_all add: observe_def v)
  from trailing_tokens_are_arguments[of ?sB ?E ?l0 ?l2] h l t
  obtain s1 s2 b where
    "ProcessRawLine ?E ?l0 ?sB = Inr s1" "ProcessRawLine ?E ?l2 ?sB = Inr s2"
    "beams (current_module s1) = beams (current_module ?sB) @ [b]"
    "beams (current_module s2) = beams (current_module ?sB) @ [b]"
    by blast
  then have c2: "observe (beams \<circ> current_module) (ProcessRawLine ?E ?l2 ?sB) =
      observe (beams \<circ> current_module) (ProcessRawLine ?E ?l0 ?sB)"
    by (simp add: observe_def)
  from trailing_tokens_are_arguments[of ?sH ?E _ _ ?lh] h l
  obtain s' where "ProcessRawLine ?E ?lh ?sH = Inr s'"
    "help_records (current_module s') =
       help_records (current_module ?sH) @ [\<lparr>material = line_text ?E ?lh\<rparr>]"
    by blast
  then have c4: "observe (help_records \<circ> current_module) (ProcessRawLine ?E ?lh ?sH) =
      Some [\<lparr>material = ?lh\<rparr>]"
    by (simp add: observe_def v t)
  from c1 c2 c3 c4 show ?thesis
    by (intro conjI)
qed

theorem trailing_comment_changes_record_counterexample:
  "observe (map beam_options \<circ> beams \<circ> current_module)
     (ProcessLines example_env [''My truck'', ''beams'', ''1 2 ;i''] example_start) =
     Some [{OPTION_i_INVISIBLE}]
   \<and> observe (map beam_options \<circ> beams \<circ> current_module)
     (ProcessLines example_env [''My truck'', ''beams'', ''1 2 //rope''] example_start) =
     Some [{OPTION_r_ROPE}]
   \<and> observe (map beam_options \<circ> beams \<circ> current_module)
     (ProcessLines example_env [''My truck'', ''beams'', ''1 2''] example_start) =
     Some [{}]"
  by code_simp

end
